theory Spec2Isabelle
  imports Main "HOL-Library.Word"
begin

unbundle bit_operations_syntax

section \<open>The GATT client procedure engine of ble\_gattc.c\<close>

text \<open>
  A shallow embedding of \<^verbatim>\<open>host/src/ble_gattc.c\<close>. The engine's globals (the list
  of active procedures, the list of procedures parked for auto-pair replay, the resume
  time and the record pool) are fields of the record \<open>hs\<close>; every C function that
  touches them takes an \<open>hs\<close> and returns the new one. What the engine does to its
  collaborators (ATT transmits, application callbacks, GAP calls, buffers it releases)
  is appended to the field \<open>trace\<close>, in program order, each call with the value it
  returned. What the collaborators answer is not decided by this file: the record
  \<open>env\<close> holds one function per collaborator, and those that can answer differently
  from call to call take the trace so far as an argument.

  Build configuration. \<^verbatim>\<open>NIMBLE_BLE_CONNECT\<close>, \<^verbatim>\<open>BLE_GATTC\<close> and \<^verbatim>\<open>BLE_GATTS\<close> are
  on (the file is compiled whole); \<^verbatim>\<open>BLE_HS_DEBUG\<close> is off, so debug asserts and the
  0xff wipe of a freed record are absent; \<^verbatim>\<open>BLE_GATTC_PROC_PREEMPTION_PROTECT\<close> is off
  (its pending list links a record through the same \<^verbatim>\<open>next\<close> field as the main list,
  which lists of records do not express). Statistics counters and log lines are left
  out. The other \<^verbatim>\<open>MYNEWT_VAL\<close> switches are fields of \<open>config\<close>.
\<close>

subsection \<open>Machine types and constants\<close>

type_synonym u8 = "8 word"
type_synonym u16 = "16 word"
type_synonym u32 = "32 word"

text \<open>An mbuf chain is the list of its packet bytes; a null pointer is \<open>None\<close>.\<close>

type_synonym mbuf = "u8 list"

text \<open>A C function pointer (\<open>None\<close> is NULL) and an opaque \<^verbatim>\<open>void *\<close>.\<close>

type_synonym fnptr = "nat option"
type_synonym voidptr = nat

text \<open>
  Modelled from the spec: the error kinds of its section 7. The headers that give
  them numbers (\<^verbatim>\<open>host/ble_hs.h\<close>, \<^verbatim>\<open>host/ble_att.h\<close>, \<^verbatim>\<open>nimble/ble.h\<close>,
  \<^verbatim>\<open>ble_l2cap.h\<close>) are not among the sources; the numbers are NimBLE's.
\<close>

abbreviation (input) BLE_HS_EINVAL :: int where "BLE_HS_EINVAL \<equiv> 3"
abbreviation (input) BLE_HS_ENOENT :: int where "BLE_HS_ENOENT \<equiv> 5"
abbreviation (input) BLE_HS_ENOMEM :: int where "BLE_HS_ENOMEM \<equiv> 6"
abbreviation (input) BLE_HS_ENOTCONN :: int where "BLE_HS_ENOTCONN \<equiv> 7"
abbreviation (input) BLE_HS_ENOTSUP :: int where "BLE_HS_ENOTSUP \<equiv> 8"
abbreviation (input) BLE_HS_EBADDATA :: int where "BLE_HS_EBADDATA \<equiv> 10"
abbreviation (input) BLE_HS_ETIMEOUT :: int where "BLE_HS_ETIMEOUT \<equiv> 13"
abbreviation (input) BLE_HS_EDONE :: int where "BLE_HS_EDONE \<equiv> 14"
abbreviation (input) BLE_HS_EAUTHEN :: int where "BLE_HS_EAUTHEN \<equiv> 23"
abbreviation (input) BLE_HS_EENCRYPT :: int where "BLE_HS_EENCRYPT \<equiv> 25"
abbreviation (input) BLE_HS_ERR_ATT_BASE :: int where "BLE_HS_ERR_ATT_BASE \<equiv> 256"
abbreviation (input) BLE_HS_FOREVER :: int where "BLE_HS_FOREVER \<equiv> 2147483647"
abbreviation (input) ENOTCONN :: int where "ENOTCONN \<equiv> 128"

abbreviation (input) BLE_ATT_ERR_INSUFFICIENT_AUTHEN :: u16 where "BLE_ATT_ERR_INSUFFICIENT_AUTHEN \<equiv> 5"
abbreviation (input) BLE_ATT_ERR_INVALID_OFFSET :: int where "BLE_ATT_ERR_INVALID_OFFSET \<equiv> 7"
abbreviation (input) BLE_ATT_ERR_ATTR_NOT_FOUND :: int where "BLE_ATT_ERR_ATTR_NOT_FOUND \<equiv> 10"
abbreviation (input) BLE_ATT_ERR_INSUFFICIENT_ENC :: u16 where "BLE_ATT_ERR_INSUFFICIENT_ENC \<equiv> 15"
abbreviation (input) BLE_ATT_ERR_DB_OUT_OF_SYNC :: int where "BLE_ATT_ERR_DB_OUT_OF_SYNC \<equiv> 18"

abbreviation (input) BLE_ERR_REM_USER_CONN_TERM :: u8 where "BLE_ERR_REM_USER_CONN_TERM \<equiv> 19"
abbreviation (input) BLE_L2CAP_CID_ATT :: u16 where "BLE_L2CAP_CID_ATT \<equiv> 4"
abbreviation (input) BLE_ATT_PREP_WRITE_CMD_BASE_SZ :: int where "BLE_ATT_PREP_WRITE_CMD_BASE_SZ \<equiv> 5"
abbreviation (input) BLE_ATT_EXEC_WRITE_F_CANCEL :: u8 where "BLE_ATT_EXEC_WRITE_F_CANCEL \<equiv> 0"
abbreviation (input) BLE_ATT_EXEC_WRITE_F_EXECUTE :: u8 where "BLE_ATT_EXEC_WRITE_F_EXECUTE \<equiv> 1"
abbreviation (input) BLE_ATT_UUID_PRIMARY_SERVICE :: u16 where "BLE_ATT_UUID_PRIMARY_SERVICE \<equiv> 10240"
abbreviation (input) BLE_ATT_UUID_INCLUDE :: u16 where "BLE_ATT_UUID_INCLUDE \<equiv> 10242"
abbreviation (input) BLE_ATT_UUID_CHARACTERISTIC :: u16 where "BLE_ATT_UUID_CHARACTERISTIC \<equiv> 10243"

text \<open>The constants the file defines itself (lines 87 to 110).\<close>

abbreviation (input) BLE_GATTC_UNRESPONSIVE_TIMEOUT_MS :: u32 where
  "BLE_GATTC_UNRESPONSIVE_TIMEOUT_MS \<equiv> 30000"
abbreviation (input) BLE_GATT_OP_NONE :: u8 where "BLE_GATT_OP_NONE \<equiv> 255"
abbreviation (input) BLE_GATT_OP_DISC_ALL_SVCS :: u8 where "BLE_GATT_OP_DISC_ALL_SVCS \<equiv> 1"
abbreviation (input) BLE_GATT_OP_READ_LONG :: u8 where "BLE_GATT_OP_READ_LONG \<equiv> 9"
abbreviation (input) BLE_GATT_OP_WRITE_LONG :: u8 where "BLE_GATT_OP_WRITE_LONG \<equiv> 13"
abbreviation (input) BLE_GATTC_PROC_F_STALLED :: u8 where "BLE_GATTC_PROC_F_STALLED \<equiv> 1"

subsection \<open>Data\<close>

datatype ble_uuid = Uuid16 u16 | Uuid32 u32 | Uuid128 "u8 list"

text \<open>\<^verbatim>\<open>struct ble_gatt_error\<close>: both fields are 16 bits wide.\<close>

record ble_gatt_error =
  status :: u16
  att_handle :: u16

record ble_gatt_attr =
  handle :: u16
  offset :: u16
  om :: "mbuf option"

text \<open>
  An attribute a write-long or reliable-write record owns: the same structure, with
  the payload the initiator was given (never null once the record exists).
\<close>

record owned_attr =
  a_handle :: u16
  a_offset :: u16
  a_om :: mbuf

definition attr_of :: "owned_attr \<Rightarrow> ble_gatt_attr" where
  "attr_of a = \<lparr>handle = a_handle a, offset = a_offset a, om = Some (a_om a)\<rparr>"

record ble_gatt_svc =
  start_handle :: u16
  end_handle :: u16
  uuid :: ble_uuid

text \<open>
  A pointer argument of a callback: null, a pointer to a filled structure, or a
  pointer to a local structure that the caller has not (fully) initialised.
\<close>

datatype 'a cptr = Null | Ptr 'a | Uninit

text \<open>
  The union of \<^verbatim>\<open>struct ble_gattc_proc\<close>, one constructor per member. The callback
  and its argument, which every member but \<^verbatim>\<open>indicate\<close> repeats, are the fields \<open>cb\<close>
  and \<open>cb_arg\<close> of the record below; \<^verbatim>\<open>read_mult\<close> has a second callback of its own.
  Arrays carry their length (\<^verbatim>\<open>num_handles\<close>, \<^verbatim>\<open>num_attrs\<close>).
\<close>

datatype proc_union =
    Mtu
  | Disc_all_svcs u16
  | Disc_svc_uuid ble_uuid u16
  | Find_inc_svcs u16 u16 u16 u16
  | Disc_all_chrs u16 u16
  | Disc_chr_uuid ble_uuid u16 u16
  | Disc_all_dscs u16 u16 u16
  | Read u16
  | Read_uuid ble_uuid u16 u16
  | Read_long u16 u16
  | Read_mult "u16 list" bool fnptr
  | Write u16 "mbuf option"
  | Write_long owned_attr u16
  | Write_reliable "owned_attr list" u8 u16
  | Indicate u16

text \<open>
  The constructors' arguments, in the order of the C members:
  \<open>Disc_all_svcs prev_handle\<close>, \<open>Disc_svc_uuid service_uuid prev_handle\<close>,
  \<open>Find_inc_svcs prev_handle end_handle cur_start cur_end\<close>,
  \<open>Disc_all_chrs prev_handle end_handle\<close>, \<open>Disc_chr_uuid chr_uuid prev_handle end_handle\<close>,
  \<open>Disc_all_dscs chr_val_handle prev_handle end_handle\<close>, \<open>Read handle\<close>,
  \<open>Read_uuid chr_uuid start_handle end_handle\<close>, \<open>Read_long handle offset\<close>,
  \<open>Read_mult handles variable cb_mult\<close>, \<open>Write att_handle om\<close>,
  \<open>Write_long attr length\<close>, \<open>Write_reliable attrs cur_attr length\<close>,
  \<open>Indicate chr_val_handle\<close>.
\<close>

text \<open>
  \<^verbatim>\<open>struct ble_gattc_proc\<close>. \<open>addr\<close> is the address of the pool block the record
  lives in: it is what pointer comparison compares and what goes back to the pool.
  The op code is read off the union's constructor (\<open>op_of\<close>).
\<close>

record ble_gattc_proc =
  addr :: nat
  error :: ble_gatt_error
  exp_os_ticks :: u32
  conn_handle :: u16
  cid :: u16
  flags :: u8
  cb :: fnptr
  cb_arg :: voidptr
  u :: proc_union

fun op_of_union :: "proc_union \<Rightarrow> u8" where
  "op_of_union Mtu = 0"
| "op_of_union (Disc_all_svcs _) = 1"
| "op_of_union (Disc_svc_uuid _ _) = 2"
| "op_of_union (Find_inc_svcs _ _ _ _) = 3"
| "op_of_union (Disc_all_chrs _ _) = 4"
| "op_of_union (Disc_chr_uuid _ _ _) = 5"
| "op_of_union (Disc_all_dscs _ _ _) = 6"
| "op_of_union (Read _) = 7"
| "op_of_union (Read_uuid _ _ _) = 8"
| "op_of_union (Read_long _ _) = 9"
| "op_of_union (Read_mult _ variable _) = (if variable then 11 else 10)"
| "op_of_union (Write _ _) = 12"
| "op_of_union (Write_long _ _) = 13"
| "op_of_union (Write_reliable _ _ _) = 14"
| "op_of_union (Indicate _) = 15"

definition op_of :: "ble_gattc_proc \<Rightarrow> u8" where
  "op_of p = op_of_union (u p)"

subsection \<open>Collaborators: requests, callbacks, events\<close>

text \<open>The ATT client transmit functions, each with its arguments.\<close>

datatype att_req =
    Tx_mtu u16 u16
  | Tx_read u16 u16 u16
  | Tx_read_blob u16 u16 u16 u16
  | Tx_read_type u16 u16 u16 u16 ble_uuid
  | Tx_read_group_type u16 u16 u16 u16 ble_uuid
  | Tx_find_info u16 u16 u16 u16
  | Tx_find_type_value u16 u16 u16 u16 u16 ble_uuid
  | Tx_read_mult u16 u16 "u16 list" bool
  | Tx_write_req u16 u16 u16 mbuf
  | Tx_signed_write_cmd u16 u16 u16 "u8 list" u32 mbuf
  | Tx_prep_write u16 u16 u16 u16 mbuf
  | Tx_exec_write u16 u16 u8
  | Tx_notify u16 u16 "mbuf option"
  | Tx_notify_mult u16 mbuf

text \<open>
  The application callbacks, each with the arguments the engine passes between the
  connection handle and \<^verbatim>\<open>cb_arg\<close>.
\<close>

datatype cb_call =
    Mtu_fn u16 ble_gatt_error u16
  | Disc_svc_fn u16 ble_gatt_error "ble_gatt_svc cptr"
  | Disc_incl_svc_fn u16 ble_gatt_error "ble_gatt_svc cptr"
  | Chr_fn u16 ble_gatt_error "unit cptr"
  | Dsc_fn u16 ble_gatt_error u16 "unit cptr"
  | Attr_fn u16 ble_gatt_error "ble_gatt_attr cptr"
  | Attr_mult_fn u16 ble_gatt_error "ble_gatt_attr list" nat
  | Reliable_attr_fn u16 ble_gatt_error "ble_gatt_attr list" nat

datatype cache_query =
    Search_all_svcs u16
  | Search_svc_by_uuid u16 ble_uuid
  | Search_inc_svcs u16 u16 u16
  | Search_all_chrs u16 u16 u16
  | Search_chrs_by_uuid u16 u16 u16 ble_uuid
  | Search_all_dscs u16 u16 u16

datatype event =
    Att_tx att_req int
  | App_cb nat cb_call voidptr int
  | Mbuf_alloc bool
  | Mbuf_free_chain mbuf
  | Hs_timer_resched
  | Eatt_release_chan u16 u8
  | Gap_terminate u16 u8
  | Gap_notify_tx_event int u16 u16 int
  | Gap_security_initiate u16 int
  | Gatts_rx_indicate_ack u16 u16 int
  | Gatts_send_next_indicate u16
  | Cache_conn_update u16 u16 u16
  | Cache_search cache_query int

datatype feature =
    BLE_GATT_DISC_ALL_SVCS | BLE_GATT_DISC_SVC_UUID | BLE_GATT_FIND_INC_SVCS
  | BLE_GATT_DISC_ALL_CHRS | BLE_GATT_DISC_CHR_UUID | BLE_GATT_DISC_ALL_DSCS
  | BLE_GATT_READ | BLE_GATT_READ_UUID | BLE_GATT_READ_LONG | BLE_GATT_READ_MULT
  | BLE_GATT_READ_MULT_VAR | BLE_GATT_WRITE | BLE_GATT_WRITE_LONG
  | BLE_GATT_WRITE_RELIABLE | BLE_GATT_SIGNED_WRITE | BLE_GATT_NOTIFY_MULTIPLE
  | BLE_GATT_CACHING | BLE_GATT_CACHING_INCLUDE_SERVICES | BLE_GATTC_AUTO_PAIR
  | BLE_EATT
  | NIMBLE_BLE_ATT_CLT_READ_BLOB | NIMBLE_BLE_ATT_CLT_READ_GROUP_TYPE
  | NIMBLE_BLE_ATT_CLT_PREP_WRITE

text \<open>
  \<open>BLE_EATT\<close> stands for \<^verbatim>\<open>MYNEWT_VAL(BLE_EATT_CHAN_NUM) > 0 && ble_hs_cfg.eatt\<close>.
\<close>

record config =
  MYNEWT_VAL :: "feature \<Rightarrow> bool"
  BLE_GATT_RESUME_RATE :: u32
  BLE_GATT_READ_MAX_ATTRS :: nat
  BLE_GATT_WRITE_MAX_ATTRS :: nat

record ble_gap_conn_desc =
  encrypted :: bool
  peer_id_addr :: "u8 list"

record ble_store_value_sec =
  csrk_present :: bool
  csrk :: "u8 list"
  sign_counter :: u32

text \<open>Of \<^verbatim>\<open>struct ble_hs_conn\<close>: the transmit queue and byte 0 of \<^verbatim>\<open>peer_cl_sup_feat\<close>.\<close>

record ble_hs_conn =
  att_tx_q :: "mbuf list"
  peer_cl_sup_feat_0 :: u8

text \<open>
  What the collaborators answer. \<open>ble_npl_time_get\<close> is the tick count, taken as
  constant while one engine function runs.
\<close>

record env =
  cfg :: config
  ble_npl_time_get :: u32
  ble_npl_time_ms_to_ticks32 :: "u32 \<Rightarrow> u32"
  att_tx :: "event list \<Rightarrow> att_req \<Rightarrow> int"
  app_cb :: "event list \<Rightarrow> nat \<Rightarrow> cb_call \<Rightarrow> voidptr \<Rightarrow> int"
  mbuf_alloc_ok :: "event list \<Rightarrow> bool"
  ble_att_mtu_by_cid :: "u16 \<Rightarrow> u16 \<Rightarrow> u16"
  ble_att_mtu :: "u16 \<Rightarrow> u16"
  ble_att_conn_chan_find :: "u16 \<Rightarrow> u16 \<Rightarrow> int \<times> u16"
  ble_eatt_get_available_chan_cid :: "u16 \<Rightarrow> u8 \<Rightarrow> u16"
  ble_gap_conn_find :: "u16 \<Rightarrow> int \<times> ble_gap_conn_desc"
  ble_hs_conn_find :: "u16 \<Rightarrow> ble_hs_conn option"
  ble_store_read_our_sec :: "u8 list \<Rightarrow> int \<times> ble_store_value_sec"
  ble_gap_security_initiate :: "u16 \<Rightarrow> int"
  ble_gatts_rx_indicate_ack :: "u16 \<Rightarrow> u16 \<Rightarrow> int"
  ble_uuid_init_from_att_buf :: "u8 list \<Rightarrow> int \<times> ble_uuid"
  ble_att_svr_read_local :: "u16 \<Rightarrow> int \<times> mbuf"
  cache_search :: "event list \<Rightarrow> cache_query \<Rightarrow> int"

text \<open>
  Where the C program leaves defined behaviour: a null pointer is dereferenced, the
  link of a freed record is read, an array is read past its end.
\<close>

datatype fault = Null_deref | Use_after_free | Out_of_bounds nat

text \<open>
  The engine's globals, and the trace of what it did to its collaborators. \<open>fault\<close>
  is set by the function that runs into undefined behaviour, which then stops: the
  rest of the record is the state at that point.
\<close>

record hs =
  ble_gattc_procs :: "ble_gattc_proc list"
  ble_gattc_cached_procs :: "ble_gattc_proc list"
  ble_gattc_resume_at :: u32
  ble_gattc_proc_pool :: "nat list"
  trace :: "event list"
  fault :: "fault option"

definition emit :: "event \<Rightarrow> hs \<Rightarrow> hs" where
  "emit ev s = s\<lparr>trace := trace s @ [ev]\<rparr>"

text \<open>Any of the \<^verbatim>\<open>ble_att_clt_tx_*\<close> functions: the transport's status is returned.\<close>

definition ble_att_clt_tx :: "env \<Rightarrow> att_req \<Rightarrow> hs \<Rightarrow> int \<times> hs" where
  "ble_att_clt_tx e r s = (let rc = att_tx e (trace s) r in (rc, emit (Att_tx r rc) s))"

text \<open>\<^verbatim>\<open>os_mbuf_free_chain\<close>: a no-op on a null pointer.\<close>

definition os_mbuf_free_chain :: "mbuf option \<Rightarrow> hs \<Rightarrow> hs" where
  "os_mbuf_free_chain m s = (case m of None \<Rightarrow> s | Some b \<Rightarrow> emit (Mbuf_free_chain b) s)"

text \<open>\<^verbatim>\<open>OS_MBUF_PKTLEN\<close>: the packet header's length field, 16 bits wide.\<close>

definition OS_MBUF_PKTLEN :: "mbuf \<Rightarrow> u16" where
  "OS_MBUF_PKTLEN m = of_nat (length m)"

subsection \<open>Signed write (lines 4356 to 4410)\<close>

definition ble_gattc_signed_write :: "env \<Rightarrow> u16 \<Rightarrow> u16 \<Rightarrow> mbuf \<Rightarrow> hs \<Rightarrow> int \<times> hs" where
  "ble_gattc_signed_write e conn attr_handle txom s =
    (if \<not> MYNEWT_VAL (cfg e) BLE_GATT_SIGNED_WRITE then (BLE_HS_ENOTSUP, s)
     else
       let err = (\<lambda>rc s'. (rc, os_mbuf_free_chain (Some txom) s'));
           (rc, desc) = ble_gap_conn_find e conn
       in if rc \<noteq> 0 then err rc s
          else if encrypted desc then err BLE_HS_EENCRYPT s
          else
            let (rc, value_sec) = ble_store_read_our_sec e (peer_id_addr desc)
            in if rc \<noteq> 0 then err rc s
               else if \<not> csrk_present value_sec then err BLE_HS_EAUTHEN s
               else
                 let (rc, s1) = ble_att_clt_tx e
                       (Tx_signed_write_cmd conn BLE_L2CAP_CID_ATT attr_handle
                          (rev (csrk value_sec)) (sign_counter value_sec) txom) s
                 in if rc \<noteq> 0 then err rc s1 else (0, s1))"

text \<open>The events a call added to the trace.\<close>

definition new_events :: "hs \<Rightarrow> hs \<Rightarrow> event list" where
  "new_events s s' = drop (length (trace s)) (trace s')"

fun is_att_tx :: "event \<Rightarrow> bool" where
  "is_att_tx (Att_tx _ _) = True"
| "is_att_tx _ = False"

fun is_app_cb :: "event \<Rightarrow> bool" where
  "is_app_cb (App_cb _ _ _ _) = True"
| "is_app_cb _ = False"

subsection \<open>Procedure records: pool, release, insertion, timers (lines 759 to 912)\<close>

text \<open>
  The pool is the list of its free blocks' addresses; \<^verbatim>\<open>os_memblock_get\<close> takes the
  first one and \<^verbatim>\<open>os_memblock_put\<close> puts a block back in front. A fresh record is
  zeroed: op code 0 is \<open>Mtu\<close>.
\<close>

definition proc_zero :: "nat \<Rightarrow> ble_gattc_proc" where
  "proc_zero a = \<lparr>addr = a, error = \<lparr>status = 0, att_handle = 0\<rparr>, exp_os_ticks = 0,
                  conn_handle = 0, cid = 0, flags = 0, cb = None, cb_arg = 0, u = Mtu\<rparr>"

definition ble_gattc_proc_alloc :: "hs \<Rightarrow> ble_gattc_proc option \<times> hs" where
  "ble_gattc_proc_alloc s =
     (case ble_gattc_proc_pool s of
        [] \<Rightarrow> (None, s)
      | a # rest \<Rightarrow> (Some (proc_zero a), s\<lparr>ble_gattc_proc_pool := rest\<rparr>))"

text \<open>
  \<open>ble_gattc_proc_prepare\<close> sets the connection, the op code and the channel; here the
  op code comes with the union member the initiator fills in next.
\<close>

definition ble_gattc_proc_prepare ::
  "env \<Rightarrow> ble_gattc_proc \<Rightarrow> u16 \<Rightarrow> proc_union \<Rightarrow> ble_gattc_proc" where
  "ble_gattc_proc_prepare e p conn un =
     p\<lparr>conn_handle := conn, u := un,
       cid := ble_eatt_get_available_chan_cid e conn (op_of_union un)\<rparr>"

definition ble_gattc_proc_free :: "env \<Rightarrow> ble_gattc_proc option \<Rightarrow> hs \<Rightarrow> hs" where
  "ble_gattc_proc_free e po s =
     (case po of
        None \<Rightarrow> s
      | Some p \<Rightarrow>
          let s1 = (case u p of
                      Write _ m \<Rightarrow>
                        if MYNEWT_VAL (cfg e) BLE_GATTC_AUTO_PAIR \<and> MYNEWT_VAL (cfg e) BLE_GATT_WRITE
                        then os_mbuf_free_chain m s else s
                    | Write_long a _ \<Rightarrow>
                        if MYNEWT_VAL (cfg e) BLE_GATT_WRITE_LONG
                        then os_mbuf_free_chain (Some (a_om a)) s else s
                    | Write_reliable attrs _ _ \<Rightarrow>
                        if MYNEWT_VAL (cfg e) BLE_GATT_WRITE_RELIABLE
                        then fold (\<lambda>a. os_mbuf_free_chain (Some (a_om a))) attrs s else s
                    | _ \<Rightarrow> s);
              s2 = (if MYNEWT_VAL (cfg e) BLE_EATT \<and> cid p \<noteq> BLE_L2CAP_CID_ATT
                    then emit (Eatt_release_chan (conn_handle p) (op_of p)) s1 else s1)
          in s2\<lparr>ble_gattc_proc_pool := addr p # ble_gattc_proc_pool s2\<rparr>)"

definition ble_gattc_proc_insert :: "ble_gattc_proc \<Rightarrow> hs \<Rightarrow> hs" where
  "ble_gattc_proc_insert p s = s\<lparr>ble_gattc_procs := ble_gattc_procs s @ [p]\<rparr>"

definition ble_gattc_proc_set_exp_timer :: "env \<Rightarrow> ble_gattc_proc \<Rightarrow> ble_gattc_proc" where
  "ble_gattc_proc_set_exp_timer e p =
     p\<lparr>exp_os_ticks := ble_npl_time_get e
          + ble_npl_time_ms_to_ticks32 e BLE_GATTC_UNRESPONSIVE_TIMEOUT_MS\<rparr>"

definition ble_gattc_proc_set_resume_timer ::
  "env \<Rightarrow> ble_gattc_proc \<Rightarrow> hs \<Rightarrow> ble_gattc_proc \<times> hs" where
  "ble_gattc_proc_set_resume_timer e p s =
     (p\<lparr>flags := flags p OR BLE_GATTC_PROC_F_STALLED\<rparr>,
      if ble_gattc_resume_at s = 0
      then let t = ble_npl_time_get e
                   + ble_npl_time_ms_to_ticks32 e (BLE_GATT_RESUME_RATE (cfg e))
           in s\<lparr>ble_gattc_resume_at := (if t = 0 then t + 1 else t)\<rparr>
      else s)"

text \<open>\<open>ble_gattc_process_status\<close>, for a record that exists.\<close>

definition ble_gattc_process_status :: "env \<Rightarrow> ble_gattc_proc \<Rightarrow> int \<Rightarrow> hs \<Rightarrow> hs" where
  "ble_gattc_process_status e p st s =
     (if st = 0
      then let p1 = (if flags p AND BLE_GATTC_PROC_F_STALLED = 0
                     then ble_gattc_proc_set_exp_timer e p else p)
           in emit Hs_timer_resched (ble_gattc_proc_insert p1 s)
      else ble_gattc_proc_free e (Some p) s)"

definition ble_gattc_process_resume_status ::
  "env \<Rightarrow> ble_gattc_proc \<Rightarrow> int \<Rightarrow> hs \<Rightarrow> int \<times> ble_gattc_proc \<times> hs" where
  "ble_gattc_process_resume_status e p st s =
     (if st = 0 then (0, p, s)
      else if st = BLE_HS_ENOMEM
      then (case ble_gattc_proc_set_resume_timer e p s of (p1, s1) \<Rightarrow> (0, p1, s1))
      else (st, p, s))"

subsection \<open>Matching and extraction (lines 948 to 1235)\<close>

definition ble_gattc_proc_matches_conn_op :: "u16 \<times> u8 \<Rightarrow> ble_gattc_proc \<Rightarrow> bool" where
  "ble_gattc_proc_matches_conn_op criteria p =
     (case criteria of (conn, opc) \<Rightarrow>
        if conn \<noteq> conn_handle p then False
        else if opc \<noteq> op_of p \<and> opc \<noteq> BLE_GATT_OP_NONE then False
        else True)"

definition ble_gattc_proc_matches_conn_cid_op ::
  "u16 \<times> u16 \<times> u8 \<Rightarrow> ble_gattc_proc \<Rightarrow> bool" where
  "ble_gattc_proc_matches_conn_cid_op criteria p =
     (case criteria of (conn, psm, opc) \<Rightarrow>
        if conn \<noteq> conn_handle p then False
        else if psm \<noteq> cid p then False
        else if opc \<noteq> op_of p \<and> opc \<noteq> BLE_GATT_OP_NONE then False
        else True)"

text \<open>
  \<open>ble_gattc_proc_matches_expired\<close>: the criteria are the time and the smallest
  distance to a deadline seen so far, which the function updates.
\<close>

definition ble_gattc_proc_matches_expired ::
  "u32 \<times> int \<Rightarrow> ble_gattc_proc \<Rightarrow> bool \<times> (u32 \<times> int)" where
  "ble_gattc_proc_matches_expired criteria p =
     (case criteria of (now, next_exp_in) \<Rightarrow>
        let time_diff = sint (exp_os_ticks p - now)
        in if time_diff \<le> 0 then (True, criteria)
           else (False, (now, if time_diff < next_exp_in then time_diff else next_exp_in)))"

definition ble_gattc_proc_matches_stalled :: "ble_gattc_proc \<Rightarrow> bool" where
  "ble_gattc_proc_matches_stalled p = (flags p AND BLE_GATTC_PROC_F_STALLED \<noteq> 0)"

text \<open>
  The loop of \<open>ble_gattc_extract\<close> over the main list: the match function may update
  its criteria; \<open>n\<close> is \<^verbatim>\<open>num_extracted\<close>. The result is the list that stays, the
  destination list and the criteria.
\<close>

fun extract_scan ::
  "('c \<Rightarrow> ble_gattc_proc \<Rightarrow> bool \<times> 'c) \<Rightarrow> 'c \<Rightarrow> int \<Rightarrow> int \<Rightarrow> ble_gattc_proc list
     \<Rightarrow> ble_gattc_proc list \<times> ble_gattc_proc list \<times> 'c" where
  "extract_scan match_cb arg max_procs n [] = ([], [], arg)"
| "extract_scan match_cb arg max_procs n (p # ps) =
     (case match_cb arg p of
        (True, arg1) \<Rightarrow>
          if max_procs > 0 \<and> n + 1 \<ge> max_procs then (ps, [p], arg1)
          else (case extract_scan match_cb arg1 max_procs (if max_procs > 0 then n + 1 else n) ps of
                  (rest, dst, arg2) \<Rightarrow> (rest, p # dst, arg2))
      | (False, arg1) \<Rightarrow>
          (case extract_scan match_cb arg1 max_procs n ps of
             (rest, dst, arg2) \<Rightarrow> (p # rest, dst, arg2)))"

definition ble_gattc_extract ::
  "('c \<Rightarrow> ble_gattc_proc \<Rightarrow> bool \<times> 'c) \<Rightarrow> 'c \<Rightarrow> int \<Rightarrow> hs
     \<Rightarrow> ble_gattc_proc list \<times> 'c \<times> hs" where
  "ble_gattc_extract match_cb arg max_procs s =
     (case extract_scan match_cb arg max_procs 0 (ble_gattc_procs s) of
        (rest, dst, arg1) \<Rightarrow> (dst, arg1, s\<lparr>ble_gattc_procs := rest\<rparr>))"

definition ble_gattc_extract_by_conn_op ::
  "u16 \<Rightarrow> u8 \<Rightarrow> int \<Rightarrow> hs \<Rightarrow> ble_gattc_proc list \<times> hs" where
  "ble_gattc_extract_by_conn_op conn opc max_procs s =
     (case ble_gattc_extract (\<lambda>c p. (ble_gattc_proc_matches_conn_op c p, c)) (conn, opc) max_procs s of
        (dst, _, s1) \<Rightarrow> (dst, s1))"

definition ble_gattc_extract_by_conn_cid_op ::
  "u16 \<Rightarrow> u16 \<Rightarrow> u8 \<Rightarrow> int \<Rightarrow> hs \<Rightarrow> ble_gattc_proc list \<times> hs" where
  "ble_gattc_extract_by_conn_cid_op conn psm opc max_procs s =
     (case ble_gattc_extract (\<lambda>c p. (ble_gattc_proc_matches_conn_cid_op c p, c))
             (conn, psm, opc) max_procs s of
        (dst, _, s1) \<Rightarrow> (dst, s1))"

text \<open>\<^verbatim>\<open>STAILQ_FIRST\<close> of the destination list: null when it is empty.\<close>

definition STAILQ_FIRST :: "'a list \<Rightarrow> 'a option" where
  "STAILQ_FIRST l = (case l of [] \<Rightarrow> None | x # _ \<Rightarrow> Some x)"

definition ble_gattc_extract_first_by_conn_cid_op ::
  "u16 \<Rightarrow> u16 \<Rightarrow> u8 \<Rightarrow> hs \<Rightarrow> ble_gattc_proc option \<times> hs" where
  "ble_gattc_extract_first_by_conn_cid_op conn c opc s =
     (case ble_gattc_extract_by_conn_cid_op conn c opc 1 s of
        (dst, s1) \<Rightarrow> (STAILQ_FIRST dst, s1))"

definition ble_gattc_extract_stalled :: "hs \<Rightarrow> ble_gattc_proc list \<times> hs" where
  "ble_gattc_extract_stalled s =
     (case ble_gattc_extract (\<lambda>c p. (ble_gattc_proc_matches_stalled p, c)) () 0 s of
        (dst, _, s1) \<Rightarrow> (dst, s1))"

definition ble_gattc_extract_expired :: "env \<Rightarrow> hs \<Rightarrow> int \<times> ble_gattc_proc list \<times> hs" where
  "ble_gattc_extract_expired e s =
     (case ble_gattc_extract ble_gattc_proc_matches_expired
             (ble_npl_time_get e, BLE_HS_FOREVER) 0 s of
        (dst, (_, next_exp_in), s1) \<Rightarrow> (next_exp_in, dst, s1))"

subsection \<open>Application callbacks\<close>

text \<open>
  \<open>ble_gattc_error\<close> (lines 1395 to 1408): the status is stored in 16 bits and the
  handle is 0 on success and on \<open>BLE_HS_EDONE\<close>.
\<close>

definition ble_gattc_error :: "int \<Rightarrow> u16 \<Rightarrow> ble_gatt_error" where
  "ble_gattc_error st h =
     \<lparr>status = word_of_int st, att_handle = (if st = 0 \<or> st = BLE_HS_EDONE then 0 else h)\<rparr>"

text \<open>
  What every \<^verbatim>\<open>ble_gattc_*_cb\<close> ends with: 0 when the record has no callback,
  otherwise the callback is called and its return value returned.
\<close>

definition call_cb :: "env \<Rightarrow> fnptr \<Rightarrow> cb_call \<Rightarrow> voidptr \<Rightarrow> hs \<Rightarrow> int \<times> hs" where
  "call_cb e f c arg s =
     (case f of
        None \<Rightarrow> (0, s)
      | Some fn \<Rightarrow> let rc = app_cb e (trace s) fn c arg in (rc, emit (App_cb fn c arg rc) s))"

text \<open>
  With caching compiled in, the callbacks of reads and writes tell the cache about a
  "database out of sync" error first.
\<close>

definition cache_out_of_sync :: "env \<Rightarrow> ble_gattc_proc \<Rightarrow> int \<Rightarrow> hs \<Rightarrow> hs" where
  "cache_out_of_sync e p st s =
     (if MYNEWT_VAL (cfg e) BLE_GATT_CACHING \<and> st = BLE_HS_ERR_ATT_BASE + BLE_ATT_ERR_DB_OUT_OF_SYNC
      then emit (Cache_conn_update (conn_handle p) 0 65535) s else s)"

definition ble_gattc_mtu_cb ::
  "env \<Rightarrow> ble_gattc_proc \<Rightarrow> int \<Rightarrow> u16 \<Rightarrow> u16 \<Rightarrow> hs \<Rightarrow> int \<times> hs" where
  "ble_gattc_mtu_cb e p st h mtu s =
     call_cb e (cb p) (Mtu_fn (conn_handle p) (ble_gattc_error st h) mtu) (cb_arg p) s"

text \<open>The status parameter of \<open>ble_gattc_disc_all_svcs_cb\<close> is a \<^verbatim>\<open>uint16_t\<close>.\<close>

definition ble_gattc_disc_all_svcs_cb ::
  "env \<Rightarrow> ble_gattc_proc \<Rightarrow> int \<Rightarrow> u16 \<Rightarrow> ble_gatt_svc cptr \<Rightarrow> hs \<Rightarrow> int \<times> hs" where
  "ble_gattc_disc_all_svcs_cb e p st h service s =
     call_cb e (cb p)
       (Disc_svc_fn (conn_handle p) (ble_gattc_error (uint (word_of_int st :: u16)) h) service)
       (cb_arg p) s"

definition ble_gattc_disc_svc_uuid_cb ::
  "env \<Rightarrow> ble_gattc_proc \<Rightarrow> int \<Rightarrow> u16 \<Rightarrow> ble_gatt_svc cptr \<Rightarrow> hs \<Rightarrow> int \<times> hs" where
  "ble_gattc_disc_svc_uuid_cb e p st h service s =
     call_cb e (cb p) (Disc_svc_fn (conn_handle p) (ble_gattc_error st h) service) (cb_arg p) s"

definition ble_gattc_find_inc_svcs_cb ::
  "env \<Rightarrow> ble_gattc_proc \<Rightarrow> int \<Rightarrow> u16 \<Rightarrow> ble_gatt_svc cptr \<Rightarrow> hs \<Rightarrow> int \<times> hs" where
  "ble_gattc_find_inc_svcs_cb e p st h incl_svc s =
     call_cb e (cb p) (Disc_incl_svc_fn (conn_handle p) (ble_gattc_error st h) incl_svc)
       (cb_arg p) s"

definition ble_gattc_disc_all_chrs_cb ::
  "env \<Rightarrow> ble_gattc_proc \<Rightarrow> int \<Rightarrow> u16 \<Rightarrow> unit cptr \<Rightarrow> hs \<Rightarrow> int \<times> hs" where
  "ble_gattc_disc_all_chrs_cb e p st h chr s =
     call_cb e (cb p) (Chr_fn (conn_handle p) (ble_gattc_error st h) chr) (cb_arg p) s"

definition ble_gattc_disc_chr_uuid_cb ::
  "env \<Rightarrow> ble_gattc_proc \<Rightarrow> int \<Rightarrow> u16 \<Rightarrow> unit cptr \<Rightarrow> hs \<Rightarrow> int \<times> hs" where
  "ble_gattc_disc_chr_uuid_cb e p st h chr s =
     call_cb e (cb p) (Chr_fn (conn_handle p) (ble_gattc_error st h) chr) (cb_arg p) s"

definition ble_gattc_disc_all_dscs_cb ::
  "env \<Rightarrow> ble_gattc_proc \<Rightarrow> u16 \<Rightarrow> int \<Rightarrow> u16 \<Rightarrow> unit cptr \<Rightarrow> hs \<Rightarrow> int \<times> hs" where
  "ble_gattc_disc_all_dscs_cb e p chr_val_handle st h dsc s =
     call_cb e (cb p) (Dsc_fn (conn_handle p) (ble_gattc_error st h) chr_val_handle dsc)
       (cb_arg p) s"

definition ble_gattc_read_cb ::
  "env \<Rightarrow> ble_gattc_proc \<Rightarrow> int \<Rightarrow> u16 \<Rightarrow> ble_gatt_attr cptr \<Rightarrow> hs \<Rightarrow> int \<times> hs" where
  "ble_gattc_read_cb e p st h attr s =
     call_cb e (cb p) (Attr_fn (conn_handle p) (ble_gattc_error st h) attr) (cb_arg p)
       (cache_out_of_sync e p st s)"

definition ble_gattc_read_uuid_cb ::
  "env \<Rightarrow> ble_gattc_proc \<Rightarrow> int \<Rightarrow> u16 \<Rightarrow> ble_gatt_attr cptr \<Rightarrow> hs \<Rightarrow> int \<times> hs" where
  "ble_gattc_read_uuid_cb e p st h attr s =
     call_cb e (cb p) (Attr_fn (conn_handle p) (ble_gattc_error st h) attr) (cb_arg p) s"

definition ble_gattc_read_long_cb ::
  "env \<Rightarrow> ble_gattc_proc \<Rightarrow> int \<Rightarrow> u16 \<Rightarrow> ble_gatt_attr cptr \<Rightarrow> hs \<Rightarrow> int \<times> hs" where
  "ble_gattc_read_long_cb e p st h attr s =
     call_cb e (cb p) (Attr_fn (conn_handle p) (ble_gattc_error st h) attr) (cb_arg p)
       (cache_out_of_sync e p st s)"

text \<open>
  The two read-multiple callbacks, as the timeout and error paths call them: with a
  null \<^verbatim>\<open>om\<close>. Then the loop of \<open>ble_gattc_read_mult_cb_var\<close> only fills in the
  handles, and the return value of \<^verbatim>\<open>cb_mult\<close> is dropped.
\<close>

definition ble_gattc_read_mult_cb_var ::
  "env \<Rightarrow> ble_gattc_proc \<Rightarrow> u16 list \<Rightarrow> fnptr \<Rightarrow> int \<Rightarrow> u16 \<Rightarrow> hs \<Rightarrow> int \<times> hs" where
  "ble_gattc_read_mult_cb_var e p handles cb_mult st h s =
     (case cb_mult of
        None \<Rightarrow> (0, s)
      | Some fn \<Rightarrow>
          (0, snd (call_cb e cb_mult
                     (Attr_mult_fn (conn_handle p) (ble_gattc_error st h)
                        (map (\<lambda>hd. \<lparr>handle = hd, offset = 0, om = None\<rparr>) handles)
                        (length handles))
                     (cb_arg p) s)))"

definition ble_gattc_read_mult_cb ::
  "env \<Rightarrow> ble_gattc_proc \<Rightarrow> u16 list \<Rightarrow> bool \<Rightarrow> fnptr \<Rightarrow> int \<Rightarrow> u16 \<Rightarrow> hs \<Rightarrow> int \<times> hs" where
  "ble_gattc_read_mult_cb e p handles variable cb_mult st h s =
     (if variable then ble_gattc_read_mult_cb_var e p handles cb_mult st h s
      else call_cb e (cb p)
             (Attr_fn (conn_handle p) (ble_gattc_error st h)
                (Ptr \<lparr>handle = 0, offset = 0, om = None\<rparr>))
             (cb_arg p) (cache_out_of_sync e p st s))"

definition ble_gattc_write_cb ::
  "env \<Rightarrow> ble_gattc_proc \<Rightarrow> u16 \<Rightarrow> int \<Rightarrow> u16 \<Rightarrow> hs \<Rightarrow> int \<times> hs" where
  "ble_gattc_write_cb e p write_att_handle st h s =
     call_cb e (cb p)
       (Attr_fn (conn_handle p) (ble_gattc_error st h)
          (Ptr \<lparr>handle = write_att_handle, offset = 0, om = None\<rparr>))
       (cb_arg p) (cache_out_of_sync e p st s)"

definition ble_gattc_write_long_cb ::
  "env \<Rightarrow> ble_gattc_proc \<Rightarrow> owned_attr \<Rightarrow> int \<Rightarrow> u16 \<Rightarrow> hs \<Rightarrow> int \<times> hs" where
  "ble_gattc_write_long_cb e p attr st h s =
     call_cb e (cb p) (Attr_fn (conn_handle p) (ble_gattc_error st h) (Ptr (attr_of attr)))
       (cb_arg p) (cache_out_of_sync e p st s)"

definition ble_gattc_write_reliable_cb ::
  "env \<Rightarrow> ble_gattc_proc \<Rightarrow> owned_attr list \<Rightarrow> int \<Rightarrow> u16 \<Rightarrow> hs \<Rightarrow> int \<times> hs" where
  "ble_gattc_write_reliable_cb e p attrs st h s =
     call_cb e (cb p)
       (Reliable_attr_fn (conn_handle p) (ble_gattc_error st h) (map attr_of attrs) (length attrs))
       (cb_arg p) (cache_out_of_sync e p st s)"

subsection \<open>Timeout handlers\<close>

text \<open>
  Each calls the kind's callback with \<open>BLE_HS_ETIMEOUT\<close>, handle 0 and a null
  payload; the indication's handler reports to GAP instead.
\<close>

definition ble_gattc_mtu_tmo :: "env \<Rightarrow> ble_gattc_proc \<Rightarrow> hs \<Rightarrow> hs" where
  "ble_gattc_mtu_tmo e p s = snd (ble_gattc_mtu_cb e p BLE_HS_ETIMEOUT 0 0 s)"

definition ble_gattc_disc_all_svcs_tmo :: "env \<Rightarrow> ble_gattc_proc \<Rightarrow> hs \<Rightarrow> hs" where
  "ble_gattc_disc_all_svcs_tmo e p s = snd (ble_gattc_disc_all_svcs_cb e p BLE_HS_ETIMEOUT 0 Null s)"

definition ble_gattc_disc_svc_uuid_tmo :: "env \<Rightarrow> ble_gattc_proc \<Rightarrow> hs \<Rightarrow> hs" where
  "ble_gattc_disc_svc_uuid_tmo e p s = snd (ble_gattc_disc_svc_uuid_cb e p BLE_HS_ETIMEOUT 0 Null s)"

definition ble_gattc_find_inc_svcs_tmo :: "env \<Rightarrow> ble_gattc_proc \<Rightarrow> hs \<Rightarrow> hs" where
  "ble_gattc_find_inc_svcs_tmo e p s = snd (ble_gattc_find_inc_svcs_cb e p BLE_HS_ETIMEOUT 0 Null s)"

definition ble_gattc_disc_all_chrs_tmo :: "env \<Rightarrow> ble_gattc_proc \<Rightarrow> hs \<Rightarrow> hs" where
  "ble_gattc_disc_all_chrs_tmo e p s = snd (ble_gattc_disc_all_chrs_cb e p BLE_HS_ETIMEOUT 0 Null s)"

definition ble_gattc_disc_chr_uuid_tmo :: "env \<Rightarrow> ble_gattc_proc \<Rightarrow> hs \<Rightarrow> hs" where
  "ble_gattc_disc_chr_uuid_tmo e p s = snd (ble_gattc_disc_chr_uuid_cb e p BLE_HS_ETIMEOUT 0 Null s)"

definition ble_gattc_disc_all_dscs_tmo :: "env \<Rightarrow> ble_gattc_proc \<Rightarrow> u16 \<Rightarrow> hs \<Rightarrow> hs" where
  "ble_gattc_disc_all_dscs_tmo e p chr_val_handle s =
     snd (ble_gattc_disc_all_dscs_cb e p chr_val_handle BLE_HS_ETIMEOUT 0 Null s)"

definition ble_gattc_read_tmo :: "env \<Rightarrow> ble_gattc_proc \<Rightarrow> hs \<Rightarrow> hs" where
  "ble_gattc_read_tmo e p s = snd (ble_gattc_read_cb e p BLE_HS_ETIMEOUT 0 Null s)"

definition ble_gattc_read_uuid_tmo :: "env \<Rightarrow> ble_gattc_proc \<Rightarrow> hs \<Rightarrow> hs" where
  "ble_gattc_read_uuid_tmo e p s = snd (ble_gattc_read_uuid_cb e p BLE_HS_ETIMEOUT 0 Null s)"

definition ble_gattc_read_long_tmo :: "env \<Rightarrow> ble_gattc_proc \<Rightarrow> hs \<Rightarrow> hs" where
  "ble_gattc_read_long_tmo e p s = snd (ble_gattc_read_long_cb e p BLE_HS_ETIMEOUT 0 Null s)"

definition ble_gattc_read_mult_tmo ::
  "env \<Rightarrow> ble_gattc_proc \<Rightarrow> u16 list \<Rightarrow> bool \<Rightarrow> fnptr \<Rightarrow> hs \<Rightarrow> hs" where
  "ble_gattc_read_mult_tmo e p handles variable cb_mult s =
     snd (ble_gattc_read_mult_cb e p handles variable cb_mult BLE_HS_ETIMEOUT 0 s)"

definition ble_gattc_read_mult_var_tmo ::
  "env \<Rightarrow> ble_gattc_proc \<Rightarrow> u16 list \<Rightarrow> fnptr \<Rightarrow> hs \<Rightarrow> hs" where
  "ble_gattc_read_mult_var_tmo e p handles cb_mult s =
     snd (ble_gattc_read_mult_cb_var e p handles cb_mult BLE_HS_ETIMEOUT 0 s)"

definition ble_gattc_write_tmo :: "env \<Rightarrow> ble_gattc_proc \<Rightarrow> u16 \<Rightarrow> hs \<Rightarrow> hs" where
  "ble_gattc_write_tmo e p write_att_handle s =
     snd (ble_gattc_write_cb e p write_att_handle BLE_HS_ETIMEOUT 0 s)"

definition ble_gattc_write_long_tmo :: "env \<Rightarrow> ble_gattc_proc \<Rightarrow> owned_attr \<Rightarrow> hs \<Rightarrow> hs" where
  "ble_gattc_write_long_tmo e p attr s = snd (ble_gattc_write_long_cb e p attr BLE_HS_ETIMEOUT 0 s)"

definition ble_gattc_write_reliable_tmo ::
  "env \<Rightarrow> ble_gattc_proc \<Rightarrow> owned_attr list \<Rightarrow> hs \<Rightarrow> hs" where
  "ble_gattc_write_reliable_tmo e p attrs s =
     snd (ble_gattc_write_reliable_cb e p attrs BLE_HS_ETIMEOUT 0 s)"

definition ble_gatts_indicate_tmo :: "env \<Rightarrow> ble_gattc_proc \<Rightarrow> u16 \<Rightarrow> hs \<Rightarrow> hs" where
  "ble_gatts_indicate_tmo e p chr_val_handle s =
     emit (Gap_notify_tx_event BLE_HS_ETIMEOUT (conn_handle p) chr_val_handle 1) s"

text \<open>\<open>ble_gattc_tmo_dispatch\<close> (lines 361 to 379), indexed by the op code.\<close>

definition ble_gattc_tmo_dispatch :: "env \<Rightarrow> ble_gattc_proc \<Rightarrow> hs \<Rightarrow> hs" where
  "ble_gattc_tmo_dispatch e p s =
     (case u p of
        Mtu \<Rightarrow> ble_gattc_mtu_tmo e p s
      | Disc_all_svcs _ \<Rightarrow> ble_gattc_disc_all_svcs_tmo e p s
      | Disc_svc_uuid _ _ \<Rightarrow> ble_gattc_disc_svc_uuid_tmo e p s
      | Find_inc_svcs _ _ _ _ \<Rightarrow> ble_gattc_find_inc_svcs_tmo e p s
      | Disc_all_chrs _ _ \<Rightarrow> ble_gattc_disc_all_chrs_tmo e p s
      | Disc_chr_uuid _ _ _ \<Rightarrow> ble_gattc_disc_chr_uuid_tmo e p s
      | Disc_all_dscs chr_val_handle _ _ \<Rightarrow> ble_gattc_disc_all_dscs_tmo e p chr_val_handle s
      | Read _ \<Rightarrow> ble_gattc_read_tmo e p s
      | Read_uuid _ _ _ \<Rightarrow> ble_gattc_read_uuid_tmo e p s
      | Read_long _ _ \<Rightarrow> ble_gattc_read_long_tmo e p s
      | Read_mult handles variable cb_mult \<Rightarrow>
          if variable then ble_gattc_read_mult_var_tmo e p handles cb_mult s
          else ble_gattc_read_mult_tmo e p handles variable cb_mult s
      | Write h _ \<Rightarrow> ble_gattc_write_tmo e p h s
      | Write_long attr _ \<Rightarrow> ble_gattc_write_long_tmo e p attr s
      | Write_reliable attrs _ _ \<Rightarrow> ble_gattc_write_reliable_tmo e p attrs s
      | Indicate chr_val_handle \<Rightarrow> ble_gatts_indicate_tmo e p chr_val_handle s)"

definition ble_gattc_proc_timeout :: "env \<Rightarrow> ble_gattc_proc \<Rightarrow> hs \<Rightarrow> hs" where
  "ble_gattc_proc_timeout e p s = ble_gattc_tmo_dispatch e p s"

subsection \<open>Error handlers\<close>

definition BLE_HS_ATT_ERR :: "int \<Rightarrow> int" where
  "BLE_HS_ATT_ERR x = (if x \<noteq> 0 then BLE_HS_ERR_ATT_BASE + x else 0)"

definition ble_gattc_mtu_err :: "env \<Rightarrow> ble_gattc_proc \<Rightarrow> int \<Rightarrow> u16 \<Rightarrow> hs \<Rightarrow> hs" where
  "ble_gattc_mtu_err e p st h s = snd (ble_gattc_mtu_cb e p st h 0 s)"

definition ble_gattc_disc_all_svcs_err :: "env \<Rightarrow> ble_gattc_proc \<Rightarrow> int \<Rightarrow> u16 \<Rightarrow> hs \<Rightarrow> hs" where
  "ble_gattc_disc_all_svcs_err e p st h s =
     snd (ble_gattc_disc_all_svcs_cb e p
            (if st = BLE_HS_ATT_ERR BLE_ATT_ERR_ATTR_NOT_FOUND then BLE_HS_EDONE else st) h Null s)"

definition ble_gattc_disc_svc_uuid_err :: "env \<Rightarrow> ble_gattc_proc \<Rightarrow> int \<Rightarrow> u16 \<Rightarrow> hs \<Rightarrow> hs" where
  "ble_gattc_disc_svc_uuid_err e p st h s =
     snd (ble_gattc_disc_svc_uuid_cb e p
            (if st = BLE_HS_ATT_ERR BLE_ATT_ERR_ATTR_NOT_FOUND then BLE_HS_EDONE else st) h Null s)"

definition ble_gattc_find_inc_svcs_err ::
  "env \<Rightarrow> ble_gattc_proc \<Rightarrow> u16 \<Rightarrow> int \<Rightarrow> u16 \<Rightarrow> hs \<Rightarrow> hs" where
  "ble_gattc_find_inc_svcs_err e p cur_start st h s =
     snd (ble_gattc_find_inc_svcs_cb e p
            (if cur_start = 0 \<and> st = BLE_HS_ATT_ERR BLE_ATT_ERR_ATTR_NOT_FOUND
             then BLE_HS_EDONE else st) h Null s)"

definition ble_gattc_disc_all_chrs_err :: "env \<Rightarrow> ble_gattc_proc \<Rightarrow> int \<Rightarrow> u16 \<Rightarrow> hs \<Rightarrow> hs" where
  "ble_gattc_disc_all_chrs_err e p st h s =
     snd (ble_gattc_disc_all_chrs_cb e p
            (if st = BLE_HS_ATT_ERR BLE_ATT_ERR_ATTR_NOT_FOUND then BLE_HS_EDONE else st) h Null s)"

definition ble_gattc_disc_chr_uuid_err :: "env \<Rightarrow> ble_gattc_proc \<Rightarrow> int \<Rightarrow> u16 \<Rightarrow> hs \<Rightarrow> hs" where
  "ble_gattc_disc_chr_uuid_err e p st h s =
     snd (ble_gattc_disc_chr_uuid_cb e p
            (if st = BLE_HS_ATT_ERR BLE_ATT_ERR_ATTR_NOT_FOUND then BLE_HS_EDONE else st) h Null s)"

definition ble_gattc_disc_all_dscs_err ::
  "env \<Rightarrow> ble_gattc_proc \<Rightarrow> u16 \<Rightarrow> int \<Rightarrow> u16 \<Rightarrow> hs \<Rightarrow> hs" where
  "ble_gattc_disc_all_dscs_err e p chr_val_handle st h s =
     snd (ble_gattc_disc_all_dscs_cb e p chr_val_handle
            (if st = BLE_HS_ATT_ERR BLE_ATT_ERR_ATTR_NOT_FOUND then BLE_HS_EDONE else st) h Null s)"

definition ble_gattc_read_err :: "env \<Rightarrow> ble_gattc_proc \<Rightarrow> int \<Rightarrow> u16 \<Rightarrow> hs \<Rightarrow> hs" where
  "ble_gattc_read_err e p st h s = snd (ble_gattc_read_cb e p st h Null s)"

definition ble_gattc_read_uuid_err :: "env \<Rightarrow> ble_gattc_proc \<Rightarrow> int \<Rightarrow> u16 \<Rightarrow> hs \<Rightarrow> hs" where
  "ble_gattc_read_uuid_err e p st h s = snd (ble_gattc_read_uuid_cb e p st h Null s)"

definition ble_gattc_read_long_err :: "env \<Rightarrow> ble_gattc_proc \<Rightarrow> int \<Rightarrow> u16 \<Rightarrow> hs \<Rightarrow> hs" where
  "ble_gattc_read_long_err e p st h s = snd (ble_gattc_read_long_cb e p st h Null s)"

definition ble_gattc_read_mult_err ::
  "env \<Rightarrow> ble_gattc_proc \<Rightarrow> u16 list \<Rightarrow> bool \<Rightarrow> fnptr \<Rightarrow> int \<Rightarrow> u16 \<Rightarrow> hs \<Rightarrow> hs" where
  "ble_gattc_read_mult_err e p handles variable cb_mult st h s =
     snd (ble_gattc_read_mult_cb e p handles variable cb_mult st h s)"

definition ble_gattc_read_mult_var_err ::
  "env \<Rightarrow> ble_gattc_proc \<Rightarrow> u16 list \<Rightarrow> fnptr \<Rightarrow> int \<Rightarrow> u16 \<Rightarrow> hs \<Rightarrow> hs" where
  "ble_gattc_read_mult_var_err e p handles cb_mult st h s =
     snd (ble_gattc_read_mult_cb_var e p handles cb_mult st h s)"

definition ble_gattc_write_err ::
  "env \<Rightarrow> ble_gattc_proc \<Rightarrow> u16 \<Rightarrow> int \<Rightarrow> u16 \<Rightarrow> hs \<Rightarrow> hs" where
  "ble_gattc_write_err e p write_att_handle st h s =
     snd (ble_gattc_write_cb e p write_att_handle st h s)"

text \<open>
  \<open>ble_gattc_write_long_err\<close> (lines 4676 to 4695): queued data is cancelled when
  some has been queued and the execute write has not been sent; the transport's answer
  to the cancel is dropped.
\<close>

definition ble_gattc_write_long_err ::
  "env \<Rightarrow> ble_gattc_proc \<Rightarrow> owned_attr \<Rightarrow> int \<Rightarrow> u16 \<Rightarrow> hs \<Rightarrow> hs" where
  "ble_gattc_write_long_err e p attr st h s =
     (let s1 = (if a_offset attr > 0 \<and> a_offset attr < OS_MBUF_PKTLEN (a_om attr)
                then snd (ble_att_clt_tx e
                            (Tx_exec_write (conn_handle p) (cid p) BLE_ATT_EXEC_WRITE_F_CANCEL) s)
                else s)
      in snd (ble_gattc_write_long_cb e p attr st h s1))"

text \<open>\<open>ble_gattc_write_reliable_err\<close> (lines 4985 to 5000): the callback comes first.\<close>

definition ble_gattc_write_reliable_err ::
  "env \<Rightarrow> ble_gattc_proc \<Rightarrow> owned_attr list \<Rightarrow> u8 \<Rightarrow> int \<Rightarrow> u16 \<Rightarrow> hs \<Rightarrow> hs" where
  "ble_gattc_write_reliable_err e p attrs cur_attr st h s =
     (let s1 = snd (ble_gattc_write_reliable_cb e p attrs st h s)
      in if unat cur_attr < length attrs
         then snd (ble_att_clt_tx e
                     (Tx_exec_write (conn_handle p) (cid p) BLE_ATT_EXEC_WRITE_F_CANCEL) s1)
         else s1)"

text \<open>
  \<open>ble_gatts_indicate_err\<close> (lines 5390 to 5412): unless the connection is gone the
  error counts as the confirmation; a failed acknowledgement ends the handler.
\<close>

definition ble_gatts_indicate_err ::
  "env \<Rightarrow> ble_gattc_proc \<Rightarrow> u16 \<Rightarrow> int \<Rightarrow> u16 \<Rightarrow> hs \<Rightarrow> hs" where
  "ble_gatts_indicate_err e p chr_val_handle st h s =
     (let report = (\<lambda>s'. emit (Gatts_send_next_indicate (conn_handle p))
                           (emit (Gap_notify_tx_event st (conn_handle p) chr_val_handle 1) s'))
      in if st \<noteq> BLE_HS_ENOTCONN
         then let rc = ble_gatts_rx_indicate_ack e (conn_handle p) chr_val_handle;
                  s1 = emit (Gatts_rx_indicate_ack (conn_handle p) chr_val_handle rc) s
              in if rc \<noteq> 0 then s1 else report s1
         else report s)"

text \<open>\<open>ble_gattc_err_dispatch\<close> (lines 278 to 299), indexed by the op code.\<close>

definition ble_gattc_err_dispatch :: "env \<Rightarrow> ble_gattc_proc \<Rightarrow> int \<Rightarrow> u16 \<Rightarrow> hs \<Rightarrow> hs" where
  "ble_gattc_err_dispatch e p st h s =
     (case u p of
        Mtu \<Rightarrow> ble_gattc_mtu_err e p st h s
      | Disc_all_svcs _ \<Rightarrow> ble_gattc_disc_all_svcs_err e p st h s
      | Disc_svc_uuid _ _ \<Rightarrow> ble_gattc_disc_svc_uuid_err e p st h s
      | Find_inc_svcs _ _ cur_start _ \<Rightarrow> ble_gattc_find_inc_svcs_err e p cur_start st h s
      | Disc_all_chrs _ _ \<Rightarrow> ble_gattc_disc_all_chrs_err e p st h s
      | Disc_chr_uuid _ _ _ \<Rightarrow> ble_gattc_disc_chr_uuid_err e p st h s
      | Disc_all_dscs chr_val_handle _ _ \<Rightarrow> ble_gattc_disc_all_dscs_err e p chr_val_handle st h s
      | Read _ \<Rightarrow> ble_gattc_read_err e p st h s
      | Read_uuid _ _ _ \<Rightarrow> ble_gattc_read_uuid_err e p st h s
      | Read_long _ _ \<Rightarrow> ble_gattc_read_long_err e p st h s
      | Read_mult handles variable cb_mult \<Rightarrow>
          if variable then ble_gattc_read_mult_var_err e p handles cb_mult st h s
          else ble_gattc_read_mult_err e p handles variable cb_mult st h s
      | Write wh _ \<Rightarrow> ble_gattc_write_err e p wh st h s
      | Write_long attr _ \<Rightarrow> ble_gattc_write_long_err e p attr st h s
      | Write_reliable attrs cur_attr _ \<Rightarrow> ble_gattc_write_reliable_err e p attrs cur_attr st h s
      | Indicate chr_val_handle \<Rightarrow> ble_gatts_indicate_err e p chr_val_handle st h s)"

subsection \<open>Transmit and resume\<close>

text \<open>
  \<^verbatim>\<open>ble_hs_mbuf_att_pkt\<close> and \<^verbatim>\<open>os_mbuf_appendfrom\<close> draw on the buffer pool and may
  fail; each request is an event of its own.
\<close>

definition mbuf_alloc :: "env \<Rightarrow> hs \<Rightarrow> bool \<times> hs" where
  "mbuf_alloc e s = (let ok = mbuf_alloc_ok e (trace s) in (ok, emit (Mbuf_alloc ok) s))"

definition ble_gattc_mtu_tx :: "env \<Rightarrow> ble_gattc_proc \<Rightarrow> hs \<Rightarrow> int \<times> hs" where
  "ble_gattc_mtu_tx e p s =
     (case ble_att_conn_chan_find e (conn_handle p) (cid p) of
        (rc, my_mtu) \<Rightarrow>
          if rc = 0 then ble_att_clt_tx e (Tx_mtu (conn_handle p) my_mtu) s else (rc, s))"

definition ble_gattc_disc_all_svcs_tx :: "env \<Rightarrow> ble_gattc_proc \<Rightarrow> u16 \<Rightarrow> hs \<Rightarrow> int \<times> hs" where
  "ble_gattc_disc_all_svcs_tx e p prev_handle s =
     ble_att_clt_tx e
       (Tx_read_group_type (conn_handle p) (cid p) (prev_handle + 1) 65535
          (Uuid16 BLE_ATT_UUID_PRIMARY_SERVICE)) s"

definition ble_gattc_disc_svc_uuid_tx ::
  "env \<Rightarrow> ble_gattc_proc \<Rightarrow> ble_uuid \<Rightarrow> u16 \<Rightarrow> hs \<Rightarrow> int \<times> hs" where
  "ble_gattc_disc_svc_uuid_tx e p service_uuid prev_handle s =
     ble_att_clt_tx e
       (Tx_find_type_value (conn_handle p) (cid p) (prev_handle + 1) 65535
          BLE_ATT_UUID_PRIMARY_SERVICE service_uuid) s"

definition ble_gattc_find_inc_svcs_tx ::
  "env \<Rightarrow> ble_gattc_proc \<Rightarrow> u16 \<Rightarrow> u16 \<Rightarrow> u16 \<Rightarrow> hs \<Rightarrow> int \<times> hs" where
  "ble_gattc_find_inc_svcs_tx e p prev_handle end_h cur_start s =
     (if cur_start = 0
      then ble_att_clt_tx e
             (Tx_read_type (conn_handle p) (cid p) (prev_handle + 1) end_h
                (Uuid16 BLE_ATT_UUID_INCLUDE)) s
      else ble_att_clt_tx e (Tx_read (conn_handle p) (cid p) cur_start) s)"

definition ble_gattc_disc_all_chrs_tx ::
  "env \<Rightarrow> ble_gattc_proc \<Rightarrow> u16 \<Rightarrow> u16 \<Rightarrow> hs \<Rightarrow> int \<times> hs" where
  "ble_gattc_disc_all_chrs_tx e p prev_handle end_h s =
     ble_att_clt_tx e
       (Tx_read_type (conn_handle p) (cid p) (prev_handle + 1) end_h
          (Uuid16 BLE_ATT_UUID_CHARACTERISTIC)) s"

definition ble_gattc_disc_chr_uuid_tx ::
  "env \<Rightarrow> ble_gattc_proc \<Rightarrow> u16 \<Rightarrow> u16 \<Rightarrow> hs \<Rightarrow> int \<times> hs" where
  "ble_gattc_disc_chr_uuid_tx e p prev_handle end_h s =
     ble_att_clt_tx e
       (Tx_read_type (conn_handle p) (cid p) (prev_handle + 1) end_h
          (Uuid16 BLE_ATT_UUID_CHARACTERISTIC)) s"

definition ble_gattc_disc_all_dscs_tx ::
  "env \<Rightarrow> ble_gattc_proc \<Rightarrow> u16 \<Rightarrow> u16 \<Rightarrow> hs \<Rightarrow> int \<times> hs" where
  "ble_gattc_disc_all_dscs_tx e p prev_handle end_h s =
     ble_att_clt_tx e (Tx_find_info (conn_handle p) (cid p) (prev_handle + 1) end_h) s"

definition ble_gattc_read_tx :: "env \<Rightarrow> ble_gattc_proc \<Rightarrow> u16 \<Rightarrow> hs \<Rightarrow> int \<times> hs" where
  "ble_gattc_read_tx e p h s = ble_att_clt_tx e (Tx_read (conn_handle p) (cid p) h) s"

definition ble_gattc_read_uuid_tx ::
  "env \<Rightarrow> ble_gattc_proc \<Rightarrow> ble_uuid \<Rightarrow> u16 \<Rightarrow> u16 \<Rightarrow> hs \<Rightarrow> int \<times> hs" where
  "ble_gattc_read_uuid_tx e p chr_uuid start_h end_h s =
     ble_att_clt_tx e (Tx_read_type (conn_handle p) (cid p) start_h end_h chr_uuid) s"

definition ble_gattc_read_long_tx ::
  "env \<Rightarrow> ble_gattc_proc \<Rightarrow> u16 \<Rightarrow> u16 \<Rightarrow> hs \<Rightarrow> int \<times> hs" where
  "ble_gattc_read_long_tx e p h off s =
     (if off = 0 then ble_att_clt_tx e (Tx_read (conn_handle p) (cid p) h) s
      else ble_att_clt_tx e (Tx_read_blob (conn_handle p) (cid p) h off) s)"

definition ble_gattc_read_mult_tx ::
  "env \<Rightarrow> ble_gattc_proc \<Rightarrow> u16 list \<Rightarrow> bool \<Rightarrow> hs \<Rightarrow> int \<times> hs" where
  "ble_gattc_read_mult_tx e p handles variable s =
     ble_att_clt_tx e (Tx_read_mult (conn_handle p) (cid p) handles variable) s"

text \<open>
  \<open>ble_gattc_write_long_tx\<close> (lines 4599 to 4654). The lengths are compared as C
  \<^verbatim>\<open>int\<close>s; the fragment length is stored in 16 bits. The result carries the new
  value of \<^verbatim>\<open>proc->write_long.length\<close>.
\<close>

definition ble_gattc_write_long_tx ::
  "env \<Rightarrow> ble_gattc_proc \<Rightarrow> owned_attr \<Rightarrow> u16 \<Rightarrow> hs \<Rightarrow> int \<times> u16 \<times> hs" where
  "ble_gattc_write_long_tx e p attr len s =
     (let max_sz = uint (ble_att_mtu_by_cid e (conn_handle p) (cid p)) - BLE_ATT_PREP_WRITE_CMD_BASE_SZ
      in if max_sz \<le> 0 then (BLE_HS_ENOTCONN, len, s)
         else
           let write_len = min max_sz (uint (OS_MBUF_PKTLEN (a_om attr)) - uint (a_offset attr))
           in if write_len \<le> 0
              then (case ble_att_clt_tx e
                           (Tx_exec_write (conn_handle p) (cid p) BLE_ATT_EXEC_WRITE_F_EXECUTE) s of
                      (rc, s1) \<Rightarrow> (rc, len, s1))
              else
                let len1 = (word_of_int write_len :: u16)
                in (case mbuf_alloc e s of
                      (False, s1) \<Rightarrow> (BLE_HS_ENOMEM, len1, s1)
                    | (True, s1) \<Rightarrow>
                        (case mbuf_alloc e s1 of
                           (False, s2) \<Rightarrow> (BLE_HS_ENOMEM, len1, os_mbuf_free_chain (Some []) s2)
                         | (True, s2) \<Rightarrow>
                             (case ble_att_clt_tx e
                                     (Tx_prep_write (conn_handle p) (cid p) (a_handle attr)
                                        (a_offset attr)
                                        (take (unat len1) (drop (unat (a_offset attr)) (a_om attr))))
                                     s2 of
                                (rc, s3) \<Rightarrow> (rc, len1, s3)))))"

text \<open>
  \<open>ble_gattc_write_reliable_tx\<close> (lines 4907 to 4963); here \<^verbatim>\<open>max_sz\<close> is a
  \<^verbatim>\<open>uint16_t\<close>.
\<close>

definition ble_gattc_write_reliable_tx ::
  "env \<Rightarrow> ble_gattc_proc \<Rightarrow> owned_attr list \<Rightarrow> u8 \<Rightarrow> u16 \<Rightarrow> hs \<Rightarrow> int \<times> u16 \<times> hs" where
  "ble_gattc_write_reliable_tx e p attrs cur_attr len s =
     (if unat cur_attr \<ge> length attrs
      then (case ble_att_clt_tx e
                   (Tx_exec_write (conn_handle p) (cid p) BLE_ATT_EXEC_WRITE_F_EXECUTE) s of
              (rc, s1) \<Rightarrow> (rc, len, s1))
      else
        let attr = attrs ! unat cur_attr;
            max_sz = (ble_att_mtu_by_cid e (conn_handle p) (cid p) - 5 :: u16)
        in if uint max_sz \<le> 0 then (BLE_HS_ENOTCONN, len, s)
           else
             let len1 = (word_of_int
                           (min (uint max_sz)
                                (uint (OS_MBUF_PKTLEN (a_om attr)) - uint (a_offset attr))) :: u16)
             in (case mbuf_alloc e s of
                   (False, s1) \<Rightarrow> (BLE_HS_ENOMEM, len1, s1)
                 | (True, s1) \<Rightarrow>
                     (case mbuf_alloc e s1 of
                        (False, s2) \<Rightarrow> (BLE_HS_ENOMEM, len1, os_mbuf_free_chain (Some []) s2)
                      | (True, s2) \<Rightarrow>
                          (case ble_att_clt_tx e
                                  (Tx_prep_write (conn_handle p) (cid p) (a_handle attr)
                                     (a_offset attr)
                                     (take (unat len1) (drop (unat (a_offset attr)) (a_om attr))))
                                  s2 of
                             (rc, s3) \<Rightarrow> (rc, len1, s3)))))"

text \<open>
  The resume functions: transmit, let \<open>ble_gattc_process_resume_status\<close> turn an
  \<open>BLE_HS_ENOMEM\<close> into a stall, and report any other failure to the callback.
\<close>

definition ble_gattc_disc_all_svcs_resume ::
  "env \<Rightarrow> ble_gattc_proc \<Rightarrow> u16 \<Rightarrow> hs \<Rightarrow> int \<times> ble_gattc_proc \<times> hs" where
  "ble_gattc_disc_all_svcs_resume e p prev_handle s =
     (case ble_gattc_disc_all_svcs_tx e p prev_handle s of
        (st, s1) \<Rightarrow>
          (case ble_gattc_process_resume_status e p st s1 of
             (rc, p1, s2) \<Rightarrow>
               if rc \<noteq> 0 then (rc, p1, snd (ble_gattc_disc_all_svcs_cb e p1 rc 0 Null s2))
               else (0, p1, s2)))"

definition ble_gattc_disc_svc_uuid_resume ::
  "env \<Rightarrow> ble_gattc_proc \<Rightarrow> ble_uuid \<Rightarrow> u16 \<Rightarrow> hs \<Rightarrow> int \<times> ble_gattc_proc \<times> hs" where
  "ble_gattc_disc_svc_uuid_resume e p service_uuid prev_handle s =
     (case ble_gattc_disc_svc_uuid_tx e p service_uuid prev_handle s of
        (st, s1) \<Rightarrow>
          (case ble_gattc_process_resume_status e p st s1 of
             (rc, p1, s2) \<Rightarrow>
               if rc \<noteq> 0 then (rc, p1, snd (ble_gattc_disc_svc_uuid_cb e p1 rc 0 Null s2))
               else (0, p1, s2)))"

definition ble_gattc_find_inc_svcs_resume ::
  "env \<Rightarrow> ble_gattc_proc \<Rightarrow> u16 \<Rightarrow> u16 \<Rightarrow> u16 \<Rightarrow> hs \<Rightarrow> int \<times> ble_gattc_proc \<times> hs" where
  "ble_gattc_find_inc_svcs_resume e p prev_handle end_h cur_start s =
     (case ble_gattc_find_inc_svcs_tx e p prev_handle end_h cur_start s of
        (st, s1) \<Rightarrow>
          (case ble_gattc_process_resume_status e p st s1 of
             (rc, p1, s2) \<Rightarrow>
               if rc \<noteq> 0 then (rc, p1, snd (ble_gattc_find_inc_svcs_cb e p1 rc 0 Null s2))
               else (0, p1, s2)))"

definition ble_gattc_disc_all_chrs_resume ::
  "env \<Rightarrow> ble_gattc_proc \<Rightarrow> u16 \<Rightarrow> u16 \<Rightarrow> hs \<Rightarrow> int \<times> ble_gattc_proc \<times> hs" where
  "ble_gattc_disc_all_chrs_resume e p prev_handle end_h s =
     (case ble_gattc_disc_all_chrs_tx e p prev_handle end_h s of
        (st, s1) \<Rightarrow>
          (case ble_gattc_process_resume_status e p st s1 of
             (rc, p1, s2) \<Rightarrow>
               if rc \<noteq> 0 then (rc, p1, snd (ble_gattc_disc_all_chrs_cb e p1 rc 0 Null s2))
               else (0, p1, s2)))"

definition ble_gattc_disc_chr_uuid_resume ::
  "env \<Rightarrow> ble_gattc_proc \<Rightarrow> u16 \<Rightarrow> u16 \<Rightarrow> hs \<Rightarrow> int \<times> ble_gattc_proc \<times> hs" where
  "ble_gattc_disc_chr_uuid_resume e p prev_handle end_h s =
     (case ble_gattc_disc_chr_uuid_tx e p prev_handle end_h s of
        (st, s1) \<Rightarrow>
          (case ble_gattc_process_resume_status e p st s1 of
             (rc, p1, s2) \<Rightarrow>
               if rc \<noteq> 0 then (rc, p1, snd (ble_gattc_disc_chr_uuid_cb e p1 rc 0 Null s2))
               else (0, p1, s2)))"

definition ble_gattc_disc_all_dscs_resume ::
  "env \<Rightarrow> ble_gattc_proc \<Rightarrow> u16 \<Rightarrow> u16 \<Rightarrow> u16 \<Rightarrow> hs \<Rightarrow> int \<times> ble_gattc_proc \<times> hs" where
  "ble_gattc_disc_all_dscs_resume e p chr_val_handle prev_handle end_h s =
     (case ble_gattc_disc_all_dscs_tx e p prev_handle end_h s of
        (st, s1) \<Rightarrow>
          (case ble_gattc_process_resume_status e p st s1 of
             (rc, p1, s2) \<Rightarrow>
               if rc \<noteq> 0
               then (rc, p1, snd (ble_gattc_disc_all_dscs_cb e p1 chr_val_handle rc 0 Null s2))
               else (0, p1, s2)))"

definition ble_gattc_read_long_resume ::
  "env \<Rightarrow> ble_gattc_proc \<Rightarrow> u16 \<Rightarrow> u16 \<Rightarrow> hs \<Rightarrow> int \<times> ble_gattc_proc \<times> hs" where
  "ble_gattc_read_long_resume e p h off s =
     (case ble_gattc_read_long_tx e p h off s of
        (st, s1) \<Rightarrow>
          (case ble_gattc_process_resume_status e p st s1 of
             (rc, p1, s2) \<Rightarrow>
               if rc \<noteq> 0 then (rc, p1, snd (ble_gattc_read_long_cb e p1 rc 0 Null s2))
               else (0, p1, s2)))"

definition ble_gattc_write_long_resume ::
  "env \<Rightarrow> ble_gattc_proc \<Rightarrow> owned_attr \<Rightarrow> u16 \<Rightarrow> hs \<Rightarrow> int \<times> ble_gattc_proc \<times> hs" where
  "ble_gattc_write_long_resume e p attr len s =
     (case ble_gattc_write_long_tx e p attr len s of
        (st, len1, s1) \<Rightarrow>
          (case ble_gattc_process_resume_status e (p\<lparr>u := Write_long attr len1\<rparr>) st s1 of
             (rc, p1, s2) \<Rightarrow>
               if rc \<noteq> 0 then (rc, p1, snd (ble_gattc_write_long_cb e p1 attr rc 0 s2))
               else (0, p1, s2)))"

definition ble_gattc_write_reliable_resume ::
  "env \<Rightarrow> ble_gattc_proc \<Rightarrow> owned_attr list \<Rightarrow> u8 \<Rightarrow> u16 \<Rightarrow> hs
     \<Rightarrow> int \<times> ble_gattc_proc \<times> hs" where
  "ble_gattc_write_reliable_resume e p attrs cur_attr len s =
     (case ble_gattc_write_reliable_tx e p attrs cur_attr len s of
        (st, len1, s1) \<Rightarrow>
          (case ble_gattc_process_resume_status e (p\<lparr>u := Write_reliable attrs cur_attr len1\<rparr>) st s1 of
             (rc, p1, s2) \<Rightarrow>
               if rc \<noteq> 0 then (rc, p1, snd (ble_gattc_write_reliable_cb e p1 attrs rc 0 s2))
               else (0, p1, s2)))"

text \<open>
  \<open>ble_gattc_resume_dispatch\<close> (lines 318 to 336): \<open>None\<close> where the table holds a
  null pointer.
\<close>

definition ble_gattc_resume_dispatch ::
  "env \<Rightarrow> ble_gattc_proc \<Rightarrow> hs \<Rightarrow> (int \<times> ble_gattc_proc \<times> hs) option" where
  "ble_gattc_resume_dispatch e p s =
     (case u p of
        Disc_all_svcs prev \<Rightarrow> Some (ble_gattc_disc_all_svcs_resume e p prev s)
      | Disc_svc_uuid uu prev \<Rightarrow> Some (ble_gattc_disc_svc_uuid_resume e p uu prev s)
      | Find_inc_svcs prev end_h cur_start _ \<Rightarrow>
          Some (ble_gattc_find_inc_svcs_resume e p prev end_h cur_start s)
      | Disc_all_chrs prev end_h \<Rightarrow> Some (ble_gattc_disc_all_chrs_resume e p prev end_h s)
      | Disc_chr_uuid _ prev end_h \<Rightarrow> Some (ble_gattc_disc_chr_uuid_resume e p prev end_h s)
      | Disc_all_dscs chr_val_handle prev end_h \<Rightarrow>
          Some (ble_gattc_disc_all_dscs_resume e p chr_val_handle prev end_h s)
      | Read_long h off \<Rightarrow> Some (ble_gattc_read_long_resume e p h off s)
      | Write_long attr len \<Rightarrow> Some (ble_gattc_write_long_resume e p attr len s)
      | Write_reliable attrs cur_attr len \<Rightarrow>
          Some (ble_gattc_write_reliable_resume e p attrs cur_attr len s)
      | _ \<Rightarrow> None)"

subsection \<open>Failing, resuming and timing out procedures (lines 1263 to 1388)\<close>

definition ble_gattc_fail_procs :: "env \<Rightarrow> u16 \<Rightarrow> u8 \<Rightarrow> int \<Rightarrow> hs \<Rightarrow> hs" where
  "ble_gattc_fail_procs e conn opc st s =
     (case ble_gattc_extract_by_conn_op conn opc 0 s of
        (temp_list, s1) \<Rightarrow>
          fold (\<lambda>p s'. ble_gattc_proc_free e (Some p) (ble_gattc_err_dispatch e p st 0 s'))
            temp_list s1)"

text \<open>
  \<open>ble_gattc_resume_procs\<close> (lines 1288 to 1309) walks the list of stalled records
  with \<^verbatim>\<open>STAILQ_FOREACH\<close>, which reads the link of the current record after the body.
  The body ends in \<open>ble_gattc_process_status\<close>. When that inserts the record into the
  main list (\<^verbatim>\<open>STAILQ_INSERT_TAIL\<close> sets the record's link to null, and it is the same
  link), the walk ends there: the stalled records behind the first are in no list any
  more. When it frees the record, the walk reads the link of a freed record.
  A stalled record of a kind without resume function is a call through a null pointer.
\<close>

definition ble_gattc_resume_procs :: "env \<Rightarrow> hs \<Rightarrow> hs" where
  "ble_gattc_resume_procs e s =
     (case ble_gattc_extract_stalled (s\<lparr>ble_gattc_resume_at := 0\<rparr>) of
        (stall_list, s1) \<Rightarrow>
          (case stall_list of
             [] \<Rightarrow> s1
           | p # unreachable \<Rightarrow>
               (case ble_gattc_resume_dispatch e
                       (p\<lparr>flags := flags p AND NOT BLE_GATTC_PROC_F_STALLED\<rparr>) s1 of
                  None \<Rightarrow> s1\<lparr>fault := Some Null_deref\<rparr>
                | Some (rc, p1, s2) \<Rightarrow>
                    let s3 = ble_gattc_process_status e p1 rc s2
                    in if rc = 0 then s3 else s3\<lparr>fault := Some Use_after_free\<rparr>)))"

definition ble_gattc_ticks_until_resume :: "env \<Rightarrow> hs \<Rightarrow> int" where
  "ble_gattc_ticks_until_resume e s =
     (if ble_gattc_resume_at s = 0 then BLE_HS_FOREVER
      else let diff = sint (ble_gattc_resume_at s - ble_npl_time_get e)
           in if diff \<le> 0 then 0 else diff)"

text \<open>The first loop of \<open>ble_gattc_timer\<close>, over the expired records.\<close>

definition timeout_procs :: "env \<Rightarrow> ble_gattc_proc list \<Rightarrow> hs \<Rightarrow> hs" where
  "timeout_procs e exp_list s =
     fold (\<lambda>p s'. ble_gattc_proc_free e (Some p)
                     (emit (Gap_terminate (conn_handle p) BLE_ERR_REM_USER_CONN_TERM)
                        (ble_gattc_proc_timeout e p s')))
       exp_list s"

definition ble_gattc_timer :: "env \<Rightarrow> hs \<Rightarrow> int \<times> hs" where
  "ble_gattc_timer e s =
     (case ble_gattc_extract_expired e s of
        (ticks_until_exp, exp_list, s1) \<Rightarrow>
          let s2 = timeout_procs e exp_list s1;
              ticks_until_resume = ble_gattc_ticks_until_resume e s2
          in if ticks_until_resume = 0
             then let s3 = ble_gattc_resume_procs e s2
                  in (min ticks_until_exp (ble_gattc_ticks_until_resume e s3), s3)
             else (min ticks_until_exp ticks_until_resume, s2))"

subsection \<open>Connection loss and ATT errors (lines 5593 to 5628 and 6008 to 6024)\<close>

text \<open>
  \<open>ble_gattc_connection_broken\<close>: after the sweep the connection's transmit queue is
  emptied; the connection is looked up and used without a null check.
\<close>

definition ble_gattc_connection_broken :: "env \<Rightarrow> u16 \<Rightarrow> hs \<Rightarrow> hs" where
  "ble_gattc_connection_broken e conn s =
     (let s1 = ble_gattc_fail_procs e conn BLE_GATT_OP_NONE BLE_HS_ENOTCONN s
      in case ble_hs_conn_find e conn of
           None \<Rightarrow> s1\<lparr>fault := Some Null_deref\<rparr>
         | Some c \<Rightarrow> fold (\<lambda>m. os_mbuf_free_chain (Some m)) (att_tx_q c) s1)"

text \<open>
  \<open>ble_gattc_rx_err\<close>. With auto-pair compiled in, the two assignments to
  \<^verbatim>\<open>proc->error\<close> stand before the null check of \<^verbatim>\<open>proc\<close>.
\<close>

definition ble_gattc_rx_err :: "env \<Rightarrow> u16 \<Rightarrow> u16 \<Rightarrow> u16 \<Rightarrow> u16 \<Rightarrow> hs \<Rightarrow> hs" where
  "ble_gattc_rx_err e conn c h st s =
     (case ble_gattc_extract_first_by_conn_cid_op conn c BLE_GATT_OP_NONE s of
        (po, s1) \<Rightarrow>
          if MYNEWT_VAL (cfg e) BLE_GATTC_AUTO_PAIR
          then (case po of
                  None \<Rightarrow> s1\<lparr>fault := Some Null_deref\<rparr>
                | Some p0 \<Rightarrow>
                    let desc = snd (ble_gap_conn_find e conn);
                        p = p0\<lparr>error := \<lparr>status = st, att_handle = h\<rparr>\<rparr>;
                        fail = (\<lambda>s'. ble_gattc_proc_free e (Some p)
                                        (ble_gattc_err_dispatch e p (BLE_HS_ERR_ATT_BASE + uint st) h s'))
                    in if \<not> encrypted desc
                          \<and> (st = BLE_ATT_ERR_INSUFFICIENT_ENC \<or> st = BLE_ATT_ERR_INSUFFICIENT_AUTHEN)
                       then let rc = ble_gap_security_initiate e conn;
                                s2 = emit (Gap_security_initiate conn rc) s1
                            in if rc = 0
                               then s2\<lparr>ble_gattc_cached_procs := ble_gattc_cached_procs s2 @ [p]\<rparr>
                               else fail s2
                       else fail s1)
          else (case po of
                  None \<Rightarrow> s1
                | Some p \<Rightarrow>
                    ble_gattc_proc_free e (Some p)
                      (ble_gattc_err_dispatch e p (BLE_HS_ERR_ATT_BASE + uint st) h s1)))"

subsection \<open>Discover all services: responses and initiator (lines 1715 to 1850)\<close>

text \<open>\<^verbatim>\<open>struct ble_att_read_group_type_adata\<close>; \<open>value_len\<close> is the length of \<open>value\<close>.\<close>

record ble_att_read_group_type_adata =
  adata_att_handle :: u16
  end_group_handle :: u16
  adata_value :: "u8 list"

text \<open>
  \<open>ble_gattc_disc_all_svcs_rx_adata\<close>. On a failure the callback gets the address of
  the local \<^verbatim>\<open>service\<close>, which is not filled in.
\<close>

definition ble_gattc_disc_all_svcs_rx_adata ::
  "env \<Rightarrow> ble_gattc_proc \<Rightarrow> u16 \<Rightarrow> ble_att_read_group_type_adata \<Rightarrow> hs
     \<Rightarrow> int \<times> ble_gattc_proc \<times> hs" where
  "ble_gattc_disc_all_svcs_rx_adata e p prev_handle adata s =
     (let done = (\<lambda>rc p' service.
                    case ble_gattc_disc_all_svcs_cb e p' rc 0 service s of
                      (cbrc, s1) \<Rightarrow> (if rc \<noteq> 0 \<or> cbrc \<noteq> 0 then BLE_HS_EDONE else 0, p', s1))
      in if length (adata_value adata) = 2 \<or> length (adata_value adata) = 16
         then (case ble_uuid_init_from_att_buf e (adata_value adata) of
                 (rc, service_uuid) \<Rightarrow>
                   if rc \<noteq> 0 then done BLE_HS_EBADDATA p Uninit
                   else if end_group_handle adata \<le> prev_handle then done BLE_HS_EBADDATA p Uninit
                   else done 0 (p\<lparr>u := Disc_all_svcs (end_group_handle adata)\<rparr>)
                          (Ptr \<lparr>start_handle = adata_att_handle adata,
                                end_handle = end_group_handle adata, uuid = service_uuid\<rparr>))
         else done BLE_HS_EBADDATA p Uninit)"

definition ble_gattc_disc_all_svcs_rx_complete ::
  "env \<Rightarrow> ble_gattc_proc \<Rightarrow> u16 \<Rightarrow> int \<Rightarrow> hs \<Rightarrow> int \<times> ble_gattc_proc \<times> hs" where
  "ble_gattc_disc_all_svcs_rx_complete e p prev_handle st s =
     (if st \<noteq> 0 then (BLE_HS_EDONE, p, snd (ble_gattc_disc_all_svcs_cb e p st 0 Null s))
      else if prev_handle = 65535
      then (BLE_HS_EDONE, p, snd (ble_gattc_disc_all_svcs_cb e p BLE_HS_EDONE 0 Null s))
      else (case ble_gattc_disc_all_svcs_resume e p prev_handle s of
              (rc, p1, s1) \<Rightarrow> (if rc \<noteq> 0 then BLE_HS_EDONE else 0, p1, s1)))"

text \<open>
  The two dispatchers (lines 5791 to 5830). The record extracted by op code
  \<^verbatim>\<open>BLE_GATT_OP_DISC_ALL_SVCS\<close> holds the \<open>Disc_all_svcs\<close> member.
\<close>

definition ble_gattc_rx_read_group_type_adata ::
  "env \<Rightarrow> u16 \<Rightarrow> u16 \<Rightarrow> ble_att_read_group_type_adata \<Rightarrow> hs \<Rightarrow> hs" where
  "ble_gattc_rx_read_group_type_adata e conn c adata s =
     (if \<not> MYNEWT_VAL (cfg e) NIMBLE_BLE_ATT_CLT_READ_GROUP_TYPE then s
      else case ble_gattc_extract_first_by_conn_cid_op conn c BLE_GATT_OP_DISC_ALL_SVCS s of
             (Some p, s1) \<Rightarrow>
               (case u p of
                  Disc_all_svcs prev \<Rightarrow>
                    (case ble_gattc_disc_all_svcs_rx_adata e p prev adata s1 of
                       (rc, p1, s2) \<Rightarrow> ble_gattc_process_status e p1 rc s2)
                | _ \<Rightarrow> s1)
           | (None, s1) \<Rightarrow> s1)"

definition ble_gattc_rx_read_group_type_complete :: "env \<Rightarrow> u16 \<Rightarrow> u16 \<Rightarrow> int \<Rightarrow> hs \<Rightarrow> hs" where
  "ble_gattc_rx_read_group_type_complete e conn c st s =
     (if \<not> MYNEWT_VAL (cfg e) NIMBLE_BLE_ATT_CLT_READ_GROUP_TYPE then s
      else case ble_gattc_extract_first_by_conn_cid_op conn c BLE_GATT_OP_DISC_ALL_SVCS s of
             (Some p, s1) \<Rightarrow>
               (case u p of
                  Disc_all_svcs prev \<Rightarrow>
                    (case ble_gattc_disc_all_svcs_rx_complete e p prev st s1 of
                       (rc, p1, s2) \<Rightarrow> ble_gattc_process_status e p1 rc s2)
                | _ \<Rightarrow> s1)
           | (None, s1) \<Rightarrow> s1)"

subsection \<open>Read long: responses (lines 3953 to 4001 and 5860 to 5877)\<close>

text \<open>
  \<open>ble_gattc_read_long_rx_read_rsp\<close>; \<open>rxom\<close> is the response's payload. The length
  is compared with the MTU as a C \<^verbatim>\<open>int\<close>; the offset is advanced in 16 bits.
\<close>

definition ble_gattc_read_long_rx_read_rsp ::
  "env \<Rightarrow> ble_gattc_proc \<Rightarrow> u16 \<Rightarrow> u16 \<Rightarrow> int \<Rightarrow> mbuf \<Rightarrow> hs \<Rightarrow> int \<times> ble_gattc_proc \<times> hs" where
  "ble_gattc_read_long_rx_read_rsp e p h off st rxom s =
     (let data_len = OS_MBUF_PKTLEN rxom
      in case ble_gattc_read_long_cb e p st 0
                (Ptr \<lparr>handle = h, offset = off, om = Some rxom\<rparr>) s of
           (rc, s1) \<Rightarrow>
             if rc \<noteq> 0 \<or> st \<noteq> 0 then (BLE_HS_EDONE, p, s1)
             else
               let mtu = ble_att_mtu_by_cid e (conn_handle p) (cid p)
               in if mtu = 0 then (BLE_HS_EDONE, p, s1)
                  else if uint data_len < uint mtu - 1
                  then (BLE_HS_EDONE, p, snd (ble_gattc_read_long_cb e p BLE_HS_EDONE 0 Null s1))
                  else (case ble_gattc_read_long_resume e
                               (p\<lparr>u := Read_long h (off + data_len)\<rparr>) h (off + data_len) s1 of
                          (rc1, p1, s2) \<Rightarrow> (if rc1 \<noteq> 0 then BLE_HS_EDONE else 0, p1, s2)))"

definition ble_gattc_rx_read_blob_rsp :: "env \<Rightarrow> u16 \<Rightarrow> u16 \<Rightarrow> int \<Rightarrow> mbuf \<Rightarrow> hs \<Rightarrow> hs" where
  "ble_gattc_rx_read_blob_rsp e conn c st rxom s =
     (if \<not> MYNEWT_VAL (cfg e) NIMBLE_BLE_ATT_CLT_READ_BLOB then s
      else case ble_gattc_extract_first_by_conn_cid_op conn c BLE_GATT_OP_READ_LONG s of
             (Some p, s1) \<Rightarrow>
               (case u p of
                  Read_long h off \<Rightarrow>
                    (case ble_gattc_read_long_rx_read_rsp e p h off st rxom s1 of
                       (rc, p1, s2) \<Rightarrow> ble_gattc_process_status e p1 rc s2)
                | _ \<Rightarrow> s1)
           | (None, s1) \<Rightarrow> s1)"

subsection \<open>Write long: prepare write responses (lines 4701 to 4773)\<close>

text \<open>
  \<^verbatim>\<open>os_mbuf_cmpm(om1, off1, om2, off2, len)\<close>: 0 when both chains hold \<open>len\<close> equal
  bytes from their offsets. It is called after the lengths have been checked.
\<close>

definition os_mbuf_cmpm :: "mbuf \<Rightarrow> nat \<Rightarrow> mbuf \<Rightarrow> nat \<Rightarrow> nat \<Rightarrow> int" where
  "os_mbuf_cmpm om1 off1 om2 off2 len =
     (if length om1 \<ge> off1 + len \<and> length om2 \<ge> off2 + len
         \<and> take len (drop off1 om1) = take len (drop off2 om2) then 0 else 1)"

definition ble_gattc_write_long_rx_prep ::
  "env \<Rightarrow> ble_gattc_proc \<Rightarrow> owned_attr \<Rightarrow> u16 \<Rightarrow> int \<Rightarrow> u16 \<Rightarrow> u16 \<Rightarrow> mbuf \<Rightarrow> hs
     \<Rightarrow> int \<times> ble_gattc_proc \<times> hs" where
  "ble_gattc_write_long_rx_prep e p attr len st h off rxom s =
     (let err = (\<lambda>rc p' attr' s'. (BLE_HS_EDONE, p', snd (ble_gattc_write_long_cb e p' attr' rc 0 s')))
      in if st \<noteq> 0 then err st p attr s
         else if a_offset attr \<ge> OS_MBUF_PKTLEN (a_om attr) then err BLE_HS_EBADDATA p attr s
         else if h \<noteq> a_handle attr then err BLE_HS_EBADDATA p attr s
         else if off \<noteq> a_offset attr then err BLE_HS_EBADDATA p attr s
         else if uint off + uint (OS_MBUF_PKTLEN rxom) > uint (OS_MBUF_PKTLEN (a_om attr))
         then err BLE_HS_EBADDATA p attr s
         else if OS_MBUF_PKTLEN rxom \<noteq> len then err BLE_HS_EBADDATA p attr s
         else if os_mbuf_cmpm rxom 0 (a_om attr) (unat off) (unat len) \<noteq> 0
         then err BLE_HS_EBADDATA p attr
                (snd (ble_att_clt_tx e
                        (Tx_exec_write (conn_handle p) (cid p) BLE_ATT_EXEC_WRITE_F_CANCEL) s))
         else
           let attr1 = attr\<lparr>a_offset := a_offset attr + OS_MBUF_PKTLEN rxom\<rparr>
           in (case ble_gattc_write_long_resume e (p\<lparr>u := Write_long attr1 len\<rparr>) attr1 len s of
                 (rc, p1, s1) \<Rightarrow>
                   if rc \<noteq> 0 then err rc p1 attr1 s1 else (0, p1, s1)))"

subsection \<open>Initiators\<close>

text \<open>
  What the initiators of the single-request kinds share, from the allocation to
  \<open>ble_gattc_process_status\<close>: \<open>fill\<close> prepares the record and stores the kind's
  state, \<open>tx\<close> is the kind's transmit function. With no record to be had the status
  is \<open>BLE_HS_ENOMEM\<close> and \<open>ble_gattc_process_status\<close> is handed a null pointer, which
  its \<open>default\<close> branch passes to \<open>ble_gattc_proc_free\<close>.
\<close>

definition start_proc ::
  "env \<Rightarrow> (ble_gattc_proc \<Rightarrow> ble_gattc_proc) \<Rightarrow> (ble_gattc_proc \<Rightarrow> hs \<Rightarrow> int \<times> hs) \<Rightarrow> hs
     \<Rightarrow> int \<times> hs" where
  "start_proc e fill tx s =
     (case ble_gattc_proc_alloc s of
        (None, s1) \<Rightarrow> (BLE_HS_ENOMEM, ble_gattc_proc_free e None s1)
      | (Some p0, s1) \<Rightarrow>
          (case tx (fill p0) s1 of
             (rc, s2) \<Rightarrow> (rc, ble_gattc_process_status e (fill p0) rc s2)))"

text \<open>
  With caching compiled in, the discovery initiators ask the cache first and return
  0 when it has answered (the cache calls the callback itself).
\<close>

definition cache_first ::
  "env \<Rightarrow> feature \<Rightarrow> cache_query \<Rightarrow> (hs \<Rightarrow> int \<times> hs) \<Rightarrow> hs \<Rightarrow> int \<times> hs" where
  "cache_first e f q cont s =
     (if MYNEWT_VAL (cfg e) f
      then let rc = cache_search e (trace s) q; s1 = emit (Cache_search q rc) s
           in if rc = 0 then (0, s1) else cont s1
      else cont s)"

definition ble_gattc_exchange_mtu :: "env \<Rightarrow> u16 \<Rightarrow> fnptr \<Rightarrow> voidptr \<Rightarrow> hs \<Rightarrow> int \<times> hs" where
  "ble_gattc_exchange_mtu e conn f arg s =
     start_proc e
       (\<lambda>p. p\<lparr>u := Mtu, conn_handle := conn, cid := BLE_L2CAP_CID_ATT, cb := f, cb_arg := arg\<rparr>)
       (ble_gattc_mtu_tx e) s"

definition ble_gattc_disc_all_svcs :: "env \<Rightarrow> u16 \<Rightarrow> fnptr \<Rightarrow> voidptr \<Rightarrow> hs \<Rightarrow> int \<times> hs" where
  "ble_gattc_disc_all_svcs e conn f arg s =
     (if \<not> MYNEWT_VAL (cfg e) BLE_GATT_DISC_ALL_SVCS then (BLE_HS_ENOTSUP, s)
      else cache_first e BLE_GATT_CACHING (Search_all_svcs conn)
             (start_proc e
                (\<lambda>p. (ble_gattc_proc_prepare e p conn (Disc_all_svcs 0))\<lparr>cb := f, cb_arg := arg\<rparr>)
                (\<lambda>p. ble_gattc_disc_all_svcs_tx e p 0)) s)"

definition ble_gattc_disc_svc_by_uuid ::
  "env \<Rightarrow> u16 \<Rightarrow> ble_uuid \<Rightarrow> fnptr \<Rightarrow> voidptr \<Rightarrow> hs \<Rightarrow> int \<times> hs" where
  "ble_gattc_disc_svc_by_uuid e conn uu f arg s =
     (if \<not> MYNEWT_VAL (cfg e) BLE_GATT_DISC_SVC_UUID then (BLE_HS_ENOTSUP, s)
      else cache_first e BLE_GATT_CACHING (Search_svc_by_uuid conn uu)
             (start_proc e
                (\<lambda>p. (ble_gattc_proc_prepare e p conn (Disc_svc_uuid uu 0))\<lparr>cb := f, cb_arg := arg\<rparr>)
                (\<lambda>p. ble_gattc_disc_svc_uuid_tx e p uu 0)) s)"

definition ble_gattc_find_inc_svcs ::
  "env \<Rightarrow> u16 \<Rightarrow> u16 \<Rightarrow> u16 \<Rightarrow> fnptr \<Rightarrow> voidptr \<Rightarrow> hs \<Rightarrow> int \<times> hs" where
  "ble_gattc_find_inc_svcs e conn start_h end_h f arg s =
     (if \<not> MYNEWT_VAL (cfg e) BLE_GATT_FIND_INC_SVCS then (BLE_HS_ENOTSUP, s)
      else cache_first e BLE_GATT_CACHING_INCLUDE_SERVICES (Search_inc_svcs conn start_h end_h)
             (start_proc e
                (\<lambda>p. (ble_gattc_proc_prepare e p conn (Find_inc_svcs (start_h - 1) end_h 0 0))
                        \<lparr>cb := f, cb_arg := arg\<rparr>)
                (\<lambda>p. ble_gattc_find_inc_svcs_tx e p (start_h - 1) end_h 0)) s)"

definition ble_gattc_disc_all_chrs ::
  "env \<Rightarrow> u16 \<Rightarrow> u16 \<Rightarrow> u16 \<Rightarrow> fnptr \<Rightarrow> voidptr \<Rightarrow> hs \<Rightarrow> int \<times> hs" where
  "ble_gattc_disc_all_chrs e conn start_h end_h f arg s =
     (if \<not> MYNEWT_VAL (cfg e) BLE_GATT_DISC_ALL_CHRS then (BLE_HS_ENOTSUP, s)
      else cache_first e BLE_GATT_CACHING (Search_all_chrs conn start_h end_h)
             (start_proc e
                (\<lambda>p. (ble_gattc_proc_prepare e p conn (Disc_all_chrs (start_h - 1) end_h))
                        \<lparr>cb := f, cb_arg := arg\<rparr>)
                (\<lambda>p. ble_gattc_disc_all_chrs_tx e p (start_h - 1) end_h)) s)"

definition ble_gattc_disc_chrs_by_uuid ::
  "env \<Rightarrow> u16 \<Rightarrow> u16 \<Rightarrow> u16 \<Rightarrow> ble_uuid \<Rightarrow> fnptr \<Rightarrow> voidptr \<Rightarrow> hs \<Rightarrow> int \<times> hs" where
  "ble_gattc_disc_chrs_by_uuid e conn start_h end_h uu f arg s =
     (if \<not> MYNEWT_VAL (cfg e) BLE_GATT_DISC_CHR_UUID then (BLE_HS_ENOTSUP, s)
      else cache_first e BLE_GATT_CACHING (Search_chrs_by_uuid conn start_h end_h uu)
             (start_proc e
                (\<lambda>p. (ble_gattc_proc_prepare e p conn (Disc_chr_uuid uu (start_h - 1) end_h))
                        \<lparr>cb := f, cb_arg := arg\<rparr>)
                (\<lambda>p. ble_gattc_disc_chr_uuid_tx e p (start_h - 1) end_h)) s)"

definition ble_gattc_disc_all_dscs ::
  "env \<Rightarrow> u16 \<Rightarrow> u16 \<Rightarrow> u16 \<Rightarrow> fnptr \<Rightarrow> voidptr \<Rightarrow> hs \<Rightarrow> int \<times> hs" where
  "ble_gattc_disc_all_dscs e conn start_h end_h f arg s =
     (if \<not> MYNEWT_VAL (cfg e) BLE_GATT_DISC_ALL_DSCS then (BLE_HS_ENOTSUP, s)
      else cache_first e BLE_GATT_CACHING (Search_all_dscs conn start_h end_h)
             (start_proc e
                (\<lambda>p. (ble_gattc_proc_prepare e p conn (Disc_all_dscs start_h start_h end_h))
                        \<lparr>cb := f, cb_arg := arg\<rparr>)
                (\<lambda>p. ble_gattc_disc_all_dscs_tx e p start_h end_h)) s)"

definition ble_gattc_read :: "env \<Rightarrow> u16 \<Rightarrow> u16 \<Rightarrow> fnptr \<Rightarrow> voidptr \<Rightarrow> hs \<Rightarrow> int \<times> hs" where
  "ble_gattc_read e conn attr_handle f arg s =
     (if \<not> MYNEWT_VAL (cfg e) BLE_GATT_READ then (BLE_HS_ENOTSUP, s)
      else start_proc e
             (\<lambda>p. (ble_gattc_proc_prepare e p conn (Read attr_handle))\<lparr>cb := f, cb_arg := arg\<rparr>)
             (\<lambda>p. ble_gattc_read_tx e p attr_handle) s)"

definition ble_gattc_read_by_uuid ::
  "env \<Rightarrow> u16 \<Rightarrow> u16 \<Rightarrow> u16 \<Rightarrow> ble_uuid \<Rightarrow> fnptr \<Rightarrow> voidptr \<Rightarrow> hs \<Rightarrow> int \<times> hs" where
  "ble_gattc_read_by_uuid e conn start_h end_h uu f arg s =
     (if \<not> MYNEWT_VAL (cfg e) BLE_GATT_READ_UUID then (BLE_HS_ENOTSUP, s)
      else start_proc e
             (\<lambda>p. (ble_gattc_proc_prepare e p conn (Read_uuid uu start_h end_h))
                     \<lparr>cb := f, cb_arg := arg\<rparr>)
             (\<lambda>p. ble_gattc_read_uuid_tx e p uu start_h end_h) s)"

definition ble_gattc_read_long ::
  "env \<Rightarrow> u16 \<Rightarrow> u16 \<Rightarrow> u16 \<Rightarrow> fnptr \<Rightarrow> voidptr \<Rightarrow> hs \<Rightarrow> int \<times> hs" where
  "ble_gattc_read_long e conn h off f arg s =
     (if \<not> MYNEWT_VAL (cfg e) BLE_GATT_READ_LONG then (BLE_HS_ENOTSUP, s)
      else start_proc e
             (\<lambda>p. (ble_gattc_proc_prepare e p conn (Read_long h off))\<lparr>cb := f, cb_arg := arg\<rparr>)
             (\<lambda>p. ble_gattc_read_long_tx e p h off) s)"

definition ble_gattc_read_mult_internal ::
  "env \<Rightarrow> u16 \<Rightarrow> u16 list \<Rightarrow> bool \<Rightarrow> fnptr \<Rightarrow> fnptr \<Rightarrow> voidptr \<Rightarrow> hs \<Rightarrow> int \<times> hs" where
  "ble_gattc_read_mult_internal e conn handles variable f f_mult arg s =
     (if \<not> MYNEWT_VAL (cfg e) BLE_GATT_READ_MULT then (BLE_HS_ENOTSUP, s)
      else if length handles > BLE_GATT_READ_MAX_ATTRS (cfg e)
      then (BLE_HS_EINVAL, ble_gattc_proc_free e None s)
      else start_proc e
             (\<lambda>p. (ble_gattc_proc_prepare e p conn (Read_mult handles variable f_mult))
                     \<lparr>cb := f, cb_arg := arg\<rparr>)
             (\<lambda>p. ble_gattc_read_mult_tx e p handles variable) s)"

definition ble_gattc_read_mult ::
  "env \<Rightarrow> u16 \<Rightarrow> u16 list \<Rightarrow> fnptr \<Rightarrow> voidptr \<Rightarrow> hs \<Rightarrow> int \<times> hs" where
  "ble_gattc_read_mult e conn handles f arg s =
     ble_gattc_read_mult_internal e conn handles False f None arg s"

definition ble_gattc_read_mult_var ::
  "env \<Rightarrow> u16 \<Rightarrow> u16 list \<Rightarrow> fnptr \<Rightarrow> voidptr \<Rightarrow> hs \<Rightarrow> int \<times> hs" where
  "ble_gattc_read_mult_var e conn handles f arg s =
     (if MYNEWT_VAL (cfg e) BLE_GATT_READ_MULT_VAR
      then ble_gattc_read_mult_internal e conn handles True None f arg s
      else (BLE_HS_ENOTSUP, s))"

text \<open>
  \<open>ble_gattc_write\<close> (lines 4476 to 4522). With auto-pair the record keeps a duplicate
  of the payload (null when the duplication fails). The transport consumes \<open>txom\<close>;
  the caller's buffer is released here only when no record could be allocated.
\<close>

definition ble_gattc_write ::
  "env \<Rightarrow> u16 \<Rightarrow> u16 \<Rightarrow> mbuf \<Rightarrow> fnptr \<Rightarrow> voidptr \<Rightarrow> hs \<Rightarrow> int \<times> hs" where
  "ble_gattc_write e conn attr_handle txom f arg s =
     (if \<not> MYNEWT_VAL (cfg e) BLE_GATT_WRITE then (BLE_HS_ENOTSUP, s)
      else case ble_gattc_proc_alloc s of
             (None, s1) \<Rightarrow>
               (BLE_HS_ENOMEM, ble_gattc_proc_free e None (os_mbuf_free_chain (Some txom) s1))
           | (Some p0, s1) \<Rightarrow>
               (case (if MYNEWT_VAL (cfg e) BLE_GATTC_AUTO_PAIR
                      then (case mbuf_alloc e s1 of (ok, s2) \<Rightarrow> (if ok then Some txom else None, s2))
                      else (None, s1)) of
                  (dup, s2) \<Rightarrow>
                    let p = (ble_gattc_proc_prepare e p0 conn (Write attr_handle dup))
                              \<lparr>cb := f, cb_arg := arg\<rparr>
                    in (case ble_att_clt_tx e (Tx_write_req conn (cid p) attr_handle txom) s2 of
                          (rc, s3) \<Rightarrow> (rc, ble_gattc_process_status e p rc s3))))"

text \<open>\<open>ble_gattc_write_long\<close> (lines 4797 to 4850): the record owns \<open>txom\<close>.\<close>

definition ble_gattc_write_long ::
  "env \<Rightarrow> u16 \<Rightarrow> u16 \<Rightarrow> u16 \<Rightarrow> mbuf \<Rightarrow> fnptr \<Rightarrow> voidptr \<Rightarrow> hs \<Rightarrow> int \<times> hs" where
  "ble_gattc_write_long e conn attr_handle off txom f arg s =
     (if \<not> MYNEWT_VAL (cfg e) BLE_GATT_WRITE_LONG then (BLE_HS_ENOTSUP, s)
      else case ble_gattc_proc_alloc s of
             (None, s1) \<Rightarrow>
               (BLE_HS_ENOMEM, ble_gattc_proc_free e None (os_mbuf_free_chain (Some txom) s1))
           | (Some p0, s1) \<Rightarrow>
               let attr = \<lparr>a_handle = attr_handle, a_offset = off, a_om = txom\<rparr>;
                   p = (ble_gattc_proc_prepare e p0 conn (Write_long attr 0))\<lparr>cb := f, cb_arg := arg\<rparr>
               in if off > OS_MBUF_PKTLEN txom
                  then (BLE_ATT_ERR_INVALID_OFFSET,
                        ble_gattc_process_status e p BLE_ATT_ERR_INVALID_OFFSET s1)
                  else (case ble_gattc_write_long_tx e p attr 0 s1 of
                          (rc, len1, s2) \<Rightarrow>
                            (rc, ble_gattc_process_status e (p\<lparr>u := Write_long attr len1\<rparr>) rc s2)))"

text \<open>
  \<open>ble_gattc_write_reliable\<close> (lines 5081 to 5144): the caller's buffers are released
  here when no record took them over.
\<close>

definition ble_gattc_write_reliable ::
  "env \<Rightarrow> u16 \<Rightarrow> owned_attr list \<Rightarrow> fnptr \<Rightarrow> voidptr \<Rightarrow> hs \<Rightarrow> int \<times> hs" where
  "ble_gattc_write_reliable e conn attrs f arg s =
     (if \<not> MYNEWT_VAL (cfg e) BLE_GATT_WRITE_RELIABLE then (BLE_HS_ENOTSUP, s)
      else
        let give_back = fold (\<lambda>a. os_mbuf_free_chain (Some (a_om a))) attrs
        in if length attrs > BLE_GATT_WRITE_MAX_ATTRS (cfg e)
           then (BLE_HS_EINVAL, ble_gattc_proc_free e None (give_back s))
           else case ble_gattc_proc_alloc s of
                  (None, s1) \<Rightarrow> (BLE_HS_ENOMEM, ble_gattc_proc_free e None (give_back s1))
                | (Some p0, s1) \<Rightarrow>
                    let attrs0 = map (\<lambda>a. a\<lparr>a_offset := 0\<rparr>) attrs;
                        p = (ble_gattc_proc_prepare e p0 conn (Write_reliable attrs0 0 0))
                              \<lparr>cb := f, cb_arg := arg\<rparr>
                    in (case ble_gattc_write_reliable_tx e p attrs0 0 0 s1 of
                          (rc, len1, s2) \<Rightarrow>
                            (rc, ble_gattc_process_status e
                                   (p\<lparr>u := Write_reliable attrs0 0 len1\<rparr>) rc s2)))"

text \<open>
  The operations of the GATT client that start a procedure, as one type, so that a
  statement can range over all of them.
\<close>

datatype gattc_request =
    Exchange_mtu u16 fnptr voidptr
  | Req_disc_all_svcs u16 fnptr voidptr
  | Req_disc_svc_by_uuid u16 ble_uuid fnptr voidptr
  | Req_find_inc_svcs u16 u16 u16 fnptr voidptr
  | Req_disc_all_chrs u16 u16 u16 fnptr voidptr
  | Req_disc_chrs_by_uuid u16 u16 u16 ble_uuid fnptr voidptr
  | Req_disc_all_dscs u16 u16 u16 fnptr voidptr
  | Req_read u16 u16 fnptr voidptr
  | Req_read_by_uuid u16 u16 u16 ble_uuid fnptr voidptr
  | Req_read_long u16 u16 u16 fnptr voidptr
  | Req_read_mult u16 "u16 list" fnptr voidptr
  | Req_read_mult_var u16 "u16 list" fnptr voidptr
  | Req_write u16 u16 mbuf fnptr voidptr
  | Req_write_long u16 u16 u16 mbuf fnptr voidptr
  | Req_write_reliable u16 "owned_attr list" fnptr voidptr

fun initiate :: "env \<Rightarrow> gattc_request \<Rightarrow> hs \<Rightarrow> int \<times> hs" where
  "initiate e (Exchange_mtu c f a) s = ble_gattc_exchange_mtu e c f a s"
| "initiate e (Req_disc_all_svcs c f a) s = ble_gattc_disc_all_svcs e c f a s"
| "initiate e (Req_disc_svc_by_uuid c uu f a) s = ble_gattc_disc_svc_by_uuid e c uu f a s"
| "initiate e (Req_find_inc_svcs c sh eh f a) s = ble_gattc_find_inc_svcs e c sh eh f a s"
| "initiate e (Req_disc_all_chrs c sh eh f a) s = ble_gattc_disc_all_chrs e c sh eh f a s"
| "initiate e (Req_disc_chrs_by_uuid c sh eh uu f a) s = ble_gattc_disc_chrs_by_uuid e c sh eh uu f a s"
| "initiate e (Req_disc_all_dscs c sh eh f a) s = ble_gattc_disc_all_dscs e c sh eh f a s"
| "initiate e (Req_read c h f a) s = ble_gattc_read e c h f a s"
| "initiate e (Req_read_by_uuid c sh eh uu f a) s = ble_gattc_read_by_uuid e c sh eh uu f a s"
| "initiate e (Req_read_long c h off f a) s = ble_gattc_read_long e c h off f a s"
| "initiate e (Req_read_mult c hs f a) s = ble_gattc_read_mult e c hs f a s"
| "initiate e (Req_read_mult_var c hs f a) s = ble_gattc_read_mult_var e c hs f a s"
| "initiate e (Req_write c h m f a) s = ble_gattc_write e c h m f a s"
| "initiate e (Req_write_long c h off m f a) s = ble_gattc_write_long e c h off m f a s"
| "initiate e (Req_write_reliable c attrs f a) s = ble_gattc_write_reliable e c attrs f a s"

subsection \<open>Multiple handle value notifications (lines 5231 to 5341)\<close>

record ble_gatt_notif =
  notif_handle :: u16
  notif_value :: "mbuf option"

text \<open>
  The first loop reads the values that are missing; it tests the handle of the first
  tuple on every round. Its result is the status and the tuples read so far, each
  with its value.
\<close>

fun read_missing_values ::
  "env \<Rightarrow> u16 \<Rightarrow> ble_gatt_notif list \<Rightarrow> int \<times> (u16 \<times> mbuf) list" where
  "read_missing_values e first_handle [] = (0, [])"
| "read_missing_values e first_handle (t # ts) =
     (if first_handle = 0 then (BLE_HS_EINVAL, [])
      else case (case notif_value t of
                   Some v \<Rightarrow> (0, v)
                 | None \<Rightarrow> ble_att_svr_read_local e (notif_handle t)) of
             (rc, v) \<Rightarrow>
               if rc \<noteq> 0 then (rc, [])
               else (case read_missing_values e first_handle ts of
                       (rc1, vs) \<Rightarrow> (rc1, (notif_handle t, v) # vs)))"

text \<open>The fallback for a peer without multiple-notification support.\<close>

fun notify_each :: "env \<Rightarrow> u16 \<Rightarrow> (u16 \<times> mbuf) list \<Rightarrow> hs \<Rightarrow> int \<times> hs" where
  "notify_each e conn [] s = (0, s)"
| "notify_each e conn ((h, v) # ts) s =
     (case ble_att_clt_tx e (Tx_notify conn h (Some v)) s of
        (rc, s1) \<Rightarrow> if rc \<noteq> 0 then (rc, s1) else notify_each e conn ts s1)"

text \<open>
  The batching loop. It ends by falling through (\<open>Loop_end\<close>, with the buffer and
  \<^verbatim>\<open>cur_chr_cnt\<close>), by \<^verbatim>\<open>goto done\<close> or by returning at once. A 16-bit value is
  appended low byte first.
\<close>

datatype batch_exit = Loop_end mbuf u16 hs | Goto_done int hs | Return_now int hs

definition le16 :: "u16 \<Rightarrow> u8 list" where
  "le16 w = [ucast w, ucast (drop_bit 8 w)]"

fun batch_loop :: "env \<Rightarrow> u16 \<Rightarrow> u16 \<Rightarrow> (u16 \<times> mbuf) list \<Rightarrow> mbuf \<Rightarrow> u16 \<Rightarrow> hs \<Rightarrow> batch_exit" where
  "batch_loop e conn mtu [] txom cur_chr_cnt s = Loop_end txom cur_chr_cnt s"
| "batch_loop e conn mtu ((h, v) # ts) txom cur_chr_cnt s =
     (let add = (\<lambda>buf. buf @ le16 h @ le16 (OS_MBUF_PKTLEN v) @ v);
          too_long = (uint (OS_MBUF_PKTLEN txom) + uint (OS_MBUF_PKTLEN v) > uint mtu)
      in if too_long \<and> cur_chr_cnt < 2
         then (case ble_att_clt_tx e (Tx_notify conn h (Some v)) s of
                 (rc, s1) \<Rightarrow>
                   if rc \<noteq> 0 then Goto_done rc s1
                   else batch_loop e conn mtu ts txom cur_chr_cnt s1)
         else if too_long
         then (case ble_att_clt_tx e (Tx_notify_mult conn txom) s of
                 (rc, s1) \<Rightarrow>
                   if rc \<noteq> 0 then Goto_done rc s1
                   else (case mbuf_alloc e s1 of
                           (False, s2) \<Rightarrow> Return_now BLE_HS_ENOMEM s2
                         | (True, s2) \<Rightarrow> batch_loop e conn mtu ts (add []) 1 s2))
         else batch_loop e conn mtu ts (add txom) (cur_chr_cnt + 1) s)"

text \<open>
  \<open>ble_gatts_notify_multiple_custom\<close>. The caller's array \<open>tuples\<close> has \<open>chr_count\<close>
  elements, the length of the list. After the batching loop the branch for
  \<^verbatim>\<open>cur_chr_cnt == 1\<close> reads \<^verbatim>\<open>tuples[chr_count]\<close>.
\<close>

definition ble_gatts_notify_multiple_custom ::
  "env \<Rightarrow> u16 \<Rightarrow> ble_gatt_notif list \<Rightarrow> hs \<Rightarrow> int \<times> hs" where
  "ble_gatts_notify_multiple_custom e conn tuples s =
     (if \<not> MYNEWT_VAL (cfg e) BLE_GATT_NOTIFY_MULTIPLE then (BLE_HS_ENOTSUP, s)
      else
        let chr_count = length tuples;
            mtu = (ble_att_mtu e conn - 1 :: u16);
            done = (\<lambda>rc s'. (rc, fold (\<lambda>t. emit (Gap_notify_tx_event rc conn (notif_handle t) 0))
                                     tuples s'))
        in case mbuf_alloc e s of
             (False, s1) \<Rightarrow> (BLE_HS_ENOMEM, s1)
           | (True, s1) \<Rightarrow>
               (case ble_hs_conn_find e conn of
                  None \<Rightarrow> (ENOTCONN, s1)
                | Some c \<Rightarrow>
                    (case read_missing_values e (case tuples of [] \<Rightarrow> 0 | t # _ \<Rightarrow> notif_handle t)
                            tuples of
                       (rc, vs) \<Rightarrow>
                         if rc \<noteq> 0 then done rc s1
                         else if peer_cl_sup_feat_0 c AND 4 = 0
                         then (case notify_each e conn vs s1 of (rc1, s2) \<Rightarrow> done rc1 s2)
                         else (case batch_loop e conn mtu vs [] 0 s1 of
                                 Goto_done rc1 s2 \<Rightarrow> done rc1 s2
                               | Return_now rc1 s2 \<Rightarrow> (rc1, s2)
                               | Loop_end txom cur_chr_cnt s2 \<Rightarrow>
                                   if cur_chr_cnt = 1
                                   then (0, s2\<lparr>fault := Some (Out_of_bounds chr_count)\<rparr>)
                                   else (case ble_att_clt_tx e (Tx_notify_mult conn txom) s2 of
                                           (rc1, s3) \<Rightarrow> done rc1 s3)))))"

subsection \<open>Reading a trace\<close>

text \<open>
  What \<open>ble_gattc_proc_free\<close> does to the collaborators for a record: the payloads it
  releases and the EATT channel it gives back.
\<close>

fun chain_freed :: "mbuf option \<Rightarrow> event list" where
  "chain_freed None = []"
| "chain_freed (Some b) = [Mbuf_free_chain b]"

definition free_events :: "env \<Rightarrow> ble_gattc_proc \<Rightarrow> event list" where
  "free_events e p =
     (case u p of
        Write _ m \<Rightarrow>
          if MYNEWT_VAL (cfg e) BLE_GATTC_AUTO_PAIR \<and> MYNEWT_VAL (cfg e) BLE_GATT_WRITE
          then chain_freed m else []
      | Write_long a _ \<Rightarrow>
          if MYNEWT_VAL (cfg e) BLE_GATT_WRITE_LONG then [Mbuf_free_chain (a_om a)] else []
      | Write_reliable attrs _ _ \<Rightarrow>
          if MYNEWT_VAL (cfg e) BLE_GATT_WRITE_RELIABLE
          then map (\<lambda>a. Mbuf_free_chain (a_om a)) attrs else []
      | _ \<Rightarrow> [])
     @ (if MYNEWT_VAL (cfg e) BLE_EATT \<and> cid p \<noteq> BLE_L2CAP_CID_ATT
        then [Eatt_release_chan (conn_handle p) (op_of p)] else [])"

text \<open>
  What the application gets to see of an event: a callback with the connection and
  the status it is given (the GAP notify-tx event of an indication has no function
  pointer of the record), and a connection being terminated.
\<close>

datatype obs = Reported fnptr voidptr u16 u16 | Terminated u16 u8

fun cb_conn_status :: "cb_call \<Rightarrow> u16 \<times> u16" where
  "cb_conn_status (Mtu_fn c er _) = (c, status er)"
| "cb_conn_status (Disc_svc_fn c er _) = (c, status er)"
| "cb_conn_status (Disc_incl_svc_fn c er _) = (c, status er)"
| "cb_conn_status (Chr_fn c er _) = (c, status er)"
| "cb_conn_status (Dsc_fn c er _ _) = (c, status er)"
| "cb_conn_status (Attr_fn c er _) = (c, status er)"
| "cb_conn_status (Attr_mult_fn c er _ _) = (c, status er)"
| "cb_conn_status (Reliable_attr_fn c er _ _) = (c, status er)"

fun obs_of :: "event \<Rightarrow> obs option" where
  "obs_of (App_cb fn c arg _) = Some (Reported (Some fn) arg (fst (cb_conn_status c)) (snd (cb_conn_status c)))"
| "obs_of (Gap_notify_tx_event st c _ _) = Some (Reported None 0 c (word_of_int st))"
| "obs_of (Gap_terminate c reason) = Some (Terminated c reason)"
| "obs_of _ = None"

text \<open>
  The one report a record's timeout or connection-loss handler makes with status
  \<open>st\<close>: through the record's callback (the second callback for a variable-length
  read-multiple), none when that is null; through GAP for an indication.
\<close>

definition report_fn :: "ble_gattc_proc \<Rightarrow> fnptr" where
  "report_fn p = (case u p of Read_mult _ True cb_mult \<Rightarrow> cb_mult | _ \<Rightarrow> cb p)"

definition expected_report :: "ble_gattc_proc \<Rightarrow> u16 \<Rightarrow> obs list" where
  "expected_report p st =
     (case u p of
        Indicate _ \<Rightarrow> [Reported None 0 (conn_handle p) st]
      | _ \<Rightarrow> (case report_fn p of
                None \<Rightarrow> []
              | Some fn \<Rightarrow> [Reported (Some fn) (cb_arg p) (conn_handle p) st]))"

text \<open>
  The end handle of the service an event reports to a service-discovery callback, if
  it is such a report (status 0 and a service).
\<close>

fun reported_end :: "event \<Rightarrow> u16 option" where
  "reported_end (App_cb _ (Disc_svc_fn _ er (Ptr svc)) _ _) =
     (if status er = 0 then Some (end_handle svc) else None)"
| "reported_end _ = None"

text \<open>
  A step from \<open>s\<close> to \<open>s'\<close> with status \<open>rc\<close> that only talks to the collaborators:
  it calls no application callback, it asks the transport at most once, and \<open>rc\<close> is
  what the transport returned if it was asked.
\<close>

definition tx_outcome :: "hs \<Rightarrow> int \<Rightarrow> hs \<Rightarrow> bool" where
  "tx_outcome s rc s' \<longleftrightarrow>
     (\<exists>evs. s' = s\<lparr>trace := trace s @ evs\<rparr> \<and> (\<forall>ev \<in> set evs. \<not> is_app_cb ev)
            \<and> (\<forall>q r. Att_tx q r \<in> set evs \<longrightarrow> r = rc)
            \<and> length (filter is_att_tx evs) \<le> 1)"

text \<open>
  The same for an operation that starts a procedure, which moreover leaves the resume
  time alone and, when it fails, the table and the pool as they were.
\<close>

definition start_outcome :: "hs \<Rightarrow> int \<Rightarrow> hs \<Rightarrow> bool" where
  "start_outcome s rc s' \<longleftrightarrow>
     (\<exists>evs. trace s' = trace s @ evs \<and> (\<forall>ev \<in> set evs. \<not> is_app_cb ev)
            \<and> (\<forall>q r. Att_tx q r \<in> set evs \<longrightarrow> r = rc))
     \<and> ble_gattc_resume_at s' = ble_gattc_resume_at s
     \<and> (rc \<noteq> 0 \<longrightarrow> ble_gattc_procs s' = ble_gattc_procs s
                   \<and> ble_gattc_proc_pool s' = ble_gattc_proc_pool s)"

text \<open>
  What a resume function does with a record \<open>p\<close> in state \<open>s\<close>, where \<open>rc\<close>, \<open>p1\<close> and
  \<open>s2\<close> are its status, the record and the state afterwards: it extends the trace and
  may set the resume time; it asks the transport at most once; when the transport
  was out of memory the record is marked as stalled and the resume time is the one
  \<open>ble_gattc_proc_set_resume_timer\<close> sets; when the transport took the request the
  flags and the resume time are as before. Address, deadline and connection of the
  record stay.
\<close>

definition resume_outcome ::
  "env \<Rightarrow> ble_gattc_proc \<Rightarrow> hs \<Rightarrow> int \<Rightarrow> ble_gattc_proc \<Rightarrow> hs \<Rightarrow> bool" where
  "resume_outcome e p s rc p1 s2 \<longleftrightarrow>
     (\<exists>evs. s2 = s\<lparr>trace := trace s @ evs, ble_gattc_resume_at := ble_gattc_resume_at s2\<rparr>
          \<and> length (filter is_att_tx evs) \<le> 1
          \<and> (\<forall>q. Att_tx q BLE_HS_ENOMEM \<in> set evs \<longrightarrow>
                 rc = 0 \<and> flags p1 = flags p OR BLE_GATTC_PROC_F_STALLED
                 \<and> ble_gattc_resume_at s2
                     = ble_gattc_resume_at (snd (ble_gattc_proc_set_resume_timer e p s)))
          \<and> (\<forall>q. Att_tx q 0 \<in> set evs \<longrightarrow>
                 rc = 0 \<and> flags p1 = flags p \<and> ble_gattc_resume_at s2 = ble_gattc_resume_at s))
     \<and> addr p1 = addr p \<and> exp_os_ticks p1 = exp_os_ticks p \<and> conn_handle p1 = conn_handle p"




text \<open>A record is expired at time \<open>now\<close> as \<open>ble_gattc_proc_matches_expired\<close> decides it.\<close>

definition expired :: "u32 \<Rightarrow> ble_gattc_proc \<Rightarrow> bool" where
  "expired now p \<longleftrightarrow> sint (exp_os_ticks p - now) \<le> 0"

subsection \<open>A concrete configuration and environment\<close>

text \<open>
  Used to run the model on concrete inputs: every operation compiled in, caching,
  auto-pair and EATT off, a tick per millisecond, MTU 23, a transport and callbacks
  that always return 0.
\<close>

definition cfg0 :: config where
  "cfg0 = \<lparr>MYNEWT_VAL = (\<lambda>f. f \<noteq> BLE_GATT_CACHING \<and> f \<noteq> BLE_GATT_CACHING_INCLUDE_SERVICES
                            \<and> f \<noteq> BLE_GATTC_AUTO_PAIR \<and> f \<noteq> BLE_EATT),
           BLE_GATT_RESUME_RATE = 1000, BLE_GATT_READ_MAX_ATTRS = 8,
           BLE_GATT_WRITE_MAX_ATTRS = 4\<rparr>"

definition uuid_from_att_buf0 :: "u8 list \<Rightarrow> int \<times> ble_uuid" where
  "uuid_from_att_buf0 b =
     (if length b = 2 then (0, Uuid16 (word_cat (b ! 1) (b ! 0)))
      else if length b = 16 then (0, Uuid128 b)
      else (BLE_HS_EINVAL, Uuid16 0))"

definition env0 :: env where
  "env0 = \<lparr>cfg = cfg0, ble_npl_time_get = 1000, ble_npl_time_ms_to_ticks32 = (\<lambda>ms. ms),
           att_tx = (\<lambda>_ _. 0), app_cb = (\<lambda>_ _ _ _. 0), mbuf_alloc_ok = (\<lambda>_. True),
           ble_att_mtu_by_cid = (\<lambda>_ _. 23), ble_att_mtu = (\<lambda>_. 23),
           ble_att_conn_chan_find = (\<lambda>_ _. (0, 23)),
           ble_eatt_get_available_chan_cid = (\<lambda>_ _. BLE_L2CAP_CID_ATT),
           ble_gap_conn_find = (\<lambda>_. (0, \<lparr>encrypted = False, peer_id_addr = [1, 2, 3, 4, 5, 6]\<rparr>)),
           ble_hs_conn_find = (\<lambda>_. Some \<lparr>att_tx_q = [], peer_cl_sup_feat_0 = 4\<rparr>),
           ble_store_read_our_sec =
             (\<lambda>_. (0, \<lparr>csrk_present = True, csrk = replicate 16 7, sign_counter = 0\<rparr>)),
           ble_gap_security_initiate = (\<lambda>_. 0),
           ble_gatts_rx_indicate_ack = (\<lambda>_ _. 0),
           ble_uuid_init_from_att_buf = uuid_from_att_buf0,
           ble_att_svr_read_local = (\<lambda>_. (0, [])),
           cache_search = (\<lambda>_ _. 5)\<rparr>"

definition hs0 :: hs where
  "hs0 = \<lparr>ble_gattc_procs = [], ble_gattc_cached_procs = [], ble_gattc_resume_at = 0,
          ble_gattc_proc_pool = [0, 1, 2, 3], trace = [], fault = None\<rparr>"

text \<open>A link that is already encrypted, and a bond without CSRK.\<close>

definition env_encrypted :: env where
  "env_encrypted = env0\<lparr>ble_gap_conn_find :=
     (\<lambda>_. (0, \<lparr>encrypted = True, peer_id_addr = [1, 2, 3, 4, 5, 6]\<rparr>))\<rparr>"

definition env_no_csrk :: env where
  "env_no_csrk = env0\<lparr>ble_store_read_our_sec :=
     (\<lambda>_. (0, \<lparr>csrk_present = False, csrk = replicate 16 0, sign_counter = 0\<rparr>))\<rparr>"

text \<open>
  A store that has no security record for the peer: the read fails with
  \<open>BLE_HS_ENOENT\<close>. And a build without signed writes.
\<close>

definition env_store_empty :: env where
  "env_store_empty = env0\<lparr>ble_store_read_our_sec :=
     (\<lambda>_. (BLE_HS_ENOENT, \<lparr>csrk_present = False, csrk = replicate 16 0, sign_counter = 0\<rparr>))\<rparr>"

definition env_sign_off :: env where
  "env_sign_off = env0\<lparr>cfg := cfg0\<lparr>MYNEWT_VAL := (\<lambda>f. f \<noteq> BLE_GATT_SIGNED_WRITE)\<rparr>\<rparr>"

text \<open>Sample records and states.\<close>

definition sample_proc :: "nat \<Rightarrow> u16 \<Rightarrow> proc_union \<Rightarrow> ble_gattc_proc" where
  "sample_proc a conn un =
     (proc_zero a)\<lparr>conn_handle := conn, cid := BLE_L2CAP_CID_ATT, cb := Some a, cb_arg := a,
                   exp_os_ticks := 5000, u := un\<rparr>"

definition stalled :: "ble_gattc_proc \<Rightarrow> ble_gattc_proc" where
  "stalled p = p\<lparr>flags := BLE_GATTC_PROC_F_STALLED\<rparr>"

definition hs_two_stalled :: hs where
  "hs_two_stalled = hs0\<lparr>ble_gattc_procs := [stalled (sample_proc 4 1 (Disc_all_svcs 11)),
                                           stalled (sample_proc 5 1 (Read_long 16 22))],
                        ble_gattc_resume_at := 1000\<rparr>"


definition env_auto_pair :: env where
  "env_auto_pair = env0\<lparr>cfg := cfg0\<lparr>MYNEWT_VAL := (\<lambda>f. f = BLE_GATTC_AUTO_PAIR)\<rparr>\<rparr>"

definition env_tx_enomem :: env where
  "env_tx_enomem = env0\<lparr>att_tx := (\<lambda>_ _. BLE_HS_ENOMEM)\<rparr>"

definition env_cb_abort :: env where
  "env_cb_abort = env0\<lparr>app_cb := (\<lambda>_ _ _ _. 1)\<rparr>"

definition wl_attr :: owned_attr where
  "wl_attr = \<lparr>a_handle = 32, a_offset = 0, a_om = map of_nat [0..<64]\<rparr>"

section \<open>Theorems\<close>

lemma new_events_emit [simp]: "new_events s (emit ev s) = [ev]"
  by (simp add: new_events_def emit_def)

lemma new_events_same [simp]: "new_events s s = []"
  by (simp add: new_events_def)

subsection \<open>Closed forms of the basic operations\<close>

lemma os_mbuf_free_chain_eq:
  "os_mbuf_free_chain m s = s\<lparr>trace := trace s @ chain_freed m\<rparr>"
  by (cases m) (simp_all add: os_mbuf_free_chain_def emit_def)

lemma fold_free_chain:
  "fold (\<lambda>a. os_mbuf_free_chain (Some (a_om a))) attrs s
     = s\<lparr>trace := trace s @ map (\<lambda>a. Mbuf_free_chain (a_om a)) attrs\<rparr>"
  by (induction attrs arbitrary: s) (simp_all add: os_mbuf_free_chain_def emit_def)

lemma proc_free_None [simp]: "ble_gattc_proc_free e None s = s"
  by (simp add: ble_gattc_proc_free_def)

lemma proc_free_Some:
  "ble_gattc_proc_free e (Some p) s
     = s\<lparr>trace := trace s @ free_events e p,
         ble_gattc_proc_pool := addr p # ble_gattc_proc_pool s\<rparr>"
  by (cases "u p")
     (simp_all add: ble_gattc_proc_free_def free_events_def fold_free_chain
        os_mbuf_free_chain_eq emit_def Let_def)

lemma chain_freed_quiet:
  "ev \<in> set (chain_freed m) \<Longrightarrow> \<not> is_app_cb ev \<and> \<not> is_att_tx ev \<and> obs_of ev = None"
  by (cases m) auto

lemma free_events_quiet:
  "ev \<in> set (free_events e p) \<Longrightarrow> \<not> is_app_cb ev \<and> \<not> is_att_tx ev \<and> obs_of ev = None"
  by (cases "u p")
     (auto simp: free_events_def dest: chain_freed_quiet split: if_splits)

lemma free_events_no_tx [simp]: "Att_tx q r \<notin> set (free_events e p)"
  using free_events_quiet [of "Att_tx q r" e p] by auto

lemma free_events_no_cb [simp]: "ev \<in> set (free_events e p) \<Longrightarrow> \<not> is_app_cb ev"
  using free_events_quiet [of ev e p] by auto

lemma process_status_eq:
  "ble_gattc_process_status e p st s =
     (if st = 0
      then s\<lparr>ble_gattc_procs := ble_gattc_procs s
                 @ [if flags p AND BLE_GATTC_PROC_F_STALLED = 0
                    then ble_gattc_proc_set_exp_timer e p else p],
             trace := trace s @ [Hs_timer_resched]\<rparr>
      else s\<lparr>trace := trace s @ free_events e p,
             ble_gattc_proc_pool := addr p # ble_gattc_proc_pool s\<rparr>)"
  by (simp add: ble_gattc_process_status_def proc_free_Some ble_gattc_proc_insert_def emit_def
      Let_def)

lemma att_clt_tx_eq:
  "ble_att_clt_tx e q s
     = (att_tx e (trace s) q, s\<lparr>trace := trace s @ [Att_tx q (att_tx e (trace s) q)]\<rparr>)"
  by (simp add: ble_att_clt_tx_def emit_def Let_def)

lemma mbuf_alloc_eq:
  "mbuf_alloc e s
     = (mbuf_alloc_ok e (trace s), s\<lparr>trace := trace s @ [Mbuf_alloc (mbuf_alloc_ok e (trace s))]\<rparr>)"
  by (simp add: mbuf_alloc_def emit_def Let_def)

subsection \<open>Collections of definitions for running the model\<close>

lemmas extract_defs = ble_gattc_extract_def ble_gattc_extract_by_conn_op_def
  ble_gattc_extract_by_conn_cid_op_def ble_gattc_extract_first_by_conn_cid_op_def
  ble_gattc_extract_stalled_def ble_gattc_extract_expired_def STAILQ_FIRST_def
  ble_gattc_proc_matches_conn_op_def ble_gattc_proc_matches_conn_cid_op_def
  ble_gattc_proc_matches_expired_def ble_gattc_proc_matches_stalled_def op_of_def

lemmas status_defs = ble_gattc_process_status_def ble_gattc_process_resume_status_def
  ble_gattc_proc_set_exp_timer_def ble_gattc_proc_set_resume_timer_def
  ble_gattc_proc_insert_def ble_gattc_proc_free_def os_mbuf_free_chain_def emit_def
  ble_att_clt_tx_def mbuf_alloc_def

lemmas sample_defs = env0_def cfg0_def hs0_def sample_proc_def stalled_def proc_zero_def

lemmas notify_defs = ble_gatts_notify_multiple_custom_def mbuf_alloc_def emit_def
  OS_MBUF_PKTLEN_def le16_def ble_att_clt_tx_def Let_def

subsection \<open>Starting a procedure\<close>

text \<open>
  Every transmit function only talks to the collaborators, and every initiator has
  the outcome \<open>start_outcome\<close>.
\<close>

lemma is_att_tx_iff: "is_att_tx ev \<longleftrightarrow> (\<exists>q r. ev = Att_tx q r)"
  by (cases ev) auto

lemma tx_outcome_same [simp]: "tx_outcome s rc s"
  unfolding tx_outcome_def by (rule exI [of _ "[]"]) simp

lemma tx_outcome_att [simp]: "ble_att_clt_tx e q s = (rc, s') \<Longrightarrow> tx_outcome s rc s'"
  unfolding tx_outcome_def att_clt_tx_eq
  by (rule exI [of _ "[Att_tx q rc]"]) auto

lemma tx_outcome_mtu: "ble_gattc_mtu_tx e p s = (rc, s') \<Longrightarrow> tx_outcome s rc s'"
  by (auto simp: ble_gattc_mtu_tx_def split: prod.splits if_splits)

lemma tx_outcome_find_inc:
  "ble_gattc_find_inc_svcs_tx e p a b c s = (rc, s') \<Longrightarrow> tx_outcome s rc s'"
  by (auto simp: ble_gattc_find_inc_svcs_tx_def split: if_splits)

lemma tx_outcome_read_long:
  "ble_gattc_read_long_tx e p h off s = (rc, s') \<Longrightarrow> tx_outcome s rc s'"
  by (auto simp: ble_gattc_read_long_tx_def split: if_splits)

lemma tx_outcome_after:
  assumes "tx_outcome s1 rc s'" and "s1 = s\<lparr>trace := trace s @ pre\<rparr>"
      and "\<forall>ev \<in> set pre. \<not> is_app_cb ev" and "\<forall>q r. Att_tx q r \<notin> set pre"
  shows "tx_outcome s rc s'"
proof -
  from assms(1) obtain evs where e: "s' = s1\<lparr>trace := trace s1 @ evs\<rparr>"
    "\<forall>ev \<in> set evs. \<not> is_app_cb ev" "\<forall>q r. Att_tx q r \<in> set evs \<longrightarrow> r = rc"
    "length (filter is_att_tx evs) \<le> 1"
    unfolding tx_outcome_def by blast
  from assms(4) have "filter is_att_tx pre = []"
    by (induction pre) (auto simp: is_att_tx_iff)
  then show ?thesis unfolding tx_outcome_def
    using e assms(2,3,4) by (intro exI [of _ "pre @ evs"]) auto
qed

lemma tx_outcomeI:
  "\<lbrakk>\<forall>ev \<in> set evs. \<not> is_app_cb ev; \<forall>q r. Att_tx q r \<in> set evs \<longrightarrow> r = rc;
    length (filter is_att_tx evs) \<le> 1\<rbrakk>
     \<Longrightarrow> tx_outcome s rc (s\<lparr>trace := trace s @ evs\<rparr>)"
  unfolding tx_outcome_def by blast

lemma tx_outcome_write_long:
  "ble_gattc_write_long_tx e p attr len s = (rc, len1, s') \<Longrightarrow> tx_outcome s rc s'"
  unfolding ble_gattc_write_long_tx_def Let_def mbuf_alloc_eq os_mbuf_free_chain_eq att_clt_tx_eq
  by (auto split: if_splits bool.splits intro!: tx_outcomeI)

lemma tx_outcome_write_reliable:
  "ble_gattc_write_reliable_tx e p attrs cur len s = (rc, len1, s') \<Longrightarrow> tx_outcome s rc s'"
  unfolding ble_gattc_write_reliable_tx_def Let_def mbuf_alloc_eq os_mbuf_free_chain_eq att_clt_tx_eq
  by (auto split: if_splits bool.splits intro!: tx_outcomeI)

lemma start_outcomeI:
  "\<lbrakk>trace s' = trace s @ evs; \<forall>ev \<in> set evs. \<not> is_app_cb ev;
    \<forall>q r. Att_tx q r \<in> set evs \<longrightarrow> r = rc;
    ble_gattc_resume_at s' = ble_gattc_resume_at s;
    rc \<noteq> 0 \<Longrightarrow> ble_gattc_procs s' = ble_gattc_procs s
                \<and> ble_gattc_proc_pool s' = ble_gattc_proc_pool s\<rbrakk>
     \<Longrightarrow> start_outcome s rc s'"
  unfolding start_outcome_def by blast

lemma process_status_outcome:
  assumes tx: "tx_outcome (s\<lparr>ble_gattc_proc_pool := rest\<rparr>) rc s2"
      and pool: "ble_gattc_proc_pool s = addr p # rest"
  shows "start_outcome s rc (ble_gattc_process_status e p rc s2)"
proof -
  from tx obtain evs where e: "s2 = s\<lparr>ble_gattc_proc_pool := rest, trace := trace s @ evs\<rparr>"
    "\<forall>ev \<in> set evs. \<not> is_app_cb ev" "\<forall>q r. Att_tx q r \<in> set evs \<longrightarrow> r = rc"
    unfolding tx_outcome_def by auto
  show ?thesis
  proof (cases "rc = 0")
    case True
    with e show ?thesis
      by (intro start_outcomeI [of _ _ "evs @ [Hs_timer_resched]"])
         (auto simp: process_status_eq)
  next
    case False
    with e pool show ?thesis
      by (intro start_outcomeI [of _ _ "evs @ free_events e p"])
         (auto simp: process_status_eq)
  qed
qed

lemma start_proc_outcome:
  assumes tx: "\<And>p s0 rc s2. tx p s0 = (rc, s2) \<Longrightarrow> tx_outcome s0 rc s2"
      and fill: "\<And>p. addr (fill p) = addr p"
      and run: "start_proc e fill tx s = (rc, s')"
  shows "start_outcome s rc s'"
proof (cases "ble_gattc_proc_pool s")
  case Nil
  with run have "rc = BLE_HS_ENOMEM" "s' = s"
    by (auto simp: start_proc_def ble_gattc_proc_alloc_def)
  then show ?thesis by (intro start_outcomeI [of _ _ "[]"]) auto
next
  case (Cons a rest)
  define p where "p = fill (proc_zero a)"
  obtain st s2 where t: "tx p (s\<lparr>ble_gattc_proc_pool := rest\<rparr>) = (st, s2)" by force
  from run Cons t have r: "rc = st" "s' = ble_gattc_process_status e p st s2"
    by (auto simp: start_proc_def ble_gattc_proc_alloc_def p_def)
  have "ble_gattc_proc_pool s = addr p # rest"
    by (simp add: Cons p_def fill proc_zero_def)
  from process_status_outcome [OF tx [OF t] this] r show ?thesis by simp
qed

lemma start_outcome_emit:
  assumes "start_outcome (emit ev s) rc s'" and "\<not> is_app_cb ev" and "\<not> is_att_tx ev"
  shows "start_outcome s rc s'"
proof -
  from assms(1) obtain evs where e: "trace s' = trace s @ ev # evs"
    "\<forall>x \<in> set evs. \<not> is_app_cb x" "\<forall>q r. Att_tx q r \<in> set evs \<longrightarrow> r = rc"
    unfolding start_outcome_def emit_def by auto
  from assms(3) have "\<And>q r. ev \<noteq> Att_tx q r" by auto
  with e assms show ?thesis
    by (intro start_outcomeI [of _ _ "ev # evs"]) (auto simp: start_outcome_def emit_def)
qed

lemma cache_first_outcome:
  assumes cont: "\<And>s0 rc s'. cont s0 = (rc, s') \<Longrightarrow> start_outcome s0 rc s'"
      and run: "cache_first e f q cont s = (rc, s')"
  shows "start_outcome s rc s'"
proof (cases "MYNEWT_VAL (cfg e) f")
  case False
  with run cont show ?thesis by (simp add: cache_first_def)
next
  case True
  show ?thesis
  proof (cases "cache_search e (trace s) q = 0")
    case hit: True
    with run True have "rc = 0" "s' = emit (Cache_search q 0) s"
      by (auto simp: cache_first_def Let_def)
    then show ?thesis
      by (intro start_outcomeI [of _ _ "[Cache_search q 0]"]) (auto simp: emit_def)
  next
    case False
    with run True have "cont (emit (Cache_search q (cache_search e (trace s) q)) s) = (rc, s')"
      by (auto simp: cache_first_def Let_def)
    from start_outcome_emit [OF cont [OF this]] show ?thesis by simp
  qed
qed


lemma start_outcome_same [simp]: "start_outcome s rc s"
  by (rule start_outcomeI [of _ _ "[]"]) auto

lemmas simple_tx_defs = ble_gattc_disc_all_svcs_tx_def ble_gattc_disc_svc_uuid_tx_def
  ble_gattc_disc_all_chrs_tx_def ble_gattc_disc_chr_uuid_tx_def ble_gattc_disc_all_dscs_tx_def
  ble_gattc_read_tx_def ble_gattc_read_uuid_tx_def ble_gattc_read_mult_tx_def

lemma exchange_mtu_outcome:
  "ble_gattc_exchange_mtu e conn f arg s = (rc, s') \<Longrightarrow> start_outcome s rc s'"
  unfolding ble_gattc_exchange_mtu_def
  by (erule start_proc_outcome [rotated 2]) (simp_all add: tx_outcome_mtu)

lemma disc_all_svcs_outcome:
  "ble_gattc_disc_all_svcs e conn f arg s = (rc, s') \<Longrightarrow> start_outcome s rc s'"
  unfolding ble_gattc_disc_all_svcs_def
  by (auto split: if_splits elim!: cache_first_outcome [rotated] start_proc_outcome [rotated 2]
      simp: simple_tx_defs ble_gattc_proc_prepare_def)

lemma disc_svc_by_uuid_outcome:
  "ble_gattc_disc_svc_by_uuid e conn uu f arg s = (rc, s') \<Longrightarrow> start_outcome s rc s'"
  unfolding ble_gattc_disc_svc_by_uuid_def
  by (auto split: if_splits elim!: cache_first_outcome [rotated] start_proc_outcome [rotated 2]
      simp: simple_tx_defs ble_gattc_proc_prepare_def)

lemma find_inc_svcs_outcome:
  "ble_gattc_find_inc_svcs e conn sh eh f arg s = (rc, s') \<Longrightarrow> start_outcome s rc s'"
  unfolding ble_gattc_find_inc_svcs_def
  by (auto split: if_splits elim!: cache_first_outcome [rotated] start_proc_outcome [rotated 2]
      simp: tx_outcome_find_inc ble_gattc_proc_prepare_def)

lemma disc_all_chrs_outcome:
  "ble_gattc_disc_all_chrs e conn sh eh f arg s = (rc, s') \<Longrightarrow> start_outcome s rc s'"
  unfolding ble_gattc_disc_all_chrs_def
  by (auto split: if_splits elim!: cache_first_outcome [rotated] start_proc_outcome [rotated 2]
      simp: simple_tx_defs ble_gattc_proc_prepare_def)

lemma disc_chrs_by_uuid_outcome:
  "ble_gattc_disc_chrs_by_uuid e conn sh eh uu f arg s = (rc, s') \<Longrightarrow> start_outcome s rc s'"
  unfolding ble_gattc_disc_chrs_by_uuid_def
  by (auto split: if_splits elim!: cache_first_outcome [rotated] start_proc_outcome [rotated 2]
      simp: simple_tx_defs ble_gattc_proc_prepare_def)

lemma disc_all_dscs_outcome:
  "ble_gattc_disc_all_dscs e conn sh eh f arg s = (rc, s') \<Longrightarrow> start_outcome s rc s'"
  unfolding ble_gattc_disc_all_dscs_def
  by (auto split: if_splits elim!: cache_first_outcome [rotated] start_proc_outcome [rotated 2]
      simp: simple_tx_defs ble_gattc_proc_prepare_def)

lemma read_outcome:
  "ble_gattc_read e conn h f arg s = (rc, s') \<Longrightarrow> start_outcome s rc s'"
  unfolding ble_gattc_read_def
  by (auto split: if_splits elim!: start_proc_outcome [rotated 2]
      simp: simple_tx_defs ble_gattc_proc_prepare_def)

lemma read_by_uuid_outcome:
  "ble_gattc_read_by_uuid e conn sh eh uu f arg s = (rc, s') \<Longrightarrow> start_outcome s rc s'"
  unfolding ble_gattc_read_by_uuid_def
  by (auto split: if_splits elim!: start_proc_outcome [rotated 2]
      simp: simple_tx_defs ble_gattc_proc_prepare_def)

lemma read_long_outcome:
  "ble_gattc_read_long e conn h off f arg s = (rc, s') \<Longrightarrow> start_outcome s rc s'"
  unfolding ble_gattc_read_long_def
  by (auto split: if_splits elim!: start_proc_outcome [rotated 2]
      simp: tx_outcome_read_long ble_gattc_proc_prepare_def)

lemma read_mult_internal_outcome:
  "ble_gattc_read_mult_internal e conn hs var f fm arg s = (rc, s') \<Longrightarrow> start_outcome s rc s'"
  unfolding ble_gattc_read_mult_internal_def
  by (auto split: if_splits elim!: start_proc_outcome [rotated 2]
      simp: simple_tx_defs ble_gattc_proc_prepare_def)

lemma write_outcome:
  assumes run: "ble_gattc_write e conn h txom f arg s = (rc, s')"
  shows "start_outcome s rc s'"
proof (cases "MYNEWT_VAL (cfg e) BLE_GATT_WRITE")
  case False
  with run show ?thesis by (simp add: ble_gattc_write_def)
next
  case on: True
  show ?thesis
  proof (cases "ble_gattc_proc_pool s")
    case Nil
    with run on have "rc = BLE_HS_ENOMEM" "s' = s\<lparr>trace := trace s @ [Mbuf_free_chain txom]\<rparr>"
      by (auto simp: ble_gattc_write_def ble_gattc_proc_alloc_def os_mbuf_free_chain_eq)
    then show ?thesis by (intro start_outcomeI [of _ _ "[Mbuf_free_chain txom]"]) auto
  next
    case (Cons a rest)
    define dup where "dup = (if MYNEWT_VAL (cfg e) BLE_GATTC_AUTO_PAIR \<and> mbuf_alloc_ok e (trace s)
                             then Some txom else None)"
    define p where "p = (ble_gattc_proc_prepare e (proc_zero a) conn (Write h dup))
                           \<lparr>cb := f, cb_arg := arg\<rparr>"
    define pre where "pre = (if MYNEWT_VAL (cfg e) BLE_GATTC_AUTO_PAIR
                             then [Mbuf_alloc (mbuf_alloc_ok e (trace s))] else [])"
    define s2 where "s2 = s\<lparr>ble_gattc_proc_pool := rest, trace := trace s @ pre\<rparr>"
    obtain st s3 where t: "ble_att_clt_tx e (Tx_write_req conn (cid p) h txom) s2 = (st, s3)"
      by force
    from run on Cons t have r: "rc = st" "s' = ble_gattc_process_status e p st s3"
      by (auto simp: ble_gattc_write_def ble_gattc_proc_alloc_def mbuf_alloc_eq p_def dup_def
          s2_def pre_def Let_def split: if_splits)
    have "tx_outcome (s\<lparr>ble_gattc_proc_pool := rest\<rparr>) st s3"
      by (rule tx_outcome_after [OF tx_outcome_att [OF t], of _ pre])
         (auto simp: s2_def pre_def)
    moreover have "ble_gattc_proc_pool s = addr p # rest"
      by (simp add: Cons p_def ble_gattc_proc_prepare_def proc_zero_def)
    ultimately show ?thesis using r process_status_outcome by simp
  qed
qed

lemma write_long_outcome:
  assumes run: "ble_gattc_write_long e conn h off txom f arg s = (rc, s')"
  shows "start_outcome s rc s'"
proof (cases "MYNEWT_VAL (cfg e) BLE_GATT_WRITE_LONG")
  case False
  with run show ?thesis by (simp add: ble_gattc_write_long_def)
next
  case on: True
  show ?thesis
  proof (cases "ble_gattc_proc_pool s")
    case Nil
    with run on have "rc = BLE_HS_ENOMEM" "s' = s\<lparr>trace := trace s @ [Mbuf_free_chain txom]\<rparr>"
      by (auto simp: ble_gattc_write_long_def ble_gattc_proc_alloc_def os_mbuf_free_chain_eq)
    then show ?thesis by (intro start_outcomeI [of _ _ "[Mbuf_free_chain txom]"]) auto
  next
    case (Cons a rest)
    define attr where "attr = \<lparr>a_handle = h, a_offset = off, a_om = txom\<rparr>"
    define p where "p = (ble_gattc_proc_prepare e (proc_zero a) conn (Write_long attr 0))
                           \<lparr>cb := f, cb_arg := arg\<rparr>"
    define s1 where "s1 = s\<lparr>ble_gattc_proc_pool := rest\<rparr>"
    have pool: "\<And>un. ble_gattc_proc_pool s = addr (p\<lparr>u := un\<rparr>) # rest"
      "ble_gattc_proc_pool s = addr p # rest"
      by (simp_all add: Cons p_def ble_gattc_proc_prepare_def proc_zero_def)
    show ?thesis
    proof (cases "off > OS_MBUF_PKTLEN txom")
      case True
      with run on Cons have r: "rc = BLE_ATT_ERR_INVALID_OFFSET"
        "s' = ble_gattc_process_status e p BLE_ATT_ERR_INVALID_OFFSET s1"
        by (auto simp: ble_gattc_write_long_def ble_gattc_proc_alloc_def p_def attr_def s1_def
            Let_def)
      have "tx_outcome s1 BLE_ATT_ERR_INVALID_OFFSET s1" by simp
      from process_status_outcome [OF this [unfolded s1_def] pool(2)] r show ?thesis
        by (simp add: s1_def)
    next
      case False
      obtain st len1 s2 where t: "ble_gattc_write_long_tx e p attr 0 s1 = (st, len1, s2)"
        by (metis prod_cases3)
      from run on Cons False t have r: "rc = st"
        "s' = ble_gattc_process_status e (p\<lparr>u := Write_long attr len1\<rparr>) st s2"
        by (auto simp: ble_gattc_write_long_def ble_gattc_proc_alloc_def p_def attr_def s1_def
            Let_def)
      from process_status_outcome [OF tx_outcome_write_long [OF t, unfolded s1_def] pool(1)] r
      show ?thesis by simp
    qed
  qed
qed

lemma write_reliable_outcome:
  assumes run: "ble_gattc_write_reliable e conn attrs f arg s = (rc, s')"
  shows "start_outcome s rc s'"
proof (cases "MYNEWT_VAL (cfg e) BLE_GATT_WRITE_RELIABLE")
  case False
  with run show ?thesis by (simp add: ble_gattc_write_reliable_def)
next
  case on: True
  define freed where "freed = map (\<lambda>a. Mbuf_free_chain (a_om a)) attrs"
  have quiet: "\<forall>ev \<in> set freed. \<not> is_app_cb ev" "\<forall>q r. Att_tx q r \<notin> set freed"
    by (auto simp: freed_def)
  show ?thesis
  proof (cases "length attrs > BLE_GATT_WRITE_MAX_ATTRS (cfg e)")
    case True
    with run on have "rc = BLE_HS_EINVAL" "s' = s\<lparr>trace := trace s @ freed\<rparr>"
      by (auto simp: ble_gattc_write_reliable_def fold_free_chain freed_def Let_def)
    with quiet show ?thesis by (intro start_outcomeI [of _ _ freed]) auto
  next
    case small: False
    show ?thesis
    proof (cases "ble_gattc_proc_pool s")
      case Nil
      with run on small have "rc = BLE_HS_ENOMEM" "s' = s\<lparr>trace := trace s @ freed\<rparr>"
        by (auto simp: ble_gattc_write_reliable_def ble_gattc_proc_alloc_def fold_free_chain
            freed_def Let_def)
      with quiet show ?thesis by (intro start_outcomeI [of _ _ freed]) auto
    next
      case (Cons a rest)
      define attrs0 where "attrs0 = map (\<lambda>a. a\<lparr>a_offset := 0\<rparr>) attrs"
      define p where "p = (ble_gattc_proc_prepare e (proc_zero a) conn (Write_reliable attrs0 0 0))
                             \<lparr>cb := f, cb_arg := arg\<rparr>"
      define s1 where "s1 = s\<lparr>ble_gattc_proc_pool := rest\<rparr>"
      have pool: "\<And>un. ble_gattc_proc_pool s = addr (p\<lparr>u := un\<rparr>) # rest"
        by (simp_all add: Cons p_def ble_gattc_proc_prepare_def proc_zero_def)
      obtain st len1 s2 where t: "ble_gattc_write_reliable_tx e p attrs0 0 0 s1 = (st, len1, s2)"
        by (metis prod_cases3)
      from run on Cons small t have r: "rc = st"
        "s' = ble_gattc_process_status e (p\<lparr>u := Write_reliable attrs0 0 len1\<rparr>) st s2"
        by (auto simp: ble_gattc_write_reliable_def ble_gattc_proc_alloc_def p_def attrs0_def
            s1_def Let_def)
      from process_status_outcome [OF tx_outcome_write_reliable [OF t, unfolded s1_def] pool] r
      show ?thesis by simp
    qed
  qed
qed

lemma initiate_outcome: "initiate e r s = (rc, s') \<Longrightarrow> start_outcome s rc s'"
  by (cases r)
     (auto simp: ble_gattc_read_mult_def ble_gattc_read_mult_var_def split: if_splits
        intro: exchange_mtu_outcome disc_all_svcs_outcome disc_svc_by_uuid_outcome
          find_inc_svcs_outcome disc_all_chrs_outcome disc_chrs_by_uuid_outcome
          disc_all_dscs_outcome read_outcome read_by_uuid_outcome read_long_outcome
          read_mult_internal_outcome write_outcome write_long_outcome write_reliable_outcome)

lemma new_events_append: "trace s' = trace s @ evs \<Longrightarrow> new_events s s' = evs"
  by (simp add: new_events_def)

subsection \<open>Extraction, handlers and sweeps\<close>

text \<open>
  The callbacks and handlers only extend the trace; what the application sees of a
  timeout or connection-loss handler is \<open>expected_report\<close>. An extraction without
  limit splits the table with \<open>filter\<close>.
\<close>

lemma call_cb_eq:
  "call_cb e f c arg s =
     (case f of None \<Rightarrow> (0, s)
      | Some fn \<Rightarrow> (app_cb e (trace s) fn c arg,
                   s\<lparr>trace := trace s @ [App_cb fn c arg (app_cb e (trace s) fn c arg)]\<rparr>))"
  by (simp add: call_cb_def emit_def Let_def split: option.splits)

lemma cache_out_of_sync_eq:
  "cache_out_of_sync e p st s =
     s\<lparr>trace := trace s @
          (if MYNEWT_VAL (cfg e) BLE_GATT_CACHING \<and> st = BLE_HS_ERR_ATT_BASE + BLE_ATT_ERR_DB_OUT_OF_SYNC
           then [Cache_conn_update (conn_handle p) 0 65535] else [])\<rparr>"
  by (simp add: cache_out_of_sync_def emit_def)

lemmas cb_defs = ble_gattc_mtu_cb_def ble_gattc_disc_all_svcs_cb_def ble_gattc_disc_svc_uuid_cb_def
  ble_gattc_find_inc_svcs_cb_def ble_gattc_disc_all_chrs_cb_def ble_gattc_disc_chr_uuid_cb_def
  ble_gattc_disc_all_dscs_cb_def ble_gattc_read_cb_def ble_gattc_read_uuid_cb_def
  ble_gattc_read_long_cb_def ble_gattc_read_mult_cb_var_def ble_gattc_read_mult_cb_def
  ble_gattc_write_cb_def ble_gattc_write_long_cb_def ble_gattc_write_reliable_cb_def

lemmas err_defs = ble_gattc_err_dispatch_def ble_gattc_mtu_err_def ble_gattc_disc_all_svcs_err_def
  ble_gattc_disc_svc_uuid_err_def ble_gattc_find_inc_svcs_err_def ble_gattc_disc_all_chrs_err_def
  ble_gattc_disc_chr_uuid_err_def ble_gattc_disc_all_dscs_err_def ble_gattc_read_err_def
  ble_gattc_read_uuid_err_def ble_gattc_read_long_err_def ble_gattc_read_mult_err_def
  ble_gattc_read_mult_var_err_def ble_gattc_write_err_def ble_gattc_write_long_err_def
  ble_gattc_write_reliable_err_def ble_gatts_indicate_err_def BLE_HS_ATT_ERR_def

lemmas tmo_defs = ble_gattc_proc_timeout_def ble_gattc_tmo_dispatch_def ble_gattc_mtu_tmo_def
  ble_gattc_disc_all_svcs_tmo_def ble_gattc_disc_svc_uuid_tmo_def ble_gattc_find_inc_svcs_tmo_def
  ble_gattc_disc_all_chrs_tmo_def ble_gattc_disc_chr_uuid_tmo_def ble_gattc_disc_all_dscs_tmo_def
  ble_gattc_read_tmo_def ble_gattc_read_uuid_tmo_def ble_gattc_read_long_tmo_def
  ble_gattc_read_mult_tmo_def ble_gattc_read_mult_var_tmo_def ble_gattc_write_tmo_def
  ble_gattc_write_long_tmo_def ble_gattc_write_reliable_tmo_def ble_gatts_indicate_tmo_def

lemmas closed_forms = call_cb_eq cache_out_of_sync_eq att_clt_tx_eq emit_def ble_gattc_error_def
  Let_def

lemma new_events_ext [simp]: "new_events s (s\<lparr>trace := trace s @ evs\<rparr>) = evs"
  by (simp add: new_events_def)

lemma tmo_frame:
  "ble_gattc_proc_timeout e p s
     = s\<lparr>trace := trace s @ new_events s (ble_gattc_proc_timeout e p s)\<rparr>"
  by (cases "u p"; cases "cb p")
     (simp_all add: tmo_defs cb_defs closed_forms split: option.splits)

lemma tmo_obs:
  "List.map_filter obs_of (new_events s (ble_gattc_proc_timeout e p s))
     = expected_report p (word_of_int BLE_HS_ETIMEOUT)"
  by (cases "u p"; cases "cb p")
     (simp_all add: tmo_defs cb_defs closed_forms expected_report_def report_fn_def
        List.map_filter_simps split: option.splits)

lemma err_frame:
  "ble_gattc_err_dispatch e p BLE_HS_ENOTCONN 0 s
     = s\<lparr>trace := trace s @ new_events s (ble_gattc_err_dispatch e p BLE_HS_ENOTCONN 0 s)\<rparr>"
  by (cases "u p"; cases "cb p")
     (simp_all add: err_defs cb_defs closed_forms split: option.splits)

lemma err_obs:
  "List.map_filter obs_of (new_events s (ble_gattc_err_dispatch e p BLE_HS_ENOTCONN 0 s))
     = expected_report p (word_of_int BLE_HS_ENOTCONN)"
  by (cases "u p"; cases "cb p")
     (simp_all add: err_defs cb_defs closed_forms expected_report_def report_fn_def
        List.map_filter_simps split: option.splits)


lemma matches_expired_yes:
  "expired now p \<Longrightarrow> ble_gattc_proc_matches_expired (now, nx) p = (True, (now, nx))"
  by (simp add: ble_gattc_proc_matches_expired_def expired_def)

lemma matches_expired_no:
  "\<not> expired now p \<Longrightarrow> \<exists>nx1. ble_gattc_proc_matches_expired (now, nx) p = (False, (now, nx1))"
  by (simp add: ble_gattc_proc_matches_expired_def expired_def Let_def)

lemma extract_scan_expired:
  "\<exists>nx'. extract_scan ble_gattc_proc_matches_expired (now, nx) 0 n ps
           = (filter (\<lambda>p. \<not> expired now p) ps, filter (expired now) ps, (now, nx'))"
proof (induction ps arbitrary: nx n)
  case Nil
  show ?case by simp
next
  case (Cons p ps)
  show ?case
  proof (cases "expired now p")
    case True
    from Cons [of nx n] obtain nx' where
      "extract_scan ble_gattc_proc_matches_expired (now, nx) 0 n ps
         = (filter (\<lambda>p. \<not> expired now p) ps, filter (expired now) ps, (now, nx'))" ..
    with True show ?thesis by (simp add: matches_expired_yes)
  next
    case False
    from matches_expired_no [OF False] obtain nx1 where
      m: "ble_gattc_proc_matches_expired (now, nx) p = (False, (now, nx1))" ..
    from Cons [of nx1 n] obtain nx' where
      "extract_scan ble_gattc_proc_matches_expired (now, nx1) 0 n ps
         = (filter (\<lambda>p. \<not> expired now p) ps, filter (expired now) ps, (now, nx'))" ..
    with False m show ?thesis by simp
  qed
qed

lemma extract_expired_eq:
  "\<exists>t. ble_gattc_extract_expired e s
        = (t, filter (expired (ble_npl_time_get e)) (ble_gattc_procs s),
           s\<lparr>ble_gattc_procs := filter (\<lambda>p. \<not> expired (ble_npl_time_get e) p) (ble_gattc_procs s)\<rparr>)"
proof -
  from extract_scan_expired [of "ble_npl_time_get e" BLE_HS_FOREVER 0 "ble_gattc_procs s"]
  obtain nx' where "extract_scan ble_gattc_proc_matches_expired (ble_npl_time_get e, BLE_HS_FOREVER) 0 0
      (ble_gattc_procs s)
    = (filter (\<lambda>p. \<not> expired (ble_npl_time_get e) p) (ble_gattc_procs s),
       filter (expired (ble_npl_time_get e)) (ble_gattc_procs s), (ble_npl_time_get e, nx'))" ..
  then show ?thesis by (simp add: ble_gattc_extract_expired_def ble_gattc_extract_def)
qed

lemma extract_by_conn_all:
  "ble_gattc_extract_by_conn_op conn BLE_GATT_OP_NONE 0 s
     = (filter (\<lambda>p. conn_handle p = conn) (ble_gattc_procs s),
        s\<lparr>ble_gattc_procs := filter (\<lambda>p. conn_handle p \<noteq> conn) (ble_gattc_procs s)\<rparr>)"
proof -
  have "extract_scan (\<lambda>c p. (ble_gattc_proc_matches_conn_op c p, c)) (conn, BLE_GATT_OP_NONE) 0 n ps
          = (filter (\<lambda>p. conn_handle p \<noteq> conn) ps, filter (\<lambda>p. conn_handle p = conn) ps,
             (conn, BLE_GATT_OP_NONE))" for n ps
    by (induction ps arbitrary: n) (auto simp: ble_gattc_proc_matches_conn_op_def)
  then show ?thesis
    by (simp add: ble_gattc_extract_by_conn_op_def ble_gattc_extract_def)
qed

lemma extract_stalled_eq:
  "ble_gattc_extract_stalled s
     = (filter ble_gattc_proc_matches_stalled (ble_gattc_procs s),
        s\<lparr>ble_gattc_procs := filter (\<lambda>p. \<not> ble_gattc_proc_matches_stalled p) (ble_gattc_procs s)\<rparr>)"
proof -
  have "extract_scan (\<lambda>c p. (ble_gattc_proc_matches_stalled p, ())) () 0 n ps
          = (filter (\<lambda>p. \<not> ble_gattc_proc_matches_stalled p) ps,
             filter ble_gattc_proc_matches_stalled ps, ())" for n ps
    by (induction ps arbitrary: n) auto
  then show ?thesis
    by (simp add: ble_gattc_extract_stalled_def ble_gattc_extract_def)
qed


lemma map_filter_append: "List.map_filter f (xs @ ys) = List.map_filter f xs @ List.map_filter f ys"
  by (simp add: List.map_filter_def)

lemma map_filter_none: "(\<And>x. x \<in> set xs \<Longrightarrow> f x = None) \<Longrightarrow> List.map_filter f xs = []"
  by (induction xs) (simp_all add: List.map_filter_simps)

lemma free_events_obs [simp]: "List.map_filter obs_of (free_events e p) = []"
  by (rule map_filter_none) (simp add: free_events_quiet)

lemma sweep_fold:
  assumes step: "\<And>p s. f p s = s\<lparr>trace := trace s @ ev p s,
                                   ble_gattc_proc_pool := addr p # ble_gattc_proc_pool s\<rparr>"
      and obs: "\<And>p s. List.map_filter obs_of (ev p s) = g p"
  shows "\<exists>evs. fold f ps s = s\<lparr>trace := trace s @ evs,
                                ble_gattc_proc_pool := rev (map addr ps) @ ble_gattc_proc_pool s\<rparr>
               \<and> List.map_filter obs_of evs = concat (map g ps)"
proof (induction ps arbitrary: s)
  case Nil
  show ?case by (intro exI [of _ "[]"]) (simp add: List.map_filter_simps)
next
  case (Cons p ps)
  from Cons [of "f p s"] obtain evs where
    e: "fold f ps (f p s) = (f p s)\<lparr>trace := trace (f p s) @ evs,
          ble_gattc_proc_pool := rev (map addr ps) @ ble_gattc_proc_pool (f p s)\<rparr>"
       "List.map_filter obs_of evs = concat (map g ps)" by blast
  have fp: "trace (f p s) = trace s @ ev p s"
    "ble_gattc_proc_pool (f p s) = addr p # ble_gattc_proc_pool s"
    by (subst step, simp)+
  show ?case
    apply (intro exI [of _ "ev p s @ evs"])
    apply (simp add: e fp map_filter_append obs)
    apply (subst step) apply simp
    done
qed

lemma fail_step:
  "ble_gattc_proc_free e (Some p) (ble_gattc_err_dispatch e p BLE_HS_ENOTCONN 0 s)
     = s\<lparr>trace := trace s @ (new_events s (ble_gattc_err_dispatch e p BLE_HS_ENOTCONN 0 s)
                              @ free_events e p),
         ble_gattc_proc_pool := addr p # ble_gattc_proc_pool s\<rparr>"
  by (subst err_frame) (simp add: proc_free_Some)

lemma timeout_step:
  "ble_gattc_proc_free e (Some p)
     (emit (Gap_terminate (conn_handle p) BLE_ERR_REM_USER_CONN_TERM) (ble_gattc_proc_timeout e p s))
     = s\<lparr>trace := trace s @ (new_events s (ble_gattc_proc_timeout e p s)
                              @ Gap_terminate (conn_handle p) BLE_ERR_REM_USER_CONN_TERM
                              # free_events e p),
         ble_gattc_proc_pool := addr p # ble_gattc_proc_pool s\<rparr>"
  by (subst tmo_frame) (simp add: proc_free_Some emit_def)

lemma fail_procs_eq:
  "\<exists>evs. ble_gattc_fail_procs e conn BLE_GATT_OP_NONE BLE_HS_ENOTCONN s
           = s\<lparr>ble_gattc_procs := filter (\<lambda>p. conn_handle p \<noteq> conn) (ble_gattc_procs s),
               trace := trace s @ evs,
               ble_gattc_proc_pool :=
                 rev (map addr (filter (\<lambda>p. conn_handle p = conn) (ble_gattc_procs s)))
                 @ ble_gattc_proc_pool s\<rparr>
         \<and> List.map_filter obs_of evs
             = concat (map (\<lambda>p. expected_report p (word_of_int BLE_HS_ENOTCONN))
                         (filter (\<lambda>p. conn_handle p = conn) (ble_gattc_procs s)))"
proof -
  let ?s1 = "s\<lparr>ble_gattc_procs := filter (\<lambda>p. conn_handle p \<noteq> conn) (ble_gattc_procs s)\<rparr>"
  let ?ps = "filter (\<lambda>p. conn_handle p = conn) (ble_gattc_procs s)"
  from sweep_fold [where f = "\<lambda>p s'. ble_gattc_proc_free e (Some p) (ble_gattc_err_dispatch e p BLE_HS_ENOTCONN 0 s')"
      and ev = "\<lambda>p s. new_events s (ble_gattc_err_dispatch e p BLE_HS_ENOTCONN 0 s) @ free_events e p"
      and g = "\<lambda>p. expected_report p (word_of_int BLE_HS_ENOTCONN)" and ps = ?ps and s = ?s1,
      OF fail_step]
  obtain evs where "fold (\<lambda>p s'. ble_gattc_proc_free e (Some p) (ble_gattc_err_dispatch e p BLE_HS_ENOTCONN 0 s')) ?ps ?s1
      = ?s1\<lparr>trace := trace ?s1 @ evs,
            ble_gattc_proc_pool := rev (map addr ?ps) @ ble_gattc_proc_pool ?s1\<rparr>"
    and "List.map_filter obs_of evs = concat (map (\<lambda>p. expected_report p (word_of_int BLE_HS_ENOTCONN)) ?ps)"
    by (auto simp: map_filter_append err_obs)
  then show ?thesis
    by (intro exI [of _ evs]) (simp add: ble_gattc_fail_procs_def extract_by_conn_all)
qed

lemma fold_free_tx_q:
  "fold (\<lambda>m. os_mbuf_free_chain (Some m)) q s = s\<lparr>trace := trace s @ map Mbuf_free_chain q\<rparr>"
  by (induction q arbitrary: s) (simp_all add: os_mbuf_free_chain_eq)

lemma map_filter_free_chain [simp]: "List.map_filter obs_of (map Mbuf_free_chain q) = []"
  by (rule map_filter_none) auto

lemma timeout_procs_eq:
  "\<exists>evs. timeout_procs e ps s
           = s\<lparr>trace := trace s @ evs,
               ble_gattc_proc_pool := rev (map addr ps) @ ble_gattc_proc_pool s\<rparr>
         \<and> List.map_filter obs_of evs
             = concat (map (\<lambda>p. expected_report p (word_of_int BLE_HS_ETIMEOUT)
                                  @ [Terminated (conn_handle p) BLE_ERR_REM_USER_CONN_TERM]) ps)"
  unfolding timeout_procs_def
  using sweep_fold [where f = "\<lambda>p s'. ble_gattc_proc_free e (Some p)
                     (emit (Gap_terminate (conn_handle p) BLE_ERR_REM_USER_CONN_TERM)
                        (ble_gattc_proc_timeout e p s'))"
      and ev = "\<lambda>p s. new_events s (ble_gattc_proc_timeout e p s)
                      @ Gap_terminate (conn_handle p) BLE_ERR_REM_USER_CONN_TERM # free_events e p"
      and g = "\<lambda>p. expected_report p (word_of_int BLE_HS_ETIMEOUT)
                     @ [Terminated (conn_handle p) BLE_ERR_REM_USER_CONN_TERM]"
      and ps = ps and s = s, OF timeout_step]
  by (simp add: map_filter_append tmo_obs List.map_filter_simps)

lemma extract_scan_no_match:
  "\<forall>p \<in> set ps. \<not> P p \<Longrightarrow> extract_scan (\<lambda>c p. (P p, c)) a m n ps = (ps, [], a)"
  by (induction ps arbitrary: n) auto

subsection \<open>Resuming\<close>

text \<open>
  Every resume function has the outcome \<open>resume_outcome\<close>; \<open>ble_gattc_resume_procs\<close>
  extends the trace, puts no record at a new address into the table and takes none
  out of the pool.
\<close>

lemma cb_frames:
  "snd (ble_gattc_disc_all_svcs_cb e p st h sv s)
     = s\<lparr>trace := trace s @ new_events s (snd (ble_gattc_disc_all_svcs_cb e p st h sv s))\<rparr>"
  "snd (ble_gattc_disc_svc_uuid_cb e p st h sv s)
     = s\<lparr>trace := trace s @ new_events s (snd (ble_gattc_disc_svc_uuid_cb e p st h sv s))\<rparr>"
  "snd (ble_gattc_find_inc_svcs_cb e p st h sv s)
     = s\<lparr>trace := trace s @ new_events s (snd (ble_gattc_find_inc_svcs_cb e p st h sv s))\<rparr>"
  "snd (ble_gattc_disc_all_chrs_cb e p st h ch s)
     = s\<lparr>trace := trace s @ new_events s (snd (ble_gattc_disc_all_chrs_cb e p st h ch s))\<rparr>"
  "snd (ble_gattc_disc_chr_uuid_cb e p st h ch s)
     = s\<lparr>trace := trace s @ new_events s (snd (ble_gattc_disc_chr_uuid_cb e p st h ch s))\<rparr>"
  "snd (ble_gattc_disc_all_dscs_cb e p cv st h ch s)
     = s\<lparr>trace := trace s @ new_events s (snd (ble_gattc_disc_all_dscs_cb e p cv st h ch s))\<rparr>"
  "snd (ble_gattc_read_long_cb e p st h at s)
     = s\<lparr>trace := trace s @ new_events s (snd (ble_gattc_read_long_cb e p st h at s))\<rparr>"
  "snd (ble_gattc_write_long_cb e p oa st h s)
     = s\<lparr>trace := trace s @ new_events s (snd (ble_gattc_write_long_cb e p oa st h s))\<rparr>"
  "snd (ble_gattc_write_reliable_cb e p oas st h s)
     = s\<lparr>trace := trace s @ new_events s (snd (ble_gattc_write_reliable_cb e p oas st h s))\<rparr>"
  by (cases "cb p"; simp add: cb_defs closed_forms)+

lemma cb_no_tx:
  "\<forall>ev \<in> set (new_events s (snd (ble_gattc_disc_all_svcs_cb e p st h sv s))). \<not> is_att_tx ev"
  "\<forall>ev \<in> set (new_events s (snd (ble_gattc_disc_svc_uuid_cb e p st h sv s))). \<not> is_att_tx ev"
  "\<forall>ev \<in> set (new_events s (snd (ble_gattc_find_inc_svcs_cb e p st h sv s))). \<not> is_att_tx ev"
  "\<forall>ev \<in> set (new_events s (snd (ble_gattc_disc_all_chrs_cb e p st h ch s))). \<not> is_att_tx ev"
  "\<forall>ev \<in> set (new_events s (snd (ble_gattc_disc_chr_uuid_cb e p st h ch s))). \<not> is_att_tx ev"
  "\<forall>ev \<in> set (new_events s (snd (ble_gattc_disc_all_dscs_cb e p cv st h ch s))). \<not> is_att_tx ev"
  "\<forall>ev \<in> set (new_events s (snd (ble_gattc_read_long_cb e p st h at s))). \<not> is_att_tx ev"
  "\<forall>ev \<in> set (new_events s (snd (ble_gattc_write_long_cb e p oa st h s))). \<not> is_att_tx ev"
  "\<forall>ev \<in> set (new_events s (snd (ble_gattc_write_reliable_cb e p oas st h s))). \<not> is_att_tx ev"
  by (cases "cb p"; simp add: cb_defs closed_forms)+

lemma resume_pattern:
  assumes tx: "tx_outcome s st sx"
      and keep: "addr p' = addr p" "exp_os_ticks p' = exp_os_ticks p"
        "conn_handle p' = conn_handle p" "flags p' = flags p"
      and frame: "\<And>p1 rc s. snd (cbf p1 rc s) = s\<lparr>trace := trace s @ new_events s (snd (cbf p1 rc s))\<rparr>"
      and quiet: "\<And>p1 rc s. \<forall>ev \<in> set (new_events s (snd (cbf p1 rc s))). \<not> is_att_tx ev"
      and r: "(case ble_gattc_process_resume_status e p' st sx of
                 (rc, p1, s2) \<Rightarrow> if rc \<noteq> 0 then (rc, p1, snd (cbf p1 rc s2)) else (0, p1, s2))
              = (rc, p1, s2)"
  shows "resume_outcome e p s rc p1 s2"
proof -
  from tx obtain evs where e: "sx = s\<lparr>trace := trace s @ evs\<rparr>"
    "\<forall>q r. Att_tx q r \<in> set evs \<longrightarrow> r = st" "length (filter is_att_tx evs) \<le> 1"
    unfolding tx_outcome_def by blast
  from e(2) have notin: "\<And>q r. r \<noteq> st \<Longrightarrow> Att_tx q r \<notin> set evs" by blast
  consider (ok) "st = 0" | (nomem) "st = BLE_HS_ENOMEM" | (other) "st \<noteq> 0" "st \<noteq> BLE_HS_ENOMEM"
    by blast
  then show ?thesis
  proof cases
    case ok
    with r have "rc = 0" "p1 = p'" "s2 = sx"
      by (simp_all add: ble_gattc_process_resume_status_def)
    with e(1,3) keep ok notin show ?thesis unfolding resume_outcome_def
      by (intro conjI exI [of _ evs]) auto
  next
    case nomem
    with r have "rc = 0" "p1 = p'\<lparr>flags := flags p' OR BLE_GATTC_PROC_F_STALLED\<rparr>"
      "s2 = snd (ble_gattc_proc_set_resume_timer e p' sx)"
      by (simp_all add: ble_gattc_process_resume_status_def ble_gattc_proc_set_resume_timer_def)
    with e(1,3) keep nomem notin show ?thesis unfolding resume_outcome_def
      by (intro conjI exI [of _ evs])
         (auto simp: ble_gattc_proc_set_resume_timer_def Let_def)
  next
    case other
    with r have *: "rc = st" "p1 = p'" "s2 = snd (cbf p' st sx)"
      by (auto simp: ble_gattc_process_resume_status_def)
    define cbevs where "cbevs = new_events sx (snd (cbf p' st sx))"
    have s2: "s2 = s\<lparr>trace := trace s @ evs @ cbevs\<rparr>"
      unfolding *(3) by (subst frame) (simp add: cbevs_def e(1))
    have q: "filter is_att_tx cbevs = []" "\<And>q r. Att_tx q r \<notin> set cbevs"
      using quiet [of sx p' st] by (auto simp: cbevs_def filter_empty_conv)
    from s2 q e(1,3) keep other * notin show ?thesis unfolding resume_outcome_def
      by (intro conjI exI [of _ "evs @ cbevs"]) auto
  qed
qed


lemma resume_simple:
  assumes txo: "\<And>st sx. tx s = (st, sx) \<Longrightarrow> tx_outcome s st sx"
      and frame: "\<And>p1 rc s. snd (cbf p1 rc s) = s\<lparr>trace := trace s @ new_events s (snd (cbf p1 rc s))\<rparr>"
      and quiet: "\<And>p1 rc s. \<forall>ev \<in> set (new_events s (snd (cbf p1 rc s))). \<not> is_att_tx ev"
      and run: "(case tx s of (st, s1) \<Rightarrow>
                  case ble_gattc_process_resume_status e p st s1 of
                    (rc, p1, s2) \<Rightarrow> if rc \<noteq> 0 then (rc, p1, snd (cbf p1 rc s2)) else (0, p1, s2))
                = (rc, p1, s2)"
  shows "resume_outcome e p s rc p1 s2"
proof -
  obtain st sx where t: "tx s = (st, sx)" by force
  from run have "(case ble_gattc_process_resume_status e p st sx of
                    (rc, p1, s2) \<Rightarrow> if rc \<noteq> 0 then (rc, p1, snd (cbf p1 rc s2)) else (0, p1, s2))
                 = (rc, p1, s2)" by (simp add: t)
  from resume_pattern [where cbf = cbf, OF txo [OF t] refl refl refl refl frame quiet this]
  show ?thesis .
qed

lemma resume_len:
  assumes txo: "\<And>st len sx. tx s = (st, len, sx) \<Longrightarrow> tx_outcome s st sx"
      and frame: "\<And>p1 rc s. snd (cbf p1 rc s) = s\<lparr>trace := trace s @ new_events s (snd (cbf p1 rc s))\<rparr>"
      and quiet: "\<And>p1 rc s. \<forall>ev \<in> set (new_events s (snd (cbf p1 rc s))). \<not> is_att_tx ev"
      and run: "(case tx s of (st, len1, s1) \<Rightarrow>
                  case ble_gattc_process_resume_status e (p\<lparr>u := mk len1\<rparr>) st s1 of
                    (rc, p1, s2) \<Rightarrow> if rc \<noteq> 0 then (rc, p1, snd (cbf p1 rc s2)) else (0, p1, s2))
                = (rc, p1, s2)"
  shows "resume_outcome e p s rc p1 s2"
proof -
  obtain st len1 sx where t: "tx s = (st, len1, sx)" by (metis prod_cases3)
  from run have "(case ble_gattc_process_resume_status e (p\<lparr>u := mk len1\<rparr>) st sx of
                    (rc, p1, s2) \<Rightarrow> if rc \<noteq> 0 then (rc, p1, snd (cbf p1 rc s2)) else (0, p1, s2))
                 = (rc, p1, s2)" by (simp add: t)
  from resume_pattern [where cbf = cbf and p' = "p\<lparr>u := mk len1\<rparr>" and p = p,
      OF txo [OF t] _ _ _ _ frame quiet this]
  show ?thesis by simp
qed

lemma resume_dispatch_outcome:
  assumes run: "ble_gattc_resume_dispatch e p s = Some (rc, p1, s2)"
  shows "resume_outcome e p s rc p1 s2"
proof (cases "u p")
  case (Disc_all_svcs prev)
  with run have "ble_gattc_disc_all_svcs_resume e p prev s = (rc, p1, s2)"
    by (simp add: ble_gattc_resume_dispatch_def)
  then show ?thesis unfolding ble_gattc_disc_all_svcs_resume_def
    by (rule resume_simple [where tx = "ble_gattc_disc_all_svcs_tx e p prev"
          and cbf = "\<lambda>p1 rc. ble_gattc_disc_all_svcs_cb e p1 rc 0 Null", rotated -1])
       (simp add: simple_tx_defs, rule cb_frames, rule cb_no_tx)
next
  case (Disc_svc_uuid uu prev)
  with run have "ble_gattc_disc_svc_uuid_resume e p uu prev s = (rc, p1, s2)"
    by (simp add: ble_gattc_resume_dispatch_def)
  then show ?thesis unfolding ble_gattc_disc_svc_uuid_resume_def
    by (rule resume_simple [where tx = "ble_gattc_disc_svc_uuid_tx e p uu prev"
          and cbf = "\<lambda>p1 rc. ble_gattc_disc_svc_uuid_cb e p1 rc 0 Null", rotated -1])
       (simp add: simple_tx_defs, rule cb_frames, rule cb_no_tx)
next
  case (Find_inc_svcs prev eh cur x)
  with run have "ble_gattc_find_inc_svcs_resume e p prev eh cur s = (rc, p1, s2)"
    by (simp add: ble_gattc_resume_dispatch_def)
  then show ?thesis unfolding ble_gattc_find_inc_svcs_resume_def
    by (rule resume_simple [where tx = "ble_gattc_find_inc_svcs_tx e p prev eh cur"
          and cbf = "\<lambda>p1 rc. ble_gattc_find_inc_svcs_cb e p1 rc 0 Null", rotated -1])
       (simp add: tx_outcome_find_inc, rule cb_frames, rule cb_no_tx)
next
  case (Disc_all_chrs prev eh)
  with run have "ble_gattc_disc_all_chrs_resume e p prev eh s = (rc, p1, s2)"
    by (simp add: ble_gattc_resume_dispatch_def)
  then show ?thesis unfolding ble_gattc_disc_all_chrs_resume_def
    by (rule resume_simple [where tx = "ble_gattc_disc_all_chrs_tx e p prev eh"
          and cbf = "\<lambda>p1 rc. ble_gattc_disc_all_chrs_cb e p1 rc 0 Null", rotated -1])
       (simp add: simple_tx_defs, rule cb_frames, rule cb_no_tx)
next
  case (Disc_chr_uuid uu prev eh)
  with run have "ble_gattc_disc_chr_uuid_resume e p prev eh s = (rc, p1, s2)"
    by (simp add: ble_gattc_resume_dispatch_def)
  then show ?thesis unfolding ble_gattc_disc_chr_uuid_resume_def
    by (rule resume_simple [where tx = "ble_gattc_disc_chr_uuid_tx e p prev eh"
          and cbf = "\<lambda>p1 rc. ble_gattc_disc_chr_uuid_cb e p1 rc 0 Null", rotated -1])
       (simp add: simple_tx_defs, rule cb_frames, rule cb_no_tx)
next
  case (Disc_all_dscs cv prev eh)
  with run have "ble_gattc_disc_all_dscs_resume e p cv prev eh s = (rc, p1, s2)"
    by (simp add: ble_gattc_resume_dispatch_def)
  then show ?thesis unfolding ble_gattc_disc_all_dscs_resume_def
    by (rule resume_simple [where tx = "ble_gattc_disc_all_dscs_tx e p prev eh"
          and cbf = "\<lambda>p1 rc. ble_gattc_disc_all_dscs_cb e p1 cv rc 0 Null", rotated -1])
       (simp add: simple_tx_defs, rule cb_frames, rule cb_no_tx)
next
  case (Read_long h off)
  with run have "ble_gattc_read_long_resume e p h off s = (rc, p1, s2)"
    by (simp add: ble_gattc_resume_dispatch_def)
  then show ?thesis unfolding ble_gattc_read_long_resume_def
    by (rule resume_simple [where tx = "ble_gattc_read_long_tx e p h off"
          and cbf = "\<lambda>p1 rc. ble_gattc_read_long_cb e p1 rc 0 Null", rotated -1])
       (simp add: tx_outcome_read_long, rule cb_frames, rule cb_no_tx)
next
  case (Write_long attr len)
  with run have "ble_gattc_write_long_resume e p attr len s = (rc, p1, s2)"
    by (simp add: ble_gattc_resume_dispatch_def)
  then show ?thesis unfolding ble_gattc_write_long_resume_def
    by (rule resume_len [where tx = "ble_gattc_write_long_tx e p attr len"
          and mk = "Write_long attr"
          and cbf = "\<lambda>p1 rc. ble_gattc_write_long_cb e p1 attr rc 0", rotated -1])
       (simp add: tx_outcome_write_long, rule cb_frames, rule cb_no_tx)
next
  case (Write_reliable attrs cur len)
  with run have "ble_gattc_write_reliable_resume e p attrs cur len s = (rc, p1, s2)"
    by (simp add: ble_gattc_resume_dispatch_def)
  then show ?thesis unfolding ble_gattc_write_reliable_resume_def
    by (rule resume_len [where tx = "ble_gattc_write_reliable_tx e p attrs cur len"
          and mk = "Write_reliable attrs cur"
          and cbf = "\<lambda>p1 rc. ble_gattc_write_reliable_cb e p1 attrs rc 0", rotated -1])
       (simp add: tx_outcome_write_reliable, rule cb_frames, rule cb_no_tx)
qed (use run in \<open>simp_all add: ble_gattc_resume_dispatch_def\<close>)


lemma resume_procs_Nil:
  assumes "filter ble_gattc_proc_matches_stalled (ble_gattc_procs s) = []"
  shows "ble_gattc_resume_procs e s
           = s\<lparr>ble_gattc_resume_at := 0,
               ble_gattc_procs := filter (\<lambda>p. \<not> ble_gattc_proc_matches_stalled p) (ble_gattc_procs s)\<rparr>"
  using assms by (simp add: ble_gattc_resume_procs_def extract_stalled_eq)

lemma resume_procs_Cons:
  assumes "filter ble_gattc_proc_matches_stalled (ble_gattc_procs s) = p # rest"
  shows "ble_gattc_resume_procs e s
           = (case ble_gattc_resume_dispatch e
                     (p\<lparr>flags := flags p AND NOT BLE_GATTC_PROC_F_STALLED\<rparr>)
                     (s\<lparr>ble_gattc_resume_at := 0,
                        ble_gattc_procs := filter (\<lambda>p. \<not> ble_gattc_proc_matches_stalled p)
                                             (ble_gattc_procs s)\<rparr>) of
                None \<Rightarrow> s\<lparr>ble_gattc_resume_at := 0,
                           ble_gattc_procs := filter (\<lambda>p. \<not> ble_gattc_proc_matches_stalled p)
                                                (ble_gattc_procs s),
                           fault := Some Null_deref\<rparr>
              | Some (rc, p1, s2) \<Rightarrow>
                  if rc = 0 then ble_gattc_process_status e p1 rc s2
                  else (ble_gattc_process_status e p1 rc s2)\<lparr>fault := Some Use_after_free\<rparr>)"
  using assms
  by (simp add: ble_gattc_resume_procs_def extract_stalled_eq Let_def split: option.splits)

lemma resume_procs_shape:
  "(\<exists>evs. trace (ble_gattc_resume_procs e s) = trace s @ evs)
   \<and> set (map addr (ble_gattc_procs (ble_gattc_resume_procs e s)))
       \<subseteq> set (map addr (ble_gattc_procs s))
   \<and> set (ble_gattc_proc_pool s) \<subseteq> set (ble_gattc_proc_pool (ble_gattc_resume_procs e s))"
proof (cases "filter ble_gattc_proc_matches_stalled (ble_gattc_procs s)")
  case Nil
  show ?thesis unfolding resume_procs_Nil [OF Nil] by auto
next
  case (Cons p rest)
  let ?p0 = "p\<lparr>flags := flags p AND NOT BLE_GATTC_PROC_F_STALLED\<rparr>"
  let ?s1 = "s\<lparr>ble_gattc_resume_at := 0,
               ble_gattc_procs := filter (\<lambda>p. \<not> ble_gattc_proc_matches_stalled p) (ble_gattc_procs s)\<rparr>"
  from Cons have "p \<in> set (filter ble_gattc_proc_matches_stalled (ble_gattc_procs s))" by simp
  then have pin: "addr p \<in> addr ` set (ble_gattc_procs s)" by auto
  show ?thesis
  proof (cases "ble_gattc_resume_dispatch e ?p0 ?s1")
    case None
    show ?thesis unfolding resume_procs_Cons [OF Cons] None by auto
  next
    case (Some r)
    obtain rc p1 s2 where r: "r = (rc, p1, s2)" by (metis prod_cases3)
    from resume_dispatch_outcome [OF Some [unfolded r]] obtain evs where
      o: "s2 = ?s1\<lparr>trace := trace ?s1 @ evs, ble_gattc_resume_at := ble_gattc_resume_at s2\<rparr>"
        "addr p1 = addr p"
      unfolding resume_outcome_def by auto
    have f: "trace s2 = trace s @ evs"
      "ble_gattc_procs s2 = filter (\<lambda>p. \<not> ble_gattc_proc_matches_stalled p) (ble_gattc_procs s)"
      "ble_gattc_proc_pool s2 = ble_gattc_proc_pool s"
      by (subst o(1), simp)+
    show ?thesis unfolding resume_procs_Cons [OF Cons] Some r
      using pin o(2) by (auto simp: process_status_eq f ble_gattc_proc_set_exp_timer_def)
  qed
qed

lemma stalled_flag_set:
  "((x AND NOT BLE_GATTC_PROC_F_STALLED) OR BLE_GATTC_PROC_F_STALLED) AND BLE_GATTC_PROC_F_STALLED \<noteq> (0 :: u8)"
proof
  assume "((x AND NOT BLE_GATTC_PROC_F_STALLED) OR BLE_GATTC_PROC_F_STALLED) AND BLE_GATTC_PROC_F_STALLED = (0 :: u8)"
  moreover have "bit (((x AND NOT BLE_GATTC_PROC_F_STALLED) OR BLE_GATTC_PROC_F_STALLED) AND (BLE_GATTC_PROC_F_STALLED :: u8)) 0"
    by (simp add: bit_and_iff bit_or_iff)
  ultimately show False by simp
qed

lemma stalled_flag_clear:
  "(x AND NOT BLE_GATTC_PROC_F_STALLED) AND BLE_GATTC_PROC_F_STALLED = (0 :: u8)"
  by (simp add: and.assoc)

lemma stalled_flag_set' [simp]: "((x AND - 2) OR 1) AND 1 \<noteq> (0 :: u8)"
  using stalled_flag_set [of x] by simp

lemma stalled_flag_clear' [simp]: "(x AND - 2) AND 1 = (0 :: u8)"
  using stalled_flag_clear [of x] by simp




subsection \<open>Attribute data entries of a service discovery\<close>

lemma adata_no_record:
  "ble_gattc_procs s = [] \<Longrightarrow> ble_gattc_rx_read_group_type_adata e conn c adata s = s"
  by (simp add: ble_gattc_rx_read_group_type_adata_def extract_defs)

lemma adata_fold_no_record:
  "ble_gattc_procs s = [] \<Longrightarrow> fold (ble_gattc_rx_read_group_type_adata e conn c) entries s = s"
  by (induction entries) (simp_all add: adata_no_record)

lemma adata_step:
  assumes tab: "ble_gattc_procs s = [p]" and k: "u p = Disc_all_svcs prev"
      and cn: "conn_handle p = conn" and ci: "cid p = c"
      and on: "MYNEWT_VAL (cfg e) NIMBLE_BLE_ATT_CLT_READ_GROUP_TYPE"
      and s': "s' = ble_gattc_rx_read_group_type_adata e conn c adata s"
  shows "trace s' = trace s @ new_events s s'
       \<and> ((ble_gattc_procs s' = []
             \<and> (List.map_filter reported_end (new_events s s') = []
                  \<or> List.map_filter reported_end (new_events s s') = [end_group_handle adata]
                    \<and> prev < end_group_handle adata))
          \<or> (\<exists>p'. ble_gattc_procs s' = [p'] \<and> u p' = Disc_all_svcs (end_group_handle adata)
                  \<and> conn_handle p' = conn \<and> cid p' = c \<and> prev < end_group_handle adata
                  \<and> (List.map_filter reported_end (new_events s s') = [end_group_handle adata]
                       \<or> List.map_filter reported_end (new_events s s') = [])))"
proof -
  have x: "ble_gattc_extract_first_by_conn_cid_op conn c BLE_GATT_OP_DISC_ALL_SVCS s
             = (Some p, s\<lparr>ble_gattc_procs := []\<rparr>)"
    using tab k cn ci by (simp add: extract_defs)
  obtain rc p1 s1 where r: "ble_gattc_disc_all_svcs_rx_adata e p prev adata (s\<lparr>ble_gattc_procs := []\<rparr>)
                              = (rc, p1, s1)" by (metis prod_cases3)
  have s'': "s' = ble_gattc_process_status e p1 rc s1"
    using on by (simp add: s' ble_gattc_rx_read_group_type_adata_def x k r)
  show ?thesis
    using r cn ci k
    unfolding s'' process_status_eq
    by (cases "cb p")
       (auto simp: ble_gattc_disc_all_svcs_rx_adata_def ble_gattc_disc_all_svcs_cb_def
          closed_forms new_events_def List.map_filter_simps ble_gattc_proc_set_exp_timer_def
          free_events_def
          split: prod.splits if_splits)
qed


lemma new_events_trans:
  "trace s1 = trace s @ a \<Longrightarrow> trace s2 = trace s1 @ b \<Longrightarrow> new_events s s2 = a @ b"
  by (simp add: new_events_def)

subsection \<open>One resume attempt\<close>






















subsection \<open>The claims\<close>

text \<open>
  Claim C1, as the code has it. When the transport answers the first ATT request of
  an initiator with \<open>BLE_HS_ENOMEM\<close>, the initiator returns \<open>BLE_HS_ENOMEM\<close>; the
  table of procedures, the pool of records and the resume time are what they were
  before the call (the record taken from the pool is back in it, none is inserted, so
  none is stalled), and no application callback was called.
\<close>

theorem initiate_tx_enomem:
  assumes run: "initiate e r s = (rc, s')"
      and tx: "Att_tx q BLE_HS_ENOMEM \<in> set (new_events s s')"
  shows "rc = BLE_HS_ENOMEM
       \<and> ble_gattc_procs s' = ble_gattc_procs s
       \<and> ble_gattc_proc_pool s' = ble_gattc_proc_pool s
       \<and> ble_gattc_resume_at s' = ble_gattc_resume_at s
       \<and> (\<forall>ev \<in> set (new_events s s'). \<not> is_app_cb ev)"
proof -
  from initiate_outcome [OF run] obtain evs where e: "trace s' = trace s @ evs"
    "\<forall>ev \<in> set evs. \<not> is_app_cb ev" "\<forall>q r. Att_tx q r \<in> set evs \<longrightarrow> r = rc"
    and rest: "ble_gattc_resume_at s' = ble_gattc_resume_at s"
      "rc \<noteq> 0 \<longrightarrow> ble_gattc_procs s' = ble_gattc_procs s
                 \<and> ble_gattc_proc_pool s' = ble_gattc_proc_pool s"
    unfolding start_outcome_def by blast
  from tx e have "rc = BLE_HS_ENOMEM" by (auto simp: new_events_append [OF e(1)])
  with e rest show ?thesis by (simp add: new_events_append [OF e(1)])
qed

text \<open>
  Claim C1 as worded fails: with a transport that is out of memory,
  \<open>ble_gattc_disc_all_svcs\<close> returns \<open>BLE_HS_ENOMEM\<close> and not 0, the table stays empty
  and the pool is full again.
\<close>

theorem disc_all_svcs_tx_enomem_fails:
  "ble_gattc_disc_all_svcs env_tx_enomem 1 (Some 7) 0 hs0
     = (BLE_HS_ENOMEM,
        hs0\<lparr>trace := [Att_tx (Tx_read_group_type 1 4 1 65535 (Uuid16 10240)) BLE_HS_ENOMEM]\<rparr>)
   \<and> ble_gattc_procs (snd (ble_gattc_disc_all_svcs env_tx_enomem 1 (Some 7) 0 hs0)) = []"
  by (simp add: ble_gattc_disc_all_svcs_def cache_first_def start_proc_def
      ble_gattc_proc_alloc_def ble_gattc_proc_prepare_def ble_gattc_disc_all_svcs_tx_def
      att_clt_tx_eq process_status_eq free_events_def env_tx_enomem_def env0_def cfg0_def
      hs0_def proc_zero_def)

theorem initiate_tx_enomem_witness:
  "fst (initiate env_tx_enomem (Req_disc_all_svcs 1 (Some 7) 0) hs0) = BLE_HS_ENOMEM
   \<and> ble_gattc_procs (snd (initiate env_tx_enomem (Req_disc_all_svcs 1 (Some 7) 0) hs0)) = []
   \<and> ble_gattc_proc_pool (snd (initiate env_tx_enomem (Req_disc_all_svcs 1 (Some 7) 0) hs0))
       = [0, 1, 2, 3]"
proof -
  define s1 where
    "s1 = hs0\<lparr>trace := [Att_tx (Tx_read_group_type 1 4 1 65535 (Uuid16 10240)) BLE_HS_ENOMEM]\<rparr>"
  have run: "initiate env_tx_enomem (Req_disc_all_svcs 1 (Some 7) 0) hs0 = (BLE_HS_ENOMEM, s1)"
    by (simp add: s1_def ble_gattc_disc_all_svcs_def cache_first_def start_proc_def
        ble_gattc_proc_alloc_def ble_gattc_proc_prepare_def ble_gattc_disc_all_svcs_tx_def
        att_clt_tx_eq process_status_eq free_events_def env_tx_enomem_def env0_def cfg0_def
        hs0_def proc_zero_def)
  have tx: "Att_tx (Tx_read_group_type 1 4 1 65535 (Uuid16 10240)) BLE_HS_ENOMEM
              \<in> set (new_events hs0 s1)"
    by (simp add: new_events_def s1_def hs0_def)
  from initiate_tx_enomem [OF run tx]
  have "ble_gattc_procs s1 = ble_gattc_procs hs0"
    and "ble_gattc_proc_pool s1 = ble_gattc_proc_pool hs0" by simp_all
  then show ?thesis unfolding run by (simp add: hs0_def)
qed

text \<open>
  Claim C2, as the code has it. A read-long record with a callback gets a response
  with status 0 that carries \<open>data_len\<close> bytes. First the callback is called with the
  chunk at the current offset. If the callback does not return 0, or the MTU of the
  channel is 0 (the connection is gone), the procedure ends there, without a report
  of completion. Otherwise, if \<open>data_len\<close> is less than the MTU minus 1, the callback is
  called with \<open>BLE_HS_EDONE\<close> and the procedure ends; if it is not, the offset advances
  by \<open>data_len\<close> (in 16 bits) and a Read Blob request for the new offset (a Read request
  when the new offset is 0) is handed to the transport: when the transport takes it
  the procedure goes on, when the transport is out of memory the record is marked as
  stalled and nothing else happens.
\<close>

theorem read_long_response:
  assumes cbp: "cb p = Some fn"
      and chunk: "chunk = Attr_fn (conn_handle p) \<lparr>status = 0, att_handle = 0\<rparr>
                           (Ptr \<lparr>handle = h, offset = off, om = Some rxom\<rparr>)"
      and rc: "rc = app_cb e (trace s) fn chunk (cb_arg p)"
      and s1: "s1 = emit (App_cb fn chunk (cb_arg p) rc) s"
      and mtu: "mtu = ble_att_mtu_by_cid e (conn_handle p) (cid p)"
      and dl: "data_len = OS_MBUF_PKTLEN rxom"
      and fin: "fin = Attr_fn (conn_handle p) \<lparr>status = word_of_int BLE_HS_EDONE, att_handle = 0\<rparr> Null"
      and req: "req = (if off + data_len = 0 then Tx_read (conn_handle p) (cid p) h
                       else Tx_read_blob (conn_handle p) (cid p) h (off + data_len))"
      and run: "r = ble_gattc_read_long_rx_read_rsp e p h off 0 rxom s"
  shows "(rc \<noteq> 0 \<or> mtu = 0 \<longrightarrow> r = (BLE_HS_EDONE, p, s1))
       \<and> (rc = 0 \<and> mtu \<noteq> 0 \<and> uint data_len < uint mtu - 1 \<longrightarrow>
            r = (BLE_HS_EDONE, p,
                 emit (App_cb fn fin (cb_arg p) (app_cb e (trace s1) fn fin (cb_arg p))) s1))
       \<and> (rc = 0 \<and> mtu \<noteq> 0 \<and> \<not> uint data_len < uint mtu - 1 \<and> att_tx e (trace s1) req = 0 \<longrightarrow>
            r = (0, p\<lparr>u := Read_long h (off + data_len)\<rparr>, emit (Att_tx req 0) s1))
       \<and> (rc = 0 \<and> mtu \<noteq> 0 \<and> \<not> uint data_len < uint mtu - 1
            \<and> att_tx e (trace s1) req = BLE_HS_ENOMEM \<longrightarrow>
            fst r = 0
            \<and> fst (snd r) = p\<lparr>u := Read_long h (off + data_len),
                                flags := flags p OR BLE_GATTC_PROC_F_STALLED\<rparr>
            \<and> new_events s (snd (snd r)) = [App_cb fn chunk (cb_arg p) rc, Att_tx req BLE_HS_ENOMEM])"
  unfolding run
  by (simp add: ble_gattc_read_long_rx_read_rsp_def ble_gattc_read_long_cb_def
      ble_gattc_read_long_resume_def ble_gattc_read_long_tx_def
      ble_gattc_process_resume_status_def ble_gattc_proc_set_resume_timer_def
      closed_forms cbp chunk rc s1 mtu dl fin req new_events_def)

text \<open>
  Claim C2 as worded fails: a chunk of 5 bytes with an MTU of 23 ends the procedure
  without the report of completion when the callback returns 1 for the chunk.
\<close>

theorem read_long_abort_no_done:
  "ble_gattc_read_long_rx_read_rsp env_cb_abort (sample_proc 4 1 (Read_long 16 0)) 16 0 0
       [1, 2, 3, 4, 5] hs0
     = (BLE_HS_EDONE, sample_proc 4 1 (Read_long 16 0),
        hs0\<lparr>trace := [App_cb 4 (Attr_fn 1 \<lparr>status = 0, att_handle = 0\<rparr>
                                (Ptr \<lparr>handle = 16, offset = 0, om = Some [1, 2, 3, 4, 5]\<rparr>)) 4 1]\<rparr>)
   \<and> uint (OS_MBUF_PKTLEN [1, 2, 3, 4, 5 :: u8]) < uint (ble_att_mtu_by_cid env_cb_abort 1 4) - 1"
  by (simp add: ble_gattc_read_long_rx_read_rsp_def ble_gattc_read_long_cb_def closed_forms
      env_cb_abort_def OS_MBUF_PKTLEN_def sample_defs)

theorem read_long_response_witness:
  "ble_gattc_read_long_rx_read_rsp env0 (sample_proc 4 1 (Read_long 16 0)) 16 0 0
       (map of_nat [0..<22]) hs0
     = (0, sample_proc 4 1 (Read_long 16 22),
        hs0\<lparr>trace := [App_cb 4 (Attr_fn 1 \<lparr>status = 0, att_handle = 0\<rparr>
                                (Ptr \<lparr>handle = 16, offset = 0, om = Some (map of_nat [0..<22])\<rparr>)) 4 0,
                         Att_tx (Tx_read_blob 1 4 16 22) 0]\<rparr>)"
proof -
  have cbp: "cb (sample_proc 4 1 (Read_long 16 0)) = Some 4" by (simp add: sample_defs)
  from read_long_response [OF cbp refl refl refl refl refl refl refl refl,
      where e = env0 and s = hs0 and h = 16 and off = 0 and rxom = "map of_nat [0..<22]"]
  show ?thesis
    by (simp add: OS_MBUF_PKTLEN_def emit_def sample_defs)
qed

text \<open>
  Claim C3 does not hold of the code. A write-long procedure for handle 32 has sent
  the first 18 bytes of a 64-byte value at offset 0; the prepare-write response echoes
  these 18 bytes and offset 0, but handle 33. \<open>ble_gattc_write_long_rx_prep\<close> then calls
  the callback with \<open>BLE_HS_EBADDATA\<close> and ends the procedure, and this callback is the
  only thing that happens: no Execute Write with the cancel flag is handed to the
  transport.
\<close>

theorem write_long_handle_mismatch_no_cancel:
  "ble_gattc_write_long_rx_prep env0 (sample_proc 4 1 (Write_long wl_attr 18)) wl_attr 18 0 33 0
       (map of_nat [0..<18]) hs0
     = (BLE_HS_EDONE, sample_proc 4 1 (Write_long wl_attr 18),
        hs0\<lparr>trace := [App_cb 4 (Attr_fn 1 \<lparr>status = 10, att_handle = 0\<rparr> (Ptr (attr_of wl_attr))) 4 0]\<rparr>)"
  by (simp add: ble_gattc_write_long_rx_prep_def ble_gattc_write_long_cb_def call_cb_def
      cache_out_of_sync_def ble_gattc_error_def wl_attr_def OS_MBUF_PKTLEN_def
      status_defs sample_defs Let_def)

text \<open>
  The branch that does cancel: when handle, offset and length of the response are as
  expected and the echoed bytes differ from the queued ones, the transport is given an
  Execute Write with the cancel flag and then the callback is called with
  \<open>BLE_HS_EBADDATA\<close>.
\<close>

theorem write_long_byte_mismatch_cancels:
  assumes cbp: "cb p = Some fn"
      and pending: "a_offset attr < OS_MBUF_PKTLEN (a_om attr)"
      and fits: "uint (a_offset attr) + uint (OS_MBUF_PKTLEN rxom) \<le> uint (OS_MBUF_PKTLEN (a_om attr))"
      and len: "OS_MBUF_PKTLEN rxom = len"
      and differ: "os_mbuf_cmpm rxom 0 (a_om attr) (unat (a_offset attr)) (unat len) \<noteq> 0"
      and cancel: "cancel = Tx_exec_write (conn_handle p) (cid p) BLE_ATT_EXEC_WRITE_F_CANCEL"
      and run: "ble_gattc_write_long_rx_prep e p attr len 0 (a_handle attr) (a_offset attr) rxom s
                  = (rc, p1, s1)"
  shows "rc = BLE_HS_EDONE \<and> p1 = p
       \<and> (\<exists>r cbrc. new_events s s1
             = [Att_tx cancel r,
                App_cb fn (Attr_fn (conn_handle p)
                             \<lparr>status = word_of_int BLE_HS_EBADDATA, att_handle = 0\<rparr>
                             (Ptr (attr_of attr))) (cb_arg p) cbrc])"
proof -
  from pending have c1: "\<not> OS_MBUF_PKTLEN (a_om attr) \<le> a_offset attr" by simp
  from fits have c2: "\<not> uint (OS_MBUF_PKTLEN (a_om attr))
                          < uint (a_offset attr) + uint (OS_MBUF_PKTLEN rxom)" by simp
  have "ble_gattc_write_long_rx_prep e p attr len 0 (a_handle attr) (a_offset attr) rxom s
          = (BLE_HS_EDONE, p,
             snd (ble_gattc_write_long_cb e p attr BLE_HS_EBADDATA 0
                    (snd (ble_att_clt_tx e cancel s))))"
    using c1 c2 len differ
    by (simp add: ble_gattc_write_long_rx_prep_def cancel)
  with run show ?thesis
    by (auto simp: ble_gattc_write_long_cb_def closed_forms cbp new_events_def)
qed

text \<open>
  Claim C4. A timer tick at time \<open>now\<close>: what the application and the connection
  manager see of the call starts with, for each expired record in table order, the
  record's one report with status \<open>BLE_HS_ETIMEOUT\<close> followed by the termination of its
  connection with reason \<open>BLE_ERR_REM_USER_CONN_TERM\<close> (what follows comes from resuming
  stalled procedures); every record in the table afterwards sits at the address of a
  record that was not expired; and the addresses of the expired records are in the
  pool.
\<close>

theorem timer_times_out_expired:
  "(\<exists>later. List.map_filter obs_of (new_events s (snd (ble_gattc_timer e s)))
       = concat (map (\<lambda>p. expected_report p (word_of_int BLE_HS_ETIMEOUT)
                            @ [Terminated (conn_handle p) BLE_ERR_REM_USER_CONN_TERM])
                   (filter (expired (ble_npl_time_get e)) (ble_gattc_procs s))) @ later)
   \<and> set (map addr (ble_gattc_procs (snd (ble_gattc_timer e s))))
       \<subseteq> set (map addr (filter (\<lambda>p. \<not> expired (ble_npl_time_get e) p) (ble_gattc_procs s)))
   \<and> set (map addr (filter (expired (ble_npl_time_get e)) (ble_gattc_procs s)))
       \<subseteq> set (ble_gattc_proc_pool (snd (ble_gattc_timer e s)))"
proof -
  let ?now = "ble_npl_time_get e"
  let ?exp = "filter (expired ?now) (ble_gattc_procs s)"
  let ?s1 = "s\<lparr>ble_gattc_procs := filter (\<lambda>p. \<not> expired ?now p) (ble_gattc_procs s)\<rparr>"
  let ?want = "concat (map (\<lambda>p. expected_report p (word_of_int BLE_HS_ETIMEOUT)
                            @ [Terminated (conn_handle p) BLE_ERR_REM_USER_CONN_TERM]) ?exp)"
  from extract_expired_eq [of e s] obtain t where
    x: "ble_gattc_extract_expired e s = (t, ?exp, ?s1)" ..
  from timeout_procs_eq [of e ?exp ?s1] obtain evs where
    s2: "timeout_procs e ?exp ?s1
           = ?s1\<lparr>trace := trace ?s1 @ evs,
                 ble_gattc_proc_pool := rev (map addr ?exp) @ ble_gattc_proc_pool ?s1\<rparr>"
    and o: "List.map_filter obs_of evs = ?want" by blast
  define s2 where "s2 = timeout_procs e ?exp ?s1"
  have f2: "trace s2 = trace s @ evs"
    "ble_gattc_procs s2 = filter (\<lambda>p. \<not> expired ?now p) (ble_gattc_procs s)"
    "ble_gattc_proc_pool s2 = rev (map addr ?exp) @ ble_gattc_proc_pool s"
    unfolding s2_def by (subst s2, simp)+
  show ?thesis
  proof (cases "ble_gattc_ticks_until_resume e s2 = 0")
    case False
    then have r: "snd (ble_gattc_timer e s) = s2"
      by (simp add: ble_gattc_timer_def x s2_def Let_def)
    show ?thesis unfolding r using f2 o
      by (intro conjI exI [of _ "[]"]) (auto simp: new_events_def)
  next
    case True
    then have r: "snd (ble_gattc_timer e s) = ble_gattc_resume_procs e s2"
      by (simp add: ble_gattc_timer_def x s2_def Let_def)
    from resume_procs_shape [of e s2] obtain evs3 where
      f3: "trace (ble_gattc_resume_procs e s2) = trace s2 @ evs3"
        "set (map addr (ble_gattc_procs (ble_gattc_resume_procs e s2)))
           \<subseteq> set (map addr (ble_gattc_procs s2))"
        "set (ble_gattc_proc_pool s2) \<subseteq> set (ble_gattc_proc_pool (ble_gattc_resume_procs e s2))"
      by blast
    show ?thesis unfolding r using f2 f3 o
      by (intro conjI exI [of _ "List.map_filter obs_of evs3"])
         (auto simp: new_events_def map_filter_append)
  qed
qed

text \<open>
  Claim C5, as the code has it. A discover-all-services record with a callback gets an
  attribute-data entry. If the entry's value is not a UUID (its length is neither 2
  nor 16, or it does not parse), or the entry's \<open>end_group_handle\<close> is not greater than
  \<open>prev_handle\<close>, the callback is called with \<open>BLE_HS_EBADDATA\<close>, \<open>prev_handle\<close> stays and
  the procedure ends. Otherwise \<open>prev_handle\<close> becomes the entry's \<open>end_group_handle\<close>
  and the service is reported; the procedure goes on unless the callback returns a
  value other than 0.
\<close>

theorem disc_all_svcs_entry:
  assumes run: "ble_gattc_disc_all_svcs_rx_adata e p prev adata s = (rc, p1, s1)"
      and cbp: "cb p = Some fn"
      and ok: "ok = ((length (adata_value adata) = 2 \<or> length (adata_value adata) = 16)
                     \<and> fst (ble_uuid_init_from_att_buf e (adata_value adata)) = 0)"
      and bad: "bad = Disc_svc_fn (conn_handle p) \<lparr>status = word_of_int BLE_HS_EBADDATA, att_handle = 0\<rparr>
                        Uninit"
      and svc: "svc = Disc_svc_fn (conn_handle p) \<lparr>status = 0, att_handle = 0\<rparr>
                        (Ptr \<lparr>start_handle = adata_att_handle adata,
                              end_handle = end_group_handle adata,
                              uuid = snd (ble_uuid_init_from_att_buf e (adata_value adata))\<rparr>)"
  shows "(\<not> ok \<or> end_group_handle adata \<le> prev \<longrightarrow>
            rc = BLE_HS_EDONE \<and> p1 = p
            \<and> new_events s s1 = [App_cb fn bad (cb_arg p) (app_cb e (trace s) fn bad (cb_arg p))])
       \<and> (ok \<and> prev < end_group_handle adata \<longrightarrow>
            p1 = p\<lparr>u := Disc_all_svcs (end_group_handle adata)\<rparr>
            \<and> new_events s s1 = [App_cb fn svc (cb_arg p) (app_cb e (trace s) fn svc (cb_arg p))]
            \<and> rc = (if app_cb e (trace s) fn svc (cb_arg p) \<noteq> 0 then BLE_HS_EDONE else 0))"
  using run
  by (auto simp: ble_gattc_disc_all_svcs_rx_adata_def ble_gattc_disc_all_svcs_cb_def
      closed_forms cbp ok bad svc new_events_def split: prod.splits if_splits)

text \<open>
  Claim C5 as worded fails: an entry whose \<open>end_group_handle\<close> 5 is greater than
  \<open>prev_handle\<close> 0 but whose value has 3 bytes is answered with \<open>BLE_HS_EBADDATA\<close>;
  \<open>prev_handle\<close> is not updated and no service is reported.
\<close>

theorem disc_all_svcs_malformed_entry:
  "ble_gattc_disc_all_svcs_rx_adata env0 (sample_proc 4 1 (Disc_all_svcs 0)) 0
       \<lparr>adata_att_handle = 1, end_group_handle = 5, adata_value = [1, 2, 3]\<rparr> hs0
     = (BLE_HS_EDONE, sample_proc 4 1 (Disc_all_svcs 0),
        hs0\<lparr>trace := [App_cb 4 (Disc_svc_fn 1 \<lparr>status = 10, att_handle = 0\<rparr> Uninit) 4 0]\<rparr>)"
  by (simp add: ble_gattc_disc_all_svcs_rx_adata_def ble_gattc_disc_all_svcs_cb_def
      closed_forms sample_defs)

theorem disc_all_svcs_entry_witness:
  "ble_gattc_disc_all_svcs_rx_adata env0 (sample_proc 4 1 (Disc_all_svcs 4)) 4
       \<lparr>adata_att_handle = 5, end_group_handle = 9, adata_value = [0, 24]\<rparr> hs0
     = (0, sample_proc 4 1 (Disc_all_svcs 9),
        hs0\<lparr>trace := [App_cb 4 (Disc_svc_fn 1 \<lparr>status = 0, att_handle = 0\<rparr>
                                (Ptr \<lparr>start_handle = 5, end_handle = 9, uuid = Uuid16 6144\<rparr>)) 4 0]\<rparr>)"
proof -
  obtain rc p1 s1 where run:
    "ble_gattc_disc_all_svcs_rx_adata env0 (sample_proc 4 1 (Disc_all_svcs 4)) 4
       \<lparr>adata_att_handle = 5, end_group_handle = 9, adata_value = [0, 24]\<rparr> hs0 = (rc, p1, s1)"
    by (metis prod_cases3)
  have cbp: "cb (sample_proc 4 1 (Disc_all_svcs 4)) = Some 4" by (simp add: sample_defs)
  have tr: "trace s1 = trace hs0 @ new_events hs0 s1"
    using run
    by (simp add: ble_gattc_disc_all_svcs_rx_adata_def ble_gattc_disc_all_svcs_cb_def
        closed_forms sample_defs uuid_from_att_buf0_def new_events_def)
  have rest: "s1 = hs0\<lparr>trace := trace s1\<rparr>"
    using run
    by (auto simp: ble_gattc_disc_all_svcs_rx_adata_def ble_gattc_disc_all_svcs_cb_def
        closed_forms sample_defs uuid_from_att_buf0_def)
  from disc_all_svcs_entry [OF run cbp refl refl refl]
  have "rc = 0" "p1 = sample_proc 4 1 (Disc_all_svcs 9)"
    "new_events hs0 s1 = [App_cb 4 (Disc_svc_fn 1 \<lparr>status = 0, att_handle = 0\<rparr>
                                (Ptr \<lparr>start_handle = 5, end_handle = 9, uuid = Uuid16 6144\<rparr>)) 4 0]"
    by (simp_all add: sample_defs uuid_from_att_buf0_def word_cat_eq)
  with tr rest show ?thesis unfolding run by (simp add: hs0_def)
qed

text \<open>
  Over a sequence of entries given to \<open>ble_gattc_rx_read_group_type_adata\<close> for the one
  record of the table: the end handles of the services reported are strictly
  increasing and greater than the \<open>prev_handle\<close> the record started with.
\<close>

theorem disc_all_svcs_entries_increasing:
  assumes tab: "ble_gattc_procs s = [p]" and k: "u p = Disc_all_svcs prev"
      and cn: "conn_handle p = conn" and ci: "cid p = c"
      and on: "MYNEWT_VAL (cfg e) NIMBLE_BLE_ATT_CLT_READ_GROUP_TYPE"
  shows "trace (fold (ble_gattc_rx_read_group_type_adata e conn c) entries s)
           = trace s @ new_events s (fold (ble_gattc_rx_read_group_type_adata e conn c) entries s)
       \<and> sorted_wrt (<) (prev # List.map_filter reported_end
             (new_events s (fold (ble_gattc_rx_read_group_type_adata e conn c) entries s)))"
  using tab k cn ci
proof (induction entries arbitrary: s p prev)
  case Nil
  show ?case by (simp add: List.map_filter_simps)
next
  case (Cons a entries)
  define s1 where "s1 = ble_gattc_rx_read_group_type_adata e conn c a s"
  let ?sF = "fold (ble_gattc_rx_read_group_type_adata e conn c) entries s1"
  let ?n1 = "List.map_filter reported_end (new_events s s1)"
  from adata_step [OF Cons.prems on s1_def]
  have tr: "trace s1 = trace s @ new_events s s1"
    and alt: "(ble_gattc_procs s1 = []
                \<and> (?n1 = [] \<or> ?n1 = [end_group_handle a] \<and> prev < end_group_handle a))
            \<or> (\<exists>p'. ble_gattc_procs s1 = [p'] \<and> u p' = Disc_all_svcs (end_group_handle a)
                  \<and> conn_handle p' = conn \<and> cid p' = c \<and> prev < end_group_handle a
                  \<and> (?n1 = [end_group_handle a] \<or> ?n1 = []))"
    by blast+
  from alt show ?case
  proof
    assume e: "ble_gattc_procs s1 = []
                \<and> (?n1 = [] \<or> ?n1 = [end_group_handle a] \<and> prev < end_group_handle a)"
    then have "?sF = s1" by (simp add: adata_fold_no_record)
    with e tr show ?thesis by (auto simp: s1_def [symmetric])
  next
    assume "\<exists>p'. ble_gattc_procs s1 = [p'] \<and> u p' = Disc_all_svcs (end_group_handle a)
                  \<and> conn_handle p' = conn \<and> cid p' = c \<and> prev < end_group_handle a
                  \<and> (?n1 = [end_group_handle a] \<or> ?n1 = [])"
    then obtain p' where p': "ble_gattc_procs s1 = [p']" "u p' = Disc_all_svcs (end_group_handle a)"
      "conn_handle p' = conn" "cid p' = c" and lt: "prev < end_group_handle a"
      and n1: "?n1 = [end_group_handle a] \<or> ?n1 = []" by blast
    from Cons.IH [OF p'] have trF: "trace ?sF = trace s1 @ new_events s1 ?sF"
      and srt: "sorted_wrt (<) (end_group_handle a # List.map_filter reported_end (new_events s1 ?sF))"
      by blast+
    have ne: "new_events s ?sF = new_events s s1 @ new_events s1 ?sF"
      by (rule new_events_trans [OF tr trF])
    have "trace ?sF = trace s @ new_events s ?sF" by (simp add: ne trF tr)
    moreover from n1 lt srt
    have "sorted_wrt (<) (prev # List.map_filter reported_end (new_events s ?sF))"
      by (auto simp: ne map_filter_append)
    ultimately show ?thesis by (simp add: s1_def [symmetric])
  qed
qed

text \<open>
  Claim C6. \<open>ble_gattc_connection_broken\<close> for a connection leaves in the table exactly
  the records of the other connections, unchanged and in their order; what the
  application sees during the call is, for each record of the connection in table
  order, its one report with status \<open>BLE_HS_ENOTCONN\<close> (through the record's callback,
  none for a record that has no callback, through GAP for an indication) and nothing
  else; the records of the connection go back to the pool.
\<close>

theorem connection_broken_reports:
  "ble_gattc_procs (ble_gattc_connection_broken e conn s)
     = filter (\<lambda>p. conn_handle p \<noteq> conn) (ble_gattc_procs s)
   \<and> List.map_filter obs_of (new_events s (ble_gattc_connection_broken e conn s))
     = concat (map (\<lambda>p. expected_report p (word_of_int BLE_HS_ENOTCONN))
                 (filter (\<lambda>p. conn_handle p = conn) (ble_gattc_procs s)))
   \<and> ble_gattc_proc_pool (ble_gattc_connection_broken e conn s)
     = rev (map addr (filter (\<lambda>p. conn_handle p = conn) (ble_gattc_procs s)))
       @ ble_gattc_proc_pool s"
proof -
  from fail_procs_eq [of e conn s] obtain evs where
    f: "ble_gattc_fail_procs e conn BLE_GATT_OP_NONE BLE_HS_ENOTCONN s
           = s\<lparr>ble_gattc_procs := filter (\<lambda>p. conn_handle p \<noteq> conn) (ble_gattc_procs s),
               trace := trace s @ evs,
               ble_gattc_proc_pool :=
                 rev (map addr (filter (\<lambda>p. conn_handle p = conn) (ble_gattc_procs s)))
                 @ ble_gattc_proc_pool s\<rparr>"
    and o: "List.map_filter obs_of evs
             = concat (map (\<lambda>p. expected_report p (word_of_int BLE_HS_ENOTCONN))
                         (filter (\<lambda>p. conn_handle p = conn) (ble_gattc_procs s)))" by blast
  show ?thesis
    by (cases "ble_hs_conn_find e conn")
       (simp_all add: ble_gattc_connection_broken_def f o fold_free_tx_q new_events_def
          map_filter_append)
qed




text \<open>
  With two stalled records the walk over the list of stalled records ends after the
  first: the second record is neither resumed nor put back, and it is in no list
  afterwards.
\<close>

theorem resume_drops_second_stalled:
  "ble_gattc_timer env0 hs_two_stalled
     = (4000, hs0\<lparr>ble_gattc_procs := [(sample_proc 4 1 (Disc_all_svcs 11))\<lparr>exp_os_ticks := 31000\<rparr>],
                  trace := [Att_tx (Tx_read_group_type 1 4 12 65535 (Uuid16 10240)) 0,
                            Hs_timer_resched]\<rparr>)"
  by (simp add: ble_gattc_timer_def timeout_procs_def ble_gattc_resume_procs_def
      ble_gattc_ticks_until_resume_def ble_gattc_resume_dispatch_def
      ble_gattc_disc_all_svcs_resume_def ble_gattc_disc_all_svcs_tx_def
      hs_two_stalled_def extract_defs status_defs sample_defs Let_def)

text \<open>
  Claim C8, as the code has it. Without signed writes compiled in, \<open>ble_gattc_signed_write\<close>
  returns \<open>BLE_HS_ENOTSUP\<close> and does nothing else: the payload buffer is not released.
  With signed writes compiled in: when GAP does not know the connection the call fails
  with GAP's status; on a link that is already encrypted it fails with
  \<open>BLE_HS_EENCRYPT\<close>; on an unencrypted link, when the read of the security store fails
  (as it does when nothing is stored for the peer) the call fails with the status of
  the read, and when the read succeeds with a record whose \<open>csrk_present\<close> is not set it
  fails with \<open>BLE_HS_EAUTHEN\<close>. In all these cases nothing is handed to the transport and
  the only thing the call does is release the payload buffer. Whenever a call fails
  in such a build, for whatever reason, the last thing it has done is to release the
  payload buffer.
\<close>

theorem signed_write_preconditions:
  "(\<not> MYNEWT_VAL (cfg e) BLE_GATT_SIGNED_WRITE \<longrightarrow>
      ble_gattc_signed_write e conn h txom s = (BLE_HS_ENOTSUP, s))
   \<and> (MYNEWT_VAL (cfg e) BLE_GATT_SIGNED_WRITE \<longrightarrow>
        (ble_gap_conn_find e conn = (rc, d) \<and> rc \<noteq> 0 \<longrightarrow>
           ble_gattc_signed_write e conn h txom s = (rc, emit (Mbuf_free_chain txom) s))
      \<and> (ble_gap_conn_find e conn = (0, d) \<and> encrypted d \<longrightarrow>
           ble_gattc_signed_write e conn h txom s = (BLE_HS_EENCRYPT, emit (Mbuf_free_chain txom) s))
      \<and> (ble_gap_conn_find e conn = (0, d) \<and> \<not> encrypted d \<and>
           ble_store_read_our_sec e (peer_id_addr d) = (rc, v) \<and> rc \<noteq> 0 \<longrightarrow>
           ble_gattc_signed_write e conn h txom s = (rc, emit (Mbuf_free_chain txom) s))
      \<and> (ble_gap_conn_find e conn = (0, d) \<and> \<not> encrypted d \<and>
           ble_store_read_our_sec e (peer_id_addr d) = (0, v) \<and> \<not> csrk_present v \<longrightarrow>
           ble_gattc_signed_write e conn h txom s = (BLE_HS_EAUTHEN, emit (Mbuf_free_chain txom) s))
      \<and> (fst (ble_gattc_signed_write e conn h txom s) \<noteq> 0 \<longrightarrow>
           trace (snd (ble_gattc_signed_write e conn h txom s)) \<noteq> [] \<and>
           last (trace (snd (ble_gattc_signed_write e conn h txom s))) = Mbuf_free_chain txom))"
  by (auto simp: ble_gattc_signed_write_def os_mbuf_free_chain_def ble_att_clt_tx_def
      emit_def Let_def split: prod.splits)

text \<open>
  Claim C8 as worded fails in two ways. With nothing stored for the peer the call
  fails with the status of the store read, \<open>BLE_HS_ENOENT\<close>, and not with
  \<open>BLE_HS_EAUTHEN\<close>. And in a build without signed writes the call fails with
  \<open>BLE_HS_ENOTSUP\<close> and leaves the payload buffer alone.
\<close>

theorem signed_write_no_record_or_off:
  "ble_gattc_signed_write env_store_empty 1 32 [1, 2, 3] hs0
     = (BLE_HS_ENOENT, emit (Mbuf_free_chain [1, 2, 3]) hs0)
   \<and> ble_gattc_signed_write env_sign_off 1 32 [1, 2, 3] hs0 = (BLE_HS_ENOTSUP, hs0)"
  by (simp add: ble_gattc_signed_write_def os_mbuf_free_chain_def env_store_empty_def
      env_sign_off_def env0_def cfg0_def)

theorem signed_write_preconditions_witness:
  "ble_gattc_signed_write env_encrypted 1 32 [1, 2, 3] hs0
     = (BLE_HS_EENCRYPT, emit (Mbuf_free_chain [1, 2, 3]) hs0)
   \<and> ble_gattc_signed_write env_no_csrk 1 32 [1, 2, 3] hs0
     = (BLE_HS_EAUTHEN, emit (Mbuf_free_chain [1, 2, 3]) hs0)
   \<and> last (trace (snd (ble_gattc_signed_write env_no_csrk 1 32 [1, 2, 3] hs0)))
     = Mbuf_free_chain [1, 2, 3]"
proof -
  have a: "ble_gattc_signed_write env_encrypted 1 32 [1, 2, 3] hs0
     = (BLE_HS_EENCRYPT, emit (Mbuf_free_chain [1, 2, 3]) hs0)"
    using signed_write_preconditions [of env_encrypted 1 32 "[1, 2, 3]" hs0 0
        "\<lparr>encrypted = True, peer_id_addr = [1, 2, 3, 4, 5, 6]\<rparr>"]
    by (simp add: env_encrypted_def env0_def cfg0_def)
  have b: "ble_gattc_signed_write env_no_csrk 1 32 [1, 2, 3] hs0
     = (BLE_HS_EAUTHEN, emit (Mbuf_free_chain [1, 2, 3]) hs0)"
    using signed_write_preconditions [of env_no_csrk 1 32 "[1, 2, 3]" hs0 0
        "\<lparr>encrypted = False, peer_id_addr = [1, 2, 3, 4, 5, 6]\<rparr>"
        "\<lparr>csrk_present = False, csrk = replicate 16 0, sign_counter = 0\<rparr>"]
    by (simp add: env_no_csrk_def env0_def cfg0_def)
  from a b show ?thesis by (simp add: emit_def)
qed

text \<open>
  Claim C9. With multiple-handle notifications compiled in, a peer that supports them
  and a buffer to be had: a call of \<open>ble_gatts_notify_multiple_custom\<close> with a single
  tuple (\<open>chr_count\<close> is 1) whose handle is not 0 and whose value fits into the MTU
  leaves the batching loop with one tuple buffered (\<open>cur_chr_cnt\<close> is 1), and the
  final branch reads \<open>tuples[chr_count]\<close>, that is index 1 of an array of length 1.
\<close>

theorem notify_multiple_reads_past_end:
  assumes "MYNEWT_VAL (cfg e) BLE_GATT_NOTIFY_MULTIPLE" and "mbuf_alloc_ok e (trace s)"
      and "ble_hs_conn_find e conn = Some c" and "peer_cl_sup_feat_0 c AND 4 \<noteq> 0"
      and "h \<noteq> 0" and "uint (OS_MBUF_PKTLEN v) \<le> uint (ble_att_mtu e conn - 1)"
  shows "ble_gatts_notify_multiple_custom e conn [\<lparr>notif_handle = h, notif_value = Some v\<rparr>] s
           = (0, (emit (Mbuf_alloc True) s)\<lparr>fault := Some (Out_of_bounds 1)\<rparr>)"
  using assms by (simp add: notify_defs)

theorem notify_multiple_reads_past_end_witness:
  "ble_gatts_notify_multiple_custom env0 1 [\<lparr>notif_handle = 16, notif_value = Some [1, 2, 3]\<rparr>] hs0
     = (0, (emit (Mbuf_alloc True) hs0)\<lparr>fault := Some (Out_of_bounds 1)\<rparr>)"
  using notify_multiple_reads_past_end
          [of env0 hs0 1 "\<lparr>att_tx_q = [], peer_cl_sup_feat_0 = 4\<rparr>" 16 "[1, 2, 3]"]
  by (simp add: env0_def cfg0_def hs0_def OS_MBUF_PKTLEN_def)

text \<open>
  Claim C10 does not hold of the code in a build with \<open>BLE_GATTC_AUTO_PAIR\<close>. An ATT
  error response arrives for connection 1 on the ATT channel while the table of
  procedures is empty, so that no record matches: \<open>ble_gattc_rx_err\<close> assigns to
  \<open>proc->error\<close> through the null pointer the extraction has returned, before it tests
  that pointer.
\<close>

theorem rx_err_no_match_auto_pair:
  "ble_gattc_rx_err env_auto_pair 1 4 0 10 hs0 = hs0\<lparr>fault := Some Null_deref\<rparr>"
  by (simp add: ble_gattc_rx_err_def env_auto_pair_def extract_defs sample_defs)

text \<open>
  Without \<open>BLE_GATTC_AUTO_PAIR\<close> the claim holds: when no record of the table is for the
  connection and channel of the error response, \<open>ble_gattc_rx_err\<close> changes nothing.
\<close>

theorem rx_err_no_match:
  assumes off: "\<not> MYNEWT_VAL (cfg e) BLE_GATTC_AUTO_PAIR"
      and none: "\<forall>p \<in> set (ble_gattc_procs s). \<not> (conn_handle p = conn \<and> cid p = c)"
  shows "ble_gattc_rx_err e conn c h st s = s"
proof -
  from none have "\<forall>p \<in> set (ble_gattc_procs s).
      \<not> ble_gattc_proc_matches_conn_cid_op (conn, c, BLE_GATT_OP_NONE) p"
    by (auto simp: ble_gattc_proc_matches_conn_cid_op_def)
  then have "extract_scan (\<lambda>cr p. (ble_gattc_proc_matches_conn_cid_op (conn, c, BLE_GATT_OP_NONE) p, cr))
               (conn, c, BLE_GATT_OP_NONE) 1 0 (ble_gattc_procs s)
             = (ble_gattc_procs s, [], (conn, c, BLE_GATT_OP_NONE))"
    by (rule extract_scan_no_match)
  moreover have "extract_scan (\<lambda>cr p. (ble_gattc_proc_matches_conn_cid_op cr p, cr)) cr m n ps
                 = extract_scan (\<lambda>cr' p. (ble_gattc_proc_matches_conn_cid_op cr p, cr')) cr m n ps"
    for cr m n ps
    by (induction ps arbitrary: n) (auto split: prod.splits)
  ultimately have "ble_gattc_extract_first_by_conn_cid_op conn c BLE_GATT_OP_NONE s = (None, s)"
    by (simp add: ble_gattc_extract_first_by_conn_cid_op_def ble_gattc_extract_by_conn_cid_op_def
        ble_gattc_extract_def STAILQ_FIRST_def)
  with off show ?thesis by (simp add: ble_gattc_rx_err_def)
qed

end
